theory Spec2Isabelle
  imports Main "HOL-Library.AList"
begin

section \<open>The GEOM-QM9 dataset adapter (datasets/geom_qm9_dataset.py)\<close>

text \<open>
  A shallow embedding of the class \<open>GEOMqm9\<close>. Python exceptions are values of the
  type \<open>error\<close>; a method that may raise returns \<open>error + 'a\<close>, with \<open>Inl\<close> for the
  exception. Python integers and the elements of \<open>long\<close> tensors are \<open>int\<close>.
\<close>

datatype error =
    PyException string      \<comment> \<open>\<open>raise Exception(...)\<close> of the class itself\<close>
  | KeyError string
  | IndexError
  | TypeError
  | RuntimeError            \<comment> \<open>raised by the tensor library\<close>
  | ZeroDivisionError
  | FileNotFoundError
  | AttributeError string

subsection \<open>Tensor primitives used by \<open>get_pairwise\<close>\<close>

text \<open>\<open>torch.arange(n)\<close> for an integer \<open>n\<close>: the values \<open>0, ..., n - 1\<close>.\<close>

definition arange :: "int \<Rightarrow> int list" where
  "arange n = [0..n - 1]"

text \<open>\<open>torch.repeat_interleave(xs, k)\<close>: every element repeated \<open>k\<close> times in place.\<close>

definition repeat_interleave :: "'a list \<Rightarrow> nat \<Rightarrow> 'a list" where
  "repeat_interleave xs k = concat (map (replicate k) xs)"

subsection \<open>\<open>get_pairwise\<close> and its memo dictionary\<close>

type_synonym pairwise = "int \<rightharpoonup> (int list \<times> int list)"

text \<open>
  The value computed in the \<open>else\<close> branch of \<open>get_pairwise\<close> (lines 166-168):
  \<open>src\<close> and \<open>dst\<close> of the complete directed graph without self loops. The slices
  \<open>[:idx]\<close> and \<open>[idx + 1:]\<close> are taken at the non-negative indices of \<open>range(n_atoms)\<close>.
\<close>

definition pairwise_src :: "int \<Rightarrow> int list" where
  "pairwise_src n_atoms = repeat_interleave (arange n_atoms) (nat (n_atoms - 1))"

definition pairwise_dst :: "int \<Rightarrow> int list" where
  "pairwise_dst n_atoms =
     concat (map (\<lambda>idx. take (nat idx) (arange n_atoms) @ drop (nat (idx + 1)) (arange n_atoms))
                 [0..n_atoms - 1])"

text \<open>
  \<open>get_pairwise\<close> reads and writes only the field \<open>self.pairwise\<close>, so the model takes
  that dictionary and returns it updated. For \<open>n_atoms \<le> 0\<close> the tensor library
  raises: \<open>torch.cat\<close> of an empty list for \<open>0\<close>, \<open>torch.arange\<close> of a negative bound
  below.
\<close>

definition get_pairwise :: "pairwise \<Rightarrow> int \<Rightarrow> error + ((int list \<times> int list) \<times> pairwise)" where
  "get_pairwise pw n_atoms =
     (case pw n_atoms of
        Some r \<Rightarrow> Inr (r, pw)
      | None \<Rightarrow>
          if n_atoms \<le> 0 then Inl RuntimeError
          else let src = pairwise_src n_atoms; dst = pairwise_dst n_atoms
               in Inr ((src, dst), pw(n_atoms \<mapsto> (src, dst))))"

text \<open>
  The dictionary is created empty by the constructor (line 127) and written by
  \<open>get_pairwise\<close> only. \<open>pairwise_after ns\<close> is its content after the calls
  \<open>get_pairwise(n)\<close> for the \<open>n\<close> of \<open>ns\<close> in turn; a call that raises leaves it as it is.
\<close>

fun pairwise_calls :: "pairwise \<Rightarrow> int list \<Rightarrow> pairwise" where
  "pairwise_calls pw [] = pw"
| "pairwise_calls pw (n # ns) =
     (case get_pairwise pw n of
        Inl _ \<Rightarrow> pairwise_calls pw ns
      | Inr (_, pw') \<Rightarrow> pairwise_calls pw' ns)"

definition pairwise_after :: "int list \<Rightarrow> pairwise" where
  "pairwise_after ns = pairwise_calls Map.empty ns"

text \<open>Every entry of a memo dictionary written by \<open>get_pairwise\<close> is the computed value.\<close>

definition memo_ok :: "pairwise \<Rightarrow> bool" where
  "memo_ok pw = (\<forall>n r. pw n = Some r \<longrightarrow> 0 < n \<and> r = (pairwise_src n, pairwise_dst n))"

subsection \<open>Exceptions, dictionaries and tensors\<close>

text \<open>Sequencing of statements that may raise: the first exception ends the run.\<close>

definition ebind :: "error + 'a \<Rightarrow> ('a \<Rightarrow> error + 'b) \<Rightarrow> error + 'b" where
  "ebind m f = (case m of Inl e \<Rightarrow> Inl e | Inr x \<Rightarrow> f x)"

fun emap :: "('a \<Rightarrow> error + 'b) \<Rightarrow> 'a list \<Rightarrow> error + 'b list" where
  "emap f [] = Inr []"
| "emap f (x # xs) = ebind (f x) (\<lambda>y. ebind (emap f xs) (\<lambda>ys. Inr (y # ys)))"

text \<open>
  A Python dictionary with string keys is an association list in insertion order;
  \<open>d[k]\<close> raises \<open>KeyError\<close> for a missing key, \<open>d[k] = v\<close> is \<open>AList.update\<close>, and
  \<open>d.update(e)\<close> stores the items of \<open>e\<close> in turn.
\<close>

definition dict_get :: "(string \<times> 'v) list \<Rightarrow> string \<Rightarrow> error + 'v" where
  "dict_get d k = (case map_of d k of None \<Rightarrow> Inl (KeyError k) | Some v \<Rightarrow> Inr v)"

definition dict_update :: "(string \<times> 'v) list \<Rightarrow> (string \<times> 'v) list \<Rightarrow> (string \<times> 'v) list" where
  "dict_update d e = foldl (\<lambda>d' (k, v). AList.update k v d') d e"

text \<open>
  A 2-D tensor is the list of its rows. \<open>torch.cat(ts)\<close> (along dimension 0) appends
  the rows of the tensors of \<open>ts\<close> and raises on the empty list. \<open>torch.cat(ts, dim=1)\<close>
  appends the rows of equal index and raises unless all tensors have the same number
  of rows. The check that rows appended along dimension 0 have the same number of
  columns is not modelled; it can fail only for the feature arrays of the external
  chemistry library, whose shapes the model leaves open.
\<close>

definition cat_dim0 :: "'a list list \<Rightarrow> error + 'a list" where
  "cat_dim0 ts = (if ts = [] then Inl RuntimeError else Inr (concat ts))"

definition cat_dim1 :: "'a list list list \<Rightarrow> error + 'a list list" where
  "cat_dim1 ts =
     (case ts of
        [] \<Rightarrow> Inl RuntimeError
      | t # ts' \<Rightarrow>
          if list_all (\<lambda>t'. length t' = length t) ts'
          then Inr (map (\<lambda>i. concat (map (\<lambda>t'. t' ! i) ts)) [0..<length t])
          else Inl RuntimeError)"

text \<open>
  \<open>keys.argsort()\<close>: the positions of \<open>keys\<close> in increasing order of key. Equal keys
  keep their order here; in \<open>process\<close> they belong to equal columns whenever the bond
  indices are below \<open>n_atoms\<close>.
\<close>

definition argsort :: "int list \<Rightarrow> nat list" where
  "argsort ks = map snd (sort_key fst (zip ks [0..<length ks]))"

text \<open>\<open>t[perm]\<close> for a tensor of positions \<open>perm\<close>: raises when a position is out of range.\<close>

definition index_select :: "'a list \<Rightarrow> nat list \<Rightarrow> error + 'a list" where
  "index_select xs ps =
     (if list_all (\<lambda>p. p < length xs) ps then Inr (map (nth xs) ps) else Inl IndexError)"

text \<open>\<open>F.one_hot(torch.tensor(type_idx), num_classes)\<close>, one row per entry.\<close>

definition one_hot :: "nat \<Rightarrow> int list \<Rightarrow> int list list" where
  "one_hot num_classes type_idx =
     map (\<lambda>c. map (\<lambda>j. if int j = c then 1 else 0) [0..<num_classes]) type_idx"

text \<open>
  Python values as the data dictionary and the dataset object hold them. The elements
  of the tensors that hold measurements and features have the type \<open>'f\<close>, which the
  model leaves open: no claim depends on floating-point arithmetic. \<open>Tensor2\<close> and
  \<open>Tensor1\<close> are 2-D and 1-D tensors of such numbers and \<open>Scalar\<close> a 0-d one;
  \<open>Long2\<close>, \<open>Long1\<close> and \<open>LongScalar\<close> are the same for \<open>long\<close> tensors. \<open>PyFloat\<close>
  stands for the Python float \<open>avg_degree\<close>, whose value is not modelled.
\<close>

datatype 'f pyval =
    Tensor2 "'f list list"
  | Tensor1 "'f list"
  | Scalar 'f
  | Long2 "int list list"
  | Long1 "int list"
  | LongScalar int
  | StrList "string list"
  | PyStr string
  | Dict "(string \<times> 'f pyval) list"
  | PyFloat

text \<open>
  What the model needs of the tensor library beyond moving elements around; all of it
  is a parameter. \<open>to_float\<close> is the cast \<open>.float()\<close> of one element of a tensor whose
  type is not known to be \<open>float32\<close>, and \<open>of_long\<close> the float of an integer;
  \<open>device_ok\<close> says whether \<open>.to(device)\<close> succeeds for a device name;
  \<open>normal_draw n\<close> is the outcome of \<open>torch.normal\<close> for \<open>n\<close> elements and
  \<open>rand_draw k n\<close> that of the \<open>k\<close>-th call \<open>torch.rand(n)\<close> on a dataset object, with
  \<open>ge_half\<close> the test \<open>>= 0.5\<close>; the rest is arithmetic.
\<close>

record 'f numerics =
  to_float :: "'f \<Rightarrow> 'f"
  of_long :: "int \<Rightarrow> 'f"
  device_ok :: "string \<Rightarrow> bool"
  normal_draw :: "nat \<Rightarrow> 'f list"
  rand_draw :: "nat \<Rightarrow> nat \<Rightarrow> 'f list"
  ge_half :: "'f \<Rightarrow> bool"
  fsub :: "'f \<Rightarrow> 'f \<Rightarrow> 'f"
  fmul :: "'f \<Rightarrow> 'f \<Rightarrow> 'f"
  fdiv :: "'f \<Rightarrow> 'f \<Rightarrow> 'f"
  norm2 :: "'f list \<Rightarrow> 'f"
  mean0 :: "'f list list \<Rightarrow> 'f list"
  std0 :: "'f list list \<Rightarrow> 'f list"

subsection \<open>The raw records read by \<open>process\<close>\<close>

text \<open>
  An \<open>rd_mol\<close> of the chemistry toolkit, as far as \<open>process\<close> reads it: for every atom
  its symbol (\<open>GetSymbol\<close>) and its row of
  \<open>torch.tensor(GetConformer().GetPositions(), dtype=torch.float)\<close>, a position of three
  \<open>float32\<close> coordinates; and for every bond its begin and end atom index. A later
  \<open>.float()\<close> leaves such a \<open>float32\<close> position as it is.
\<close>

record 'f rd_mol =
  atoms :: "(string \<times> 'f \<times> 'f \<times> 'f) list"
  bonds :: "(int \<times> int) list"

text \<open>
  The dictionary unpickled for one molecule: \<open>mol_dict['conformers'][k]['rd_mol']\<close> and
  the scalar entries (\<open>'ensembleenergy'\<close>, ...) under their keys.
\<close>

record 'f mol_dict =
  conformers :: "'f rd_mol list"
  props :: "(string \<times> 'f) list"

text \<open>
  The two functions of the external feature library \<open>goli.features\<close> that \<open>process\<close>
  calls. They are parameters of the model: a dictionary from the requested property
  names to one value per atom, and to one row per bond.
\<close>

record 'f goli =
  get_mol_atomic_features_float :: "'f rd_mol \<Rightarrow> string list \<Rightarrow> (string \<times> 'f list) list"
  get_mol_edge_features :: "'f rd_mol \<Rightarrow> string list \<Rightarrow> (string \<times> 'f list list) list"

text \<open>
  The files under \<open>dataset/GEOM\<close>: \<open>summary_qm9.json\<close> (absent, or a dictionary from
  SMILES strings to an optional \<open>pickle_path\<close>), the pickle files by path, the cache
  \<open>processed/geom_qm9_processed.pt\<close> (absent, or a data dictionary), and what has been
  printed so far.
\<close>

record 'f world =
  summary_json :: "(string \<times> string option) list option"
  pickle_files :: "(string \<times> 'f mol_dict) list"
  processed_pt :: "(string \<times> 'f pyval) list option"
  stdout :: "string list"

subsection \<open>\<open>process\<close>: the one-time pass over the raw records\<close>

definition atom_types :: "(string \<times> int) list" where
  "atom_types = [(''H'', 0), (''C'', 1), (''N'', 2), (''O'', 3), (''F'', 4)]"

definition symbols :: "(string \<times> int) list" where
  "symbols = [(''H'', 1), (''C'', 6), (''N'', 7), (''O'', 8), (''F'', 9)]"

definition target_types :: "string list" where
  "target_types = [''ensembleenergy'', ''ensembleentropy'', ''ensemblefreeenergy'',
                   ''lowestenergy'', ''poplowestpct'', ''temperature'', ''uniqueconfs'']"

text \<open>
  The local variables of \<open>process\<close> that the loop over the summary updates (lines
  335-350), under their names with the prefix \<open>p_\<close>. \<open>avg_degree\<close> is a float and is
  left out; the division by \<open>n_atoms\<close> that updates it is kept as a source of
  \<open>ZeroDivisionError\<close>.
\<close>

record 'f locals =
  p_atom_slices :: "int list"
  p_edge_slices :: "int list"
  p_atom_one_hot :: "int list list list"
  p_atomic_numbers_long :: "int list"
  p_n_atoms_list :: "int list"
  p_e_features :: "(string \<times> 'f list list list) list"
  p_atom_float :: "(string \<times> 'f list list list) list"
  p_targets :: "(string \<times> 'f list) list"
  p_edge_indices :: "int list list list"
  p_coordinates :: "'f list list list"
  p_smiles_list :: "string list"
  p_total_atoms :: int
  p_total_edges :: int

definition init_locals :: "'f locals" where
  "init_locals =
     \<lparr> p_atom_slices = [0], p_edge_slices = [0], p_atom_one_hot = [],
       p_atomic_numbers_long = [], p_n_atoms_list = [],
       p_e_features = [(''bond-type-onehot'', []), (''stereo'', []), (''conjugated'', []),
                       (''in-ring'', [])],
       p_atom_float = [(''implicit-valence'', []), (''degree'', []), (''hybridization'', []),
                       (''chirality'', []), (''mass'', []), (''electronegativity'', []),
                       (''aromatic-bond'', []), (''formal-charge'', []),
                       (''radical-electron'', []), (''in-ring'', [])],
       p_targets = map (\<lambda>k. (k, [])) target_types,
       p_edge_indices = [], p_coordinates = [], p_smiles_list = [],
       p_total_atoms = 0, p_total_edges = 0 \<rparr>"

text \<open>Lines 361-362: \<open>atom_float[key].append(torch.tensor(item)[:, None])\<close> per item.\<close>

fun append_atom_float ::
  "(string \<times> 'f list list list) list \<Rightarrow> (string \<times> 'f list) list
   \<Rightarrow> error + (string \<times> 'f list list list) list" where
  "append_atom_float d [] = Inr d"
| "append_atom_float d ((key, item) # rest) =
     ebind (dict_get d key) (\<lambda>l.
       append_atom_float (AList.update key (l @ [map (\<lambda>x. [x]) item]) d) rest)"

text \<open>
  Lines 379-381:
  \<open>e_features[key].append(torch.tensor(item).repeat_interleave(2, dim=0)[perm])\<close>.
\<close>

fun append_e_features ::
  "(string \<times> 'f list list list) list \<Rightarrow> nat list \<Rightarrow> (string \<times> 'f list list) list
   \<Rightarrow> error + (string \<times> 'f list list list) list" where
  "append_e_features d perm [] = Inr d"
| "append_e_features d perm ((key, item) # rest) =
     ebind (dict_get d key) (\<lambda>l.
     ebind (index_select (repeat_interleave item 2) perm) (\<lambda>v.
       append_e_features (AList.update key (l @ [v]) d) perm rest))"

text \<open>Lines 383-389: \<open>targets[k].append(mol_dict[k])\<close> for the seven keys in turn.\<close>

fun append_targets ::
  "(string \<times> 'f list) list \<Rightarrow> (string \<times> 'f) list \<Rightarrow> string list
   \<Rightarrow> error + (string \<times> 'f list) list" where
  "append_targets d md [] = Inr d"
| "append_targets d md (key # rest) =
     ebind (dict_get d key) (\<lambda>l.
     ebind (dict_get md key) (\<lambda>v.
       append_targets (AList.update key (l @ [v]) d) md rest))"

text \<open>The position matrix of a conformer: one row of three columns per atom.\<close>

definition positions :: "'f rd_mol \<Rightarrow> 'f list list" where
  "positions m = map (\<lambda>(s, x, y, z). [x, y, z]) (atoms m)"

text \<open>
  Lines 390-394: the position matrices of the first at most ten conformers, filled up
  to ten with the first one, side by side.
\<close>

definition conformer_block :: "'f rd_mol list \<Rightarrow> error + 'f list list" where
  "conformer_block cs =
     (let conformers = map positions (take 10 cs);
          conformers = (if length conformers < 10
                        then conformers @ replicate (10 - length conformers) (hd conformers)
                        else conformers)
      in cat_dim1 conformers)"

text \<open>
  Lines 358-402: the body of the loop for one molecule that has a pickle file with an
  \<open>'ensembleenergy'\<close> entry.
\<close>

definition process_mol ::
  "'f goli \<Rightarrow> 'f locals \<Rightarrow> string \<Rightarrow> 'f mol_dict \<Rightarrow> error + 'f locals" where
  "process_mol gl a smiles md =
     (case conformers md of
        [] \<Rightarrow> Inl IndexError
      | mol # _ \<Rightarrow>
          let n_atoms = int (length (atoms mol)) in
          ebind (append_atom_float (p_atom_float a)
                   (get_mol_atomic_features_float gl mol (map fst (p_atom_float a)))) (\<lambda>atom_float.
          ebind (emap (\<lambda>atom. dict_get atom_types (fst atom)) (atoms mol)) (\<lambda>type_idx.
          ebind (emap (\<lambda>atom. dict_get symbols (fst atom)) (atoms mol)) (\<lambda>numbers.
          let row = concat (map (\<lambda>(start, end). [start, end]) (bonds mol));
              col = concat (map (\<lambda>(start, end). [end, start]) (bonds mol))
          in
          if n_atoms = 0 then Inl ZeroDivisionError
          else
          let perm = argsort (map2 (\<lambda>r c. r * n_atoms + c) row col);
              edge_index = [map (nth row) perm, map (nth col) perm]
          in
          ebind (append_e_features (p_e_features a) perm
                   (get_mol_edge_features gl mol (map fst (p_e_features a)))) (\<lambda>e_features.
          ebind (append_targets (p_targets a) (props md) target_types) (\<lambda>targets.
          ebind (conformer_block (conformers md)) (\<lambda>block.
          let total_edges = p_total_edges a + int (length row);
              total_atoms = p_total_atoms a + n_atoms
          in
          Inr (a \<lparr> p_atom_float := atom_float,
                  p_atomic_numbers_long := p_atomic_numbers_long a @ numbers,
                  p_e_features := e_features,
                  p_targets := targets,
                  p_coordinates := p_coordinates a @ [block],
                  p_edge_indices := p_edge_indices a @ [edge_index],
                  p_total_edges := total_edges,
                  p_total_atoms := total_atoms,
                  p_smiles_list := p_smiles_list a @ [smiles],
                  p_edge_slices := p_edge_slices a @ [total_edges],
                  p_atom_slices := p_atom_slices a @ [total_atoms],
                  p_n_atoms_list := p_n_atoms_list a @ [n_atoms],
                  p_atom_one_hot := p_atom_one_hot a @ [one_hot (length atom_types) type_idx]
                \<rparr>))))))))"

text \<open>
  Lines 352-357: the loop over \<open>summary.items()\<close>. An entry without a pickle file, or
  whose dictionary has no \<open>'ensembleenergy'\<close>, is skipped.
\<close>

fun process_loop ::
  "'f goli \<Rightarrow> (string \<times> 'f mol_dict) list \<Rightarrow> 'f locals \<Rightarrow> (string \<times> string option) list
   \<Rightarrow> error + 'f locals" where
  "process_loop gl files a [] = Inr a"
| "process_loop gl files a ((smiles, sub_dic) # rest) =
     (case sub_dic of
        None \<Rightarrow> process_loop gl files a rest
      | Some pickle_path \<Rightarrow>
          (case map_of files pickle_path of
             None \<Rightarrow> process_loop gl files a rest
           | Some md \<Rightarrow>
               if map_of (props md) ''ensembleenergy'' \<noteq> None
               then ebind (process_mol gl a smiles md) (\<lambda>a'. process_loop gl files a' rest)
               else process_loop gl files a rest))"

text \<open>Lines 403-422: the data dictionary built from the lists.\<close>

definition data_dict_of :: "'f numerics \<Rightarrow> 'f locals \<Rightarrow> error + (string \<times> 'f pyval) list" where
  "data_dict_of nm a =
     (let data_dict = dict_update (dict_update [] (p_e_features a)) (p_atom_float a) in
      ebind (emap (\<lambda>(key, v). ebind (cat_dim0 v) (\<lambda>t. Inr (key, Tensor2 t))) data_dict)
        (\<lambda>data_dict.
      let targets = map (\<lambda>(key, v). (key, Tensor2 (map (\<lambda>x. [x]) v))) (p_targets a);
          data_dict = dict_update data_dict targets
      in
      ebind (dict_get (p_e_features a) ''in-ring'') (\<lambda>in_ring.
      ebind (cat_dim0 in_ring) (\<lambda>in_ring_edges.
      ebind (cat_dim0 (p_atom_one_hot a)) (\<lambda>atomic_number.
      ebind (cat_dim1 (p_edge_indices a)) (\<lambda>edge_indices.
      ebind (cat_dim0 (p_coordinates a)) (\<lambda>coordinates.
      if p_n_atoms_list a = [] then Inl ZeroDivisionError
      else
      Inr (dict_update data_dict
            [(''smiles'', StrList (p_smiles_list a)),
             (''n_atoms'', Long1 (p_n_atoms_list a)),
             (''atom_slices'', Long1 (p_atom_slices a)),
             (''edge_slices'', Long1 (p_edge_slices a)),
             (''in-ring-edges'', Tensor2 in_ring_edges),
             (''atomic-number'', Tensor2 (map (map (of_long nm)) atomic_number)),
             (''atomic_numbers_long'', Long1 (p_atomic_numbers_long a)),
             (''edge_indices'', Long2 edge_indices),
             (''coordinates'', Tensor2 coordinates),
             (''targets'', Dict targets),
             (''avg_degree'', PyFloat)]))))))))"

text \<open>
  \<open>process\<close> (lines 328-425): prints, reads the summary, runs the loop, and saves the
  data dictionary as the cache file. The line it prints first is printed nowhere else
  in the class.
\<close>

definition processing_message :: string where
  "processing_message =
     ''processing data from (dataset/GEOM) and saving it to (dataset/GEOM/processed)''"

definition process :: "'f numerics \<Rightarrow> 'f goli \<Rightarrow> 'f world \<Rightarrow> 'f world \<times> (error + unit)" where
  "process nm gl w =
     (let w = w \<lparr> stdout := stdout w @ [processing_message] \<rparr>
      in case summary_json w of
           None \<Rightarrow> (w, Inl FileNotFoundError)
         | Some summary \<Rightarrow>
             (case ebind (process_loop gl (pickle_files w) init_locals summary) (data_dict_of nm) of
                Inl e \<Rightarrow> (w, Inl e)
              | Inr data_dict \<Rightarrow> (w \<lparr> processed_pt := Some data_dict \<rparr>, Inr ())))"

subsection \<open>Indexing and slicing of Python values\<close>

text \<open>\<open>xs[a:b]\<close> and \<open>xs[i]\<close> with Python's rules for negative and out-of-range positions.\<close>

definition py_slice :: "'a list \<Rightarrow> int \<Rightarrow> int \<Rightarrow> 'a list" where
  "py_slice xs a b =
     (let n = int (length xs);
          lo = (if a < 0 then max 0 (a + n) else min a n);
          hi = (if b < 0 then max 0 (b + n) else min b n)
      in take (nat (hi - lo)) (drop (nat lo) xs))"

definition py_nth :: "'a list \<Rightarrow> int \<Rightarrow> error + 'a" where
  "py_nth xs i =
     (let n = int (length xs); j = (if i < 0 then i + n else i)
      in if 0 \<le> j \<and> j < n then Inr (xs ! nat j) else Inl IndexError)"

text \<open>\<open>v[a:b]\<close>, \<open>v[:, a:b]\<close>, \<open>v[i]\<close> and \<open>len(v)\<close> for a value \<open>v\<close>.\<close>

fun slice_rows :: "'f pyval \<Rightarrow> int \<Rightarrow> int \<Rightarrow> error + 'f pyval" where
  "slice_rows (Tensor2 m) a b = Inr (Tensor2 (py_slice m a b))"
| "slice_rows (Tensor1 v) a b = Inr (Tensor1 (py_slice v a b))"
| "slice_rows (Long2 m) a b = Inr (Long2 (py_slice m a b))"
| "slice_rows (Long1 v) a b = Inr (Long1 (py_slice v a b))"
| "slice_rows (StrList l) a b = Inr (StrList (py_slice l a b))"
| "slice_rows (PyStr s) a b = Inr (PyStr (py_slice s a b))"
| "slice_rows (Scalar x) a b = Inl IndexError"
| "slice_rows (LongScalar x) a b = Inl IndexError"
| "slice_rows (Dict d) a b = Inl TypeError"
| "slice_rows PyFloat a b = Inl TypeError"

fun slice_cols :: "'f pyval \<Rightarrow> int \<Rightarrow> int \<Rightarrow> error + 'f pyval" where
  "slice_cols (Tensor2 m) a b = Inr (Tensor2 (map (\<lambda>r. py_slice r a b) m))"
| "slice_cols (Long2 m) a b = Inr (Long2 (map (\<lambda>r. py_slice r a b) m))"
| "slice_cols (Tensor1 v) a b = Inl IndexError"
| "slice_cols (Long1 v) a b = Inl IndexError"
| "slice_cols (Scalar x) a b = Inl IndexError"
| "slice_cols (LongScalar x) a b = Inl IndexError"
| "slice_cols (StrList l) a b = Inl TypeError"
| "slice_cols (PyStr s) a b = Inl TypeError"
| "slice_cols (Dict d) a b = Inl TypeError"
| "slice_cols PyFloat a b = Inl TypeError"

fun index_row :: "'f pyval \<Rightarrow> int \<Rightarrow> error + 'f pyval" where
  "index_row (Tensor2 m) i = ebind (py_nth m i) (\<lambda>r. Inr (Tensor1 r))"
| "index_row (Tensor1 v) i = ebind (py_nth v i) (\<lambda>x. Inr (Scalar x))"
| "index_row (Long2 m) i = ebind (py_nth m i) (\<lambda>r. Inr (Long1 r))"
| "index_row (Long1 v) i = ebind (py_nth v i) (\<lambda>x. Inr (LongScalar x))"
| "index_row (StrList l) i = ebind (py_nth l i) (\<lambda>s. Inr (PyStr s))"
| "index_row (PyStr s) i = ebind (py_nth s i) (\<lambda>c. Inr (PyStr [c]))"
| "index_row (Scalar x) i = Inl IndexError"
| "index_row (LongScalar x) i = Inl IndexError"
| "index_row (Dict d) i = Inl (KeyError ''(integer key)'')"
| "index_row PyFloat i = Inl TypeError"

fun py_len :: "'f pyval \<Rightarrow> error + int" where
  "py_len (Tensor2 m) = Inr (int (length m))"
| "py_len (Tensor1 v) = Inr (int (length v))"
| "py_len (Long2 m) = Inr (int (length m))"
| "py_len (Long1 v) = Inr (int (length v))"
| "py_len (StrList l) = Inr (int (length l))"
| "py_len (PyStr s) = Inr (int (length s))"
| "py_len (Dict d) = Inr (int (length d))"
| "py_len (Scalar x) = Inl TypeError"
| "py_len (LongScalar x) = Inl TypeError"
| "py_len PyFloat = Inl TypeError"

text \<open>
  A value used as a slice bound or as an integer: an integer tensor of a single
  element; anything else is a \<open>TypeError\<close>.
\<close>

fun as_index :: "'f pyval \<Rightarrow> error + int" where
  "as_index (LongScalar i) = Inr i"
| "as_index (Long1 v) = (case v of [i] \<Rightarrow> Inr i | _ \<Rightarrow> Inl TypeError)"
| "as_index (Long2 m) = (case m of [[i]] \<Rightarrow> Inr i | _ \<Rightarrow> Inl TypeError)"
| "as_index _ = Inl TypeError"

text \<open>\<open>v[a:b]\<close> for an attribute that may be \<open>None\<close>: \<open>None\<close> is not subscriptable.\<close>

definition slice_opt :: "'f pyval option \<Rightarrow> int \<Rightarrow> int \<Rightarrow> error + 'f pyval" where
  "slice_opt v a b = (case v of None \<Rightarrow> Inl TypeError | Some t \<Rightarrow> slice_rows t a b)"

subsection \<open>Tensor operations of the constructor\<close>

text \<open>\<open>v.float()\<close>.\<close>

fun float_cast :: "'f numerics \<Rightarrow> 'f pyval \<Rightarrow> error + 'f pyval" where
  "float_cast nm (Tensor2 m) = Inr (Tensor2 (map (map (to_float nm)) m))"
| "float_cast nm (Tensor1 v) = Inr (Tensor1 (map (to_float nm) v))"
| "float_cast nm (Scalar x) = Inr (Scalar (to_float nm x))"
| "float_cast nm (Long2 m) = Inr (Tensor2 (map (map (of_long nm)) m))"
| "float_cast nm (Long1 v) = Inr (Tensor1 (map (of_long nm) v))"
| "float_cast nm (LongScalar x) = Inr (Scalar (of_long nm x))"
| "float_cast nm _ = Inl (AttributeError ''float'')"

text \<open>
  \<open>torch.cat(ts, dim=-1)\<close> for a list of values: every entry must be a tensor; empty
  1-D tensors are skipped; the others must all be 1-D or all be 2-D, 2-D ones with the
  same number of rows. A \<open>long\<close> tensor among float tensors is cast.
\<close>

fun is_tensor :: "'f pyval \<Rightarrow> bool" where
  "is_tensor (Tensor2 m) = True"
| "is_tensor (Tensor1 v) = True"
| "is_tensor (Scalar x) = True"
| "is_tensor (Long2 m) = True"
| "is_tensor (Long1 v) = True"
| "is_tensor (LongScalar x) = True"
| "is_tensor _ = False"

fun is_empty_1d :: "'f pyval \<Rightarrow> bool" where
  "is_empty_1d (Tensor1 v) = (v = [])"
| "is_empty_1d (Long1 v) = (v = [])"
| "is_empty_1d _ = False"

fun is_long :: "'f pyval \<Rightarrow> bool" where
  "is_long (Long2 m) = True"
| "is_long (Long1 v) = True"
| "is_long (LongScalar x) = True"
| "is_long _ = False"

fun rows2 :: "'f numerics \<Rightarrow> 'f pyval \<Rightarrow> 'f list list option" where
  "rows2 nm (Tensor2 m) = Some m"
| "rows2 nm (Long2 m) = Some (map (map (of_long nm)) m)"
| "rows2 nm _ = None"

fun long_rows2 :: "'f pyval \<Rightarrow> int list list option" where
  "long_rows2 (Long2 m) = Some m"
| "long_rows2 _ = None"

fun elems1 :: "'f numerics \<Rightarrow> 'f pyval \<Rightarrow> 'f list option" where
  "elems1 nm (Tensor1 v) = Some v"
| "elems1 nm (Long1 v) = Some (map (of_long nm) v)"
| "elems1 nm _ = None"

fun long_elems1 :: "'f pyval \<Rightarrow> int list option" where
  "long_elems1 (Long1 v) = Some v"
| "long_elems1 _ = None"

definition cat_last :: "'f numerics \<Rightarrow> 'f pyval list \<Rightarrow> error + 'f pyval" where
  "cat_last nm ts =
     (if ts = [] then Inl RuntimeError
      else if \<not> list_all is_tensor ts then Inl TypeError
      else
        let us = filter (\<lambda>t. \<not> is_empty_1d t) ts in
        if us = [] then Inr (if list_all is_long ts then Long1 [] else Tensor1 [])
        else if list_all (\<lambda>t. long_rows2 t \<noteq> None) us
        then ebind (cat_dim1 (map (\<lambda>t. the (long_rows2 t)) us)) (\<lambda>m. Inr (Long2 m))
        else if list_all (\<lambda>t. rows2 nm t \<noteq> None) us
        then ebind (cat_dim1 (map (\<lambda>t. the (rows2 nm t)) us)) (\<lambda>m. Inr (Tensor2 m))
        else if list_all (\<lambda>t. long_elems1 t \<noteq> None) us
        then Inr (Long1 (concat (map (\<lambda>t. the (long_elems1 t)) us)))
        else if list_all (\<lambda>t. elems1 nm t \<noteq> None) us
        then Inr (Tensor1 (concat (map (\<lambda>t. the (elems1 nm t)) us)))
        else Inl RuntimeError)"

text \<open>
  Lines 90-95. \<open>torch.ones_like(v, dtype=torch.float)[:, None]\<close> and
  \<open>torch.normal(zeros_like(v), ones_like(v))\<close> are modelled for a 1-D tensor \<open>v\<close>, which
  is what \<open>process\<close> stores under \<open>'atomic_numbers_long'\<close>; for another kind of value
  the model reports a \<open>TypeError\<close>. The key \<open>'atomic_number_long'\<close> read for the noise
  is spelled as in the source.
\<close>

fun ones_column :: "'f numerics \<Rightarrow> 'f pyval \<Rightarrow> error + 'f pyval" where
  "ones_column nm (Long1 v) = Inr (Tensor2 (map (\<lambda>_. [of_long nm 1]) v))"
| "ones_column nm (Tensor1 v) = Inr (Tensor2 (map (\<lambda>_. [of_long nm 1]) v))"
| "ones_column nm _ = Inl TypeError"

fun normal_like :: "'f numerics \<Rightarrow> 'f pyval \<Rightarrow> error + 'f pyval" where
  "normal_like nm (Long1 v) = Inr (Tensor1 (normal_draw nm (length v)))"
| "normal_like nm (Tensor1 v) = Inr (Tensor1 (normal_draw nm (length v)))"
| "normal_like nm _ = Inl TypeError"

definition augment ::
  "'f numerics \<Rightarrow> (string \<times> 'f pyval) list \<Rightarrow> string list \<Rightarrow> string list
   \<Rightarrow> error + (string \<times> 'f pyval) list" where
  "augment nm data_dict features features3d =
     ebind (if ''constant_ones'' \<in> set features \<or> ''constant_ones'' \<in> set features3d
            then ebind (dict_get data_dict ''atomic_numbers_long'') (\<lambda>v.
                 ebind (ones_column nm v) (\<lambda>ones.
                   Inr (AList.update ''constant_ones'' ones data_dict)))
            else Inr data_dict) (\<lambda>data_dict.
     if ''standard_normal_noise'' \<in> set features \<or> ''standard_normal_noise'' \<in> set features3d
     then ebind (dict_get data_dict ''atomic_number_long'') (\<lambda>v.
          ebind (normal_like nm v) (\<lambda>noise.
            Inr (AList.update ''standard_normal_noise'' noise data_dict)))
     else Inr data_dict)"

text \<open>
  Lines 97-103: \<open>None if features == [] else torch.cat([data_dict[k] for k in
  features], dim=-1)\<close>, with \<open>.float()\<close> for the edge features.
\<close>

definition feature_tensor ::
  "'f numerics \<Rightarrow> (string \<times> 'f pyval) list \<Rightarrow> string list \<Rightarrow> error + 'f pyval option" where
  "feature_tensor nm data_dict features =
     (if features = [] then Inr None
      else ebind (emap (dict_get data_dict) features) (\<lambda>ts.
           ebind (cat_last nm ts) (\<lambda>t. Inr (Some t))))"

definition e_feature_tensor ::
  "'f numerics \<Rightarrow> (string \<times> 'f pyval) list \<Rightarrow> string list \<Rightarrow> error + 'f pyval option" where
  "e_feature_tensor nm data_dict e_features =
     (if e_features = [] then Inr None
      else ebind (emap (dict_get data_dict) e_features) (\<lambda>ts.
           ebind (cat_last nm ts) (\<lambda>t.
           ebind (float_cast nm t) (\<lambda>t. Inr (Some t)))))"

text \<open>\<open>t.to(device)\<close> for a tensor.\<close>

definition tensor_to :: "'f numerics \<Rightarrow> string \<Rightarrow> 'a \<Rightarrow> error + 'a" where
  "tensor_to nm dev t = (if device_ok nm dev then Inr t else Inl RuntimeError)"

subsection \<open>The graph library\<close>

text \<open>
  The graph library is external: its graphs are values of a type \<open>'g\<close> and its
  primitives are parameters, each of which may raise. \<open>dgl_graph (src, dst) n\<close> is
  \<open>dgl.graph((src, dst), num_nodes=n)\<close>, without \<open>num_nodes\<close> for \<open>None\<close>;
  \<open>dgl_heterograph\<close> takes the edges per relation name between atoms; \<open>graph_to\<close> is
  \<open>g.to(device)\<close>; \<open>set_ndata\<close>, \<open>set_edata\<close> are \<open>g.ndata[k] = v\<close>, \<open>g.edata[k] = v\<close>;
  \<open>set_ndata3\<close> is \<open>g.ndata[k] = v\<close> for a 3-D tensor and \<open>set_ndata_col g k v\<close> is
  \<open>g.ndata[k] = v[..., None]\<close>; \<open>set_etype_edata g e k v\<close> is
  \<open>g.edges[e].data[k] = v\<close>; \<open>set_edges_data g (u, v) k x\<close> is
  \<open>g.edges[u, v].data[k] = x\<close>. An assignment returns the graph that results; the
  model does not follow the sharing of one graph object between the list of
  prefetched graphs and a returned view.
\<close>

record ('f, 'g) dgl =
  dgl_graph :: "'f pyval \<times> 'f pyval \<Rightarrow> 'f pyval option \<Rightarrow> error + 'g"
  dgl_heterograph :: "(string \<times> 'f pyval \<times> 'f pyval) list \<Rightarrow> error + 'g"
  graph_to :: "'g \<Rightarrow> string \<Rightarrow> error + 'g"
  set_ndata :: "'g \<Rightarrow> string \<Rightarrow> 'f pyval \<Rightarrow> error + 'g"
  set_ndata3 :: "'g \<Rightarrow> string \<Rightarrow> 'f list list list \<Rightarrow> error + 'g"
  set_ndata_col :: "'g \<Rightarrow> string \<Rightarrow> 'f pyval \<Rightarrow> error + 'g"
  set_edata :: "'g \<Rightarrow> string \<Rightarrow> 'f pyval \<Rightarrow> error + 'g"
  set_etype_edata :: "'g \<Rightarrow> string \<Rightarrow> string \<Rightarrow> 'f pyval \<Rightarrow> error + 'g"
  set_edges_data :: "'g \<Rightarrow> 'f pyval \<times> 'f pyval \<Rightarrow> string \<Rightarrow> 'f pyval \<Rightarrow> error + 'g"
  get_ndata :: "'g \<Rightarrow> string \<Rightarrow> error + 'f pyval"
  graph_edges :: "'g \<Rightarrow> int list \<times> int list"
  number_of_edges :: "'g \<Rightarrow> nat"

subsection \<open>The dataset object and its constructor\<close>

text \<open>The arguments of \<open>__init__\<close>, with the prefix \<open>a_\<close>, and their default values.\<close>

record 'f args =
  a_return_types :: "string list option"
  a_features :: "string list"
  a_features3d :: "string list"
  a_e_features :: "string list"
  a_e_features3d :: "string list"
  a_pos_dir :: bool
  a_target_tasks :: "string list option"
  a_normalize :: bool
  a_device :: string
  a_dist_embedding :: bool
  a_num_radial :: int
  a_prefetch_graphs :: bool
  a_transform :: "('f pyval \<Rightarrow> error + 'f pyval) option"

definition default_args :: "'f args" where
  "default_args =
     \<lparr> a_return_types = None, a_features = [], a_features3d = [], a_e_features = [],
       a_e_features3d = [], a_pos_dir = False, a_target_tasks = None, a_normalize = True,
       a_device = ''cuda:0'', a_dist_embedding = False, a_num_radial = 6,
       a_prefetch_graphs = True, a_transform = None \<rparr>"

definition return_type_options :: "string list" where
  "return_type_options =
     [''mol_graph'', ''complete_graph'', ''mol_graph3d'', ''complete_graph3d'', ''san_graph'',
      ''mol_complete_graph'',
      ''se3Transformer_graph'', ''se3Transformer_graph3d'',
      ''pairwise_distances'', ''pairwise_distances_squared'',
      ''pairwise_indices'',
      ''raw_features'', ''coordinates'',
      ''dist_embedding'',
      ''mol_id'', ''targets'',
      ''one_hot_bond_types'', ''edge_indices'', ''smiles'', ''atomic_number_long'',
      ''conformations'', ''uniqueconfs'']"

text \<open>
  The attributes of a \<open>GEOMqm9\<close> object. An attribute that the constructor sets only
  under a condition (\<open>eig_vals\<close>, \<open>mol_graphs\<close>, \<open>targets\<close>, ...) is an option, \<open>None\<close>
  when the object has no such attribute. \<open>rng\<close> is not an attribute: it counts the
  calls of \<open>torch.rand\<close> made for the object so far.
\<close>

record ('f, 'g) geomqm9 =
  return_types :: "string list"
  normalize :: bool
  device :: string
  transform :: "('f pyval \<Rightarrow> error + 'f pyval) option"
  pos_dir :: bool
  num_radial :: int
  features_tensor :: "'f pyval option"
  features3d_tensor :: "'f pyval option"
  e_features_tensor :: "'f pyval option"
  e_features3d_tensor :: "'f pyval option"
  coordinates :: "'f pyval"
  conformations :: "'f pyval option"
  edge_indices :: "'f pyval"
  meta_dict :: "(string \<times> 'f pyval) list"
  eig_vals :: "'f pyval option"
  eig_vecs :: "'f pyval option"
  prefetch_graphs :: bool
  mol_graphs :: "'g list option"
  pairwise :: pairwise
  complete_graphs :: "'g list option"
  mol_complete_graphs :: "'g list option"
  avg_degree :: "'f pyval"
  targets :: "'f pyval option"
  targets_mean :: "'f list option"
  targets_std :: "'f list option"
  rng :: nat

text \<open>
  Printing: a step of the constructor yields the lines it printed and its result; the
  lines of a step that raises are kept.
\<close>

definition pbind ::
  "string list \<times> (error + 'a) \<Rightarrow> ('a \<Rightarrow> string list \<times> (error + 'b))
   \<Rightarrow> string list \<times> (error + 'b)" where
  "pbind m f =
     (case m of
        (out, Inl e) \<Rightarrow> (out, Inl e)
      | (out, Inr x) \<Rightarrow> (case f x of (out', r) \<Rightarrow> (out @ out', r)))"

definition plift :: "error + 'a \<Rightarrow> string list \<times> (error + 'a)" where
  "plift m = ([], m)"

definition pprint :: "string \<Rightarrow> string list \<times> (error + unit)" where
  "pprint s = ([s], Inr ())"

text \<open>
  Lines 122-126 and 197-198: the columns \<open>e_start\<close> to \<open>e_end\<close> of the edge list,
  \<open>edges[:, e_start: e_end]\<close>, and the bond graph of a molecule built from them.
\<close>

definition edge_cols :: "'f pyval \<Rightarrow> 'f pyval \<Rightarrow> 'f pyval \<Rightarrow> error + 'f pyval" where
  "edge_cols edges e_start e_end =
     ebind (as_index e_start) (\<lambda>a.
     ebind (as_index e_end) (\<lambda>b.
       slice_cols edges a b))"

definition graph_of_edges :: "('f, 'g) dgl \<Rightarrow> 'f pyval \<Rightarrow> 'f pyval \<Rightarrow> error + 'g" where
  "graph_of_edges dg ei n_atoms =
     ebind (index_row ei 0) (\<lambda>src.
     ebind (index_row ei 1) (\<lambda>dst.
       dgl_graph dg (src, dst) (Some n_atoms)))"

text \<open>\<open>range(len(self.meta_dict['edge_slices']) - 1)\<close>.\<close>

definition molecule_range :: "(string \<times> 'f pyval) list \<Rightarrow> error + int list" where
  "molecule_range meta =
     ebind (dict_get meta ''edge_slices'') (\<lambda>es.
     ebind (py_len es) (\<lambda>n. Inr [0..n - 2]))"

text \<open>\<open>self.meta_dict[k][idx]\<close>.\<close>

definition meta_at :: "(string \<times> 'f pyval) list \<Rightarrow> string \<Rightarrow> int \<Rightarrow> error + 'f pyval" where
  "meta_at meta k idx = ebind (dict_get meta k) (\<lambda>v. index_row v idx)"

text \<open>Lines 121-126: one graph per molecule.\<close>

definition prefetch_mol_graphs ::
  "('f, 'g) dgl \<Rightarrow> 'f pyval \<Rightarrow> (string \<times> 'f pyval) list \<Rightarrow> error + 'g list" where
  "prefetch_mol_graphs dg edges meta =
     ebind (molecule_range meta) (\<lambda>idxs.
       emap (\<lambda>idx.
         ebind (meta_at meta ''edge_slices'' idx) (\<lambda>e_start.
         ebind (meta_at meta ''edge_slices'' (idx + 1)) (\<lambda>e_end.
         ebind (edge_cols edges e_start e_end) (\<lambda>ei.
         ebind (meta_at meta ''n_atoms'' idx) (\<lambda>n_atoms.
           graph_of_edges dg ei n_atoms))))) idxs)"

text \<open>
  Lines 133-135 and 141-144: one complete graph per molecule from \<open>get_pairwise\<close>,
  which fills the memo dictionary on the way. \<open>hetero\<close> selects the heterograph of
  lines 143-144, whose two relations both get the pairs of \<open>get_pairwise\<close>.
\<close>

fun prefetch_complete ::
  "('f, 'g) dgl \<Rightarrow> bool \<Rightarrow> (string \<times> 'f pyval) list \<Rightarrow> pairwise \<Rightarrow> int list
   \<Rightarrow> error + ('g list \<times> pairwise)" where
  "prefetch_complete dg hetero meta pw [] = Inr ([], pw)"
| "prefetch_complete dg hetero meta pw (idx # idxs) =
     ebind (meta_at meta ''n_atoms'' idx) (\<lambda>n_atoms.
     ebind (as_index n_atoms) (\<lambda>n_atoms.
     ebind (get_pairwise pw n_atoms) (\<lambda>((src, dst), pw).
     ebind (if hetero
            then dgl_heterograph dg [(''bond'', Long1 src, Long1 dst),
                                     (''complete'', Long1 src, Long1 dst)]
            else dgl_graph dg (Long1 src, Long1 dst) None) (\<lambda>g.
     ebind (prefetch_complete dg hetero meta pw idxs) (\<lambda>(gs, pw).
       Inr (g # gs, pw))))))"

text \<open>Lines 150-157: the targets, their mean and deviation, and the normalisation.\<close>

definition init_targets ::
  "'f numerics \<Rightarrow> (string \<times> 'f pyval) list \<Rightarrow> 'f args \<Rightarrow> string list
   \<Rightarrow> error + ('f pyval option \<times> 'f list option \<times> 'f list option)" where
  "init_targets nm data_dict args rts =
     (if ''targets'' \<in> set rts
      then
        (case a_target_tasks args of
           None \<Rightarrow> Inl TypeError
         | Some target_tasks \<Rightarrow>
             ebind (py_nth target_tasks 0) (\<lambda>task.
             ebind (dict_get data_dict task) (\<lambda>v.
               case v of
                 Tensor2 m \<Rightarrow>
                   let mean = mean0 nm m; std = std0 nm m;
                       m = (if a_normalize args
                            then map (\<lambda>row. map2 (fdiv nm) (map2 (fsub nm) row mean) std) m
                            else m)
                   in ebind (tensor_to nm (a_device args) mean) (\<lambda>mean.
                      ebind (tensor_to nm (a_device args) std) (\<lambda>std.
                        Inr (Some (Tensor2 m), Some mean, Some std)))
               | _ \<Rightarrow> Inl TypeError)))
      else Inr (None, None, None))"

text \<open>
  Lines 90-157: the attributes from the loaded data dictionary. The mean and the
  deviation of the targets are modelled for a 2-D tensor, which is what \<open>process\<close>
  stores under every target name.
\<close>

definition init_fields ::
  "'f numerics \<Rightarrow> ('f, 'g) dgl \<Rightarrow> (string \<times> 'f pyval) list \<Rightarrow> 'f args \<Rightarrow> string list
   \<Rightarrow> string list \<times> (error + ('f, 'g) geomqm9)" where
  "init_fields nm dg data_dict args rts =
     pbind (plift (augment nm data_dict (a_features args) (a_features3d args))) (\<lambda>data_dict.
     pbind (plift (feature_tensor nm data_dict (a_features args))) (\<lambda>ft.
     pbind (plift (feature_tensor nm data_dict (a_features3d args))) (\<lambda>ft3d.
     pbind (plift (e_feature_tensor nm data_dict (a_e_features args))) (\<lambda>eft.
     pbind (plift (e_feature_tensor nm data_dict (a_e_features3d args))) (\<lambda>eft3d.
     pbind (plift (ebind (dict_get data_dict ''coordinates'') (\<lambda>c. slice_cols c 0 3))) (\<lambda>coords.
     pbind (plift (if ''conformations'' \<in> set rts
                   then ebind (dict_get data_dict ''coordinates'') (\<lambda>c. Inr (Some c))
                   else Inr None)) (\<lambda>confs.
     pbind (plift (dict_get data_dict ''edge_indices'')) (\<lambda>ei.
     pbind (plift (emap (\<lambda>k. ebind (dict_get data_dict k) (\<lambda>v. Inr (k, v)))
                     [''smiles'', ''edge_slices'', ''atom_slices'', ''n_atoms'', ''uniqueconfs''])) (\<lambda>meta.
     pbind (plift (if ''san_graph'' \<in> set rts
                   then ebind (dict_get data_dict ''eig_vals'') (\<lambda>vals.
                        ebind (dict_get data_dict ''eig_vecs'') (\<lambda>vecs.
                          Inr (Some vals, Some vecs)))
                   else Inr (None, None))) (\<lambda>(vals, vecs).
     pbind (if a_prefetch_graphs args \<and>
               (\<exists>rt \<in> set [''mol_graph'', ''mol_graph3d'', ''se3Transformer_graph'',
                             ''se3Transformer_graph3d'']. rt \<in> set rts)
            then pbind (pprint ''Load molecular graphs into memory (set prefetch_graphs to False to load them on the fly => slower training)'') (\<lambda>_.
                 plift (ebind (prefetch_mol_graphs dg ei meta) (\<lambda>gs. Inr (Some gs))))
            else plift (Inr None)) (\<lambda>mgs.
     pbind (if a_prefetch_graphs args \<and>
               (''complete_graph'' \<in> set rts \<or> ''complete_graph3d'' \<in> set rts \<or>
                ''san_graph'' \<in> set rts)
            then pbind (pprint ''Load complete graphs into memory (set prefetch_graphs to False to load them on the fly => slower training)'') (\<lambda>_.
                 plift (ebind (molecule_range meta) (\<lambda>idxs.
                        ebind (prefetch_complete dg False meta Map.empty idxs) (\<lambda>(gs, pw).
                          Inr (Some gs, pw)))))
            else plift (Inr (None, Map.empty))) (\<lambda>(cgs, pw).
     pbind (if a_prefetch_graphs args \<and>
               (''mol_complete_graph'' \<in> set rts \<or> ''mol_complete_graph3d'' \<in> set rts)
            then pbind (pprint ''Load mol_complete_graph graphs into memory (set prefetch_graphs to False to load them on the fly => slower training)'') (\<lambda>_.
                 plift (ebind (molecule_range meta) (\<lambda>idxs.
                        ebind (prefetch_complete dg True meta pw idxs) (\<lambda>(gs, pw).
                          Inr (Some gs, pw)))))
            else plift (Inr (None, pw))) (\<lambda>(mcgs, pw).
     pbind (pprint ''Finish loading data into memory'') (\<lambda>_.
     pbind (plift (dict_get data_dict ''avg_degree'')) (\<lambda>avg.
     pbind (plift (init_targets nm data_dict args rts)) (\<lambda>(tg, tg_mean, tg_std).
       plift (Inr
         \<lparr> return_types = rts, normalize = a_normalize args, device = a_device args,
           transform = a_transform args, pos_dir = a_pos_dir args,
           num_radial = a_num_radial args,
           features_tensor = ft, features3d_tensor = ft3d,
           e_features_tensor = eft, e_features3d_tensor = eft3d,
           coordinates = coords, conformations = confs, edge_indices = ei,
           meta_dict = meta, eig_vals = vals, eig_vecs = vecs,
           prefetch_graphs = a_prefetch_graphs args, mol_graphs = mgs,
           pairwise = pw, complete_graphs = cgs, mol_complete_graphs = mcgs,
           avg_degree = avg, targets = tg, targets_mean = tg_mean, targets_std = tg_std,
           rng = 0 \<rparr>)))))))))))))))))"

text \<open>
  \<open>__init__\<close> (lines 49-157): the default and the check of the return types, the call
  of \<open>process\<close> when the cache file does not exist, the loading of the cache file, and
  the attributes. \<open>torch.load\<close> of a missing file raises \<open>FileNotFoundError\<close>.
\<close>

definition init_return_types :: "'f args \<Rightarrow> string list" where
  "init_return_types args =
     (case a_return_types args of
        None \<Rightarrow> [''mol_graph'', ''targets'']
      | Some r \<Rightarrow> r)"

definition init ::
  "'f numerics \<Rightarrow> 'f goli \<Rightarrow> ('f, 'g) dgl \<Rightarrow> 'f world \<Rightarrow> 'f args
   \<Rightarrow> 'f world \<times> (error + ('f, 'g) geomqm9)" where
  "init nm gl dg w args =
     (let rts = init_return_types args
      in case find (\<lambda>return_type. return_type \<notin> set return_type_options) rts of
           Some return_type \<Rightarrow>
             (w, Inl (PyException (''return_type not supported: '' @ return_type)))
         | None \<Rightarrow>
             (case (if processed_pt w = None then process nm gl w else (w, Inr ())) of
                (w, Inl e) \<Rightarrow> (w, Inl e)
              | (w, Inr _) \<Rightarrow>
                  let w = w \<lparr> stdout := stdout w @ [''load pickle''] \<rparr> in
                  (case processed_pt w of
                     None \<Rightarrow> (w, Inl FileNotFoundError)
                   | Some data_dict \<Rightarrow>
                       let w = w \<lparr> stdout := stdout w @ [''finish loading''] \<rparr>
                       in (case init_fields nm dg data_dict args rts of
                             (out, r) \<Rightarrow> (w \<lparr> stdout := stdout w @ out \<rparr>, r)))))"

text \<open>\<open>__len__\<close>.\<close>

definition len :: "('f, 'g) geomqm9 \<Rightarrow> error + int" where
  "len self = ebind (dict_get (meta_dict self) ''smiles'') py_len"

subsection \<open>\<open>__getitem__\<close> and \<open>data_by_type\<close>\<close>

text \<open>What \<open>data_by_type\<close> returns: a tensor or another Python value, or a graph.\<close>

datatype ('f, 'g) view = Value "'f pyval" | Graph 'g

text \<open>
  \<open>t[start: start + n_atoms]\<close> and \<open>t[e_start: e_end]\<close>, where the bounds are the 0-d
  tensors that \<open>__getitem__\<close> read from the offset tables.
\<close>

definition atom_rows :: "'f pyval option \<Rightarrow> 'f pyval \<Rightarrow> 'f pyval \<Rightarrow> error + 'f pyval" where
  "atom_rows t start n_atoms =
     ebind (as_index start) (\<lambda>s.
     ebind (as_index n_atoms) (\<lambda>n.
       slice_opt t s (s + n)))"

definition edge_rows :: "'f pyval option \<Rightarrow> 'f pyval \<Rightarrow> 'f pyval \<Rightarrow> error + 'f pyval" where
  "edge_rows t e_start e_end =
     ebind (as_index e_start) (\<lambda>a.
     ebind (as_index e_end) (\<lambda>b.
       slice_opt t a b))"

text \<open>\<open>get_graph\<close> (lines 193-199); a missing attribute is an \<open>AttributeError\<close>.\<close>

definition get_graph ::
  "('f, 'g) dgl \<Rightarrow> ('f, 'g) geomqm9 \<Rightarrow> int \<Rightarrow> 'f pyval \<Rightarrow> 'f pyval \<Rightarrow> 'f pyval \<Rightarrow> error + 'g" where
  "get_graph dg self idx e_start e_end n_atoms =
     (if prefetch_graphs self
      then (case mol_graphs self of
              None \<Rightarrow> Inl (AttributeError ''mol_graphs'')
            | Some gs \<Rightarrow> py_nth gs idx)
      else ebind (edge_cols (edge_indices self) e_start e_end) (\<lambda>ei.
             graph_of_edges dg ei n_atoms))"

text \<open>\<open>get_complete_graph\<close> (lines 201-207); \<open>get_pairwise\<close> may write the memo.\<close>

definition get_complete_graph ::
  "('f, 'g) dgl \<Rightarrow> ('f, 'g) geomqm9 \<Rightarrow> int \<Rightarrow> 'f pyval \<Rightarrow> error + ('g \<times> ('f, 'g) geomqm9)" where
  "get_complete_graph dg self idx n_atoms =
     (if prefetch_graphs self
      then (case complete_graphs self of
              None \<Rightarrow> Inl (AttributeError ''complete_graphs'')
            | Some gs \<Rightarrow> ebind (py_nth gs idx) (\<lambda>g. Inr (g, self)))
      else ebind (as_index n_atoms) (\<lambda>n.
           ebind (get_pairwise (pairwise self) n) (\<lambda>((src, dst), pw).
           ebind (dgl_graph dg (Long1 src, Long1 dst) None) (\<lambda>g.
             Inr (g, self \<lparr> pairwise := pw \<rparr>)))))"

text \<open>\<open>get_mol_complete_graph\<close> (lines 209-217).\<close>

definition get_mol_complete_graph ::
  "('f, 'g) dgl \<Rightarrow> ('f, 'g) geomqm9 \<Rightarrow> int \<Rightarrow> 'f pyval \<Rightarrow> 'f pyval \<Rightarrow> 'f pyval
   \<Rightarrow> error + ('g \<times> ('f, 'g) geomqm9)" where
  "get_mol_complete_graph dg self idx e_start e_end n_atoms =
     (if prefetch_graphs self
      then (case mol_complete_graphs self of
              None \<Rightarrow> Inl (AttributeError ''mol_complete_graphs'')
            | Some gs \<Rightarrow> ebind (py_nth gs idx) (\<lambda>g. Inr (g, self)))
      else ebind (edge_cols (edge_indices self) e_start e_end) (\<lambda>ei.
           ebind (as_index n_atoms) (\<lambda>n.
           ebind (get_pairwise (pairwise self) n) (\<lambda>((src, dst), pw).
           ebind (index_row ei 0) (\<lambda>b_src.
           ebind (index_row ei 1) (\<lambda>b_dst.
           ebind (dgl_heterograph dg [(''bond'', b_src, b_dst),
                                      (''complete'', Long1 src, Long1 dst)]) (\<lambda>g.
             Inr (g, self \<lparr> pairwise := pw \<rparr>))))))))"

text \<open>
  The node data of a graph view: \<open>g.ndata['f'] = ft[start: start + n_atoms].to(device)\<close>
  and \<open>g.ndata['x'] = self.coordinates[start: start + n_atoms].to(device)\<close>.
\<close>

definition set_node_data ::
  "'f numerics \<Rightarrow> ('f, 'g) dgl \<Rightarrow> ('f, 'g) geomqm9 \<Rightarrow> 'g \<Rightarrow> 'f pyval option \<Rightarrow> 'f pyval \<Rightarrow> 'f pyval
   \<Rightarrow> error + 'g" where
  "set_node_data nm dg self g ft start n_atoms =
     ebind (atom_rows ft start n_atoms) (\<lambda>f.
     ebind (tensor_to nm (device self) f) (\<lambda>f.
     ebind (set_ndata dg g ''f'' f) (\<lambda>g.
     ebind (atom_rows (Some (coordinates self)) start n_atoms) (\<lambda>x.
     ebind (tensor_to nm (device self) x) (\<lambda>x.
       set_ndata dg g ''x'' x)))))"

text \<open>\<open>if eft != None: g.edata['w'] = eft[e_start: e_end].to(device)\<close>.\<close>

definition set_bond_data ::
  "'f numerics \<Rightarrow> ('f, 'g) dgl \<Rightarrow> ('f, 'g) geomqm9 \<Rightarrow> 'g \<Rightarrow> 'f pyval option \<Rightarrow> 'f pyval \<Rightarrow> 'f pyval
   \<Rightarrow> error + 'g" where
  "set_bond_data nm dg self g eft e_start e_end =
     (case eft of
        None \<Rightarrow> Inr g
      | Some t \<Rightarrow>
          ebind (edge_rows (Some t) e_start e_end) (\<lambda>w.
          ebind (tensor_to nm (device self) w) (\<lambda>w.
            set_edata dg g ''w'' w)))"

text \<open>
  \<open>g.edata['d'] = torch.norm(g.ndata['x'][g.edges()[0]] - g.ndata['x'][g.edges()[1]],
  p=2, dim=-1).unsqueeze(-1)\<close>, for float coordinates.
\<close>

definition set_distances :: "'f numerics \<Rightarrow> ('f, 'g) dgl \<Rightarrow> 'g \<Rightarrow> error + 'g" where
  "set_distances nm dg g =
     ebind (get_ndata dg g ''x'') (\<lambda>x.
       case x of
         Tensor2 m \<Rightarrow>
           ebind (emap (py_nth m) (fst (graph_edges dg g))) (\<lambda>xs.
           ebind (emap (py_nth m) (snd (graph_edges dg g))) (\<lambda>xd.
             set_edata dg g ''d''
               (Tensor2 (map2 (\<lambda>a b. [norm2 nm (map2 (fsub nm) a b)]) xs xd))))
       | _ \<Rightarrow> Inl RuntimeError)"

text \<open>The bond graph views \<open>'mol_graph'\<close> and \<open>'mol_graph3d'\<close> (lines 222-235).\<close>

definition mol_graph_view ::
  "'f numerics \<Rightarrow> ('f, 'g) dgl \<Rightarrow> ('f, 'g) geomqm9 \<Rightarrow> 'f pyval option \<Rightarrow> 'f pyval option \<Rightarrow> int
   \<Rightarrow> 'f pyval \<Rightarrow> 'f pyval \<Rightarrow> 'f pyval \<Rightarrow> 'f pyval \<Rightarrow> error + 'g" where
  "mol_graph_view nm dg self ft eft idx e_start e_end start n_atoms =
     ebind (get_graph dg self idx e_start e_end n_atoms) (\<lambda>g.
     ebind (graph_to dg g (device self)) (\<lambda>g.
     ebind (set_node_data nm dg self g ft start n_atoms) (\<lambda>g.
       set_bond_data nm dg self g eft e_start e_end)))"

text \<open>
  \<open>xs[idxs] = vs\<close> for a tensor of positions, row by row, without broadcasting of
  \<open>vs\<close>.
\<close>

definition index_put :: "'a list \<Rightarrow> int list \<Rightarrow> 'a list \<Rightarrow> error + 'a list" where
  "index_put xs idxs vs =
     (if length idxs \<noteq> length vs then Inl RuntimeError
      else if list_all (\<lambda>i. - int (length xs) \<le> i \<and> i < int (length xs)) idxs
      then Inr (foldl (\<lambda>ys (i, v). ys[nat (if i < 0 then i + int (length xs) else i) := v])
                  xs (zip idxs vs))
      else Inl IndexError)"

text \<open>
  Lines 243-249 and 258-264: the bond features spread over the pairs of the complete
  graph. A tensor without rows has no column count in the model, so the rows of
  zeros are empty then.
\<close>

definition complete_edge_features ::
  "'f numerics \<Rightarrow> ('f, 'g) geomqm9 \<Rightarrow> 'f pyval \<Rightarrow> 'f pyval \<Rightarrow> 'f pyval \<Rightarrow> 'f pyval
   \<Rightarrow> error + ('f pyval \<times> pairwise)" where
  "complete_edge_features nm self t e_start e_end n_atoms =
     ebind (edge_rows (Some t) e_start e_end) (\<lambda>bond_features.
     ebind (tensor_to nm (device self) bond_features) (\<lambda>bond_features.
       case bond_features of
         Tensor2 bf \<Rightarrow>
           ebind (as_index n_atoms) (\<lambda>n.
           let zeros = replicate (nat (n * n))
                         (replicate (case bf of [] \<Rightarrow> 0 | r # _ \<Rightarrow> length r) (of_long nm 0))
           in
           ebind (edge_cols (edge_indices self) e_start e_end) (\<lambda>ei.
           ebind (index_row ei 0) (\<lambda>r0.
           ebind (index_row ei 1) (\<lambda>r1.
             case (r0, r1) of
               (Long1 a, Long1 b) \<Rightarrow>
                 ebind (index_put zeros (map2 (\<lambda>x y. x * n + y) a b) bf) (\<lambda>e_feats.
                 ebind (get_pairwise (pairwise self) n) (\<lambda>((src, dst), pw).
                 ebind (emap (py_nth e_feats) (map2 (\<lambda>x y. x * n + y) src dst)) (\<lambda>w.
                   Inr (Tensor2 w, pw))))
             | _ \<Rightarrow> Inl TypeError))))
       | _ \<Rightarrow> Inl IndexError))"

text \<open>The complete graph views \<open>'complete_graph'\<close> and \<open>'complete_graph3d'\<close> (lines 236-265).\<close>

definition complete_graph_view ::
  "'f numerics \<Rightarrow> ('f, 'g) dgl \<Rightarrow> ('f, 'g) geomqm9 \<Rightarrow> 'f pyval option \<Rightarrow> 'f pyval option \<Rightarrow> int
   \<Rightarrow> 'f pyval \<Rightarrow> 'f pyval \<Rightarrow> 'f pyval \<Rightarrow> 'f pyval \<Rightarrow> error + ('g \<times> ('f, 'g) geomqm9)" where
  "complete_graph_view nm dg self ft eft idx e_start e_end start n_atoms =
     ebind (get_complete_graph dg self idx n_atoms) (\<lambda>(g, self).
     ebind (graph_to dg g (device self)) (\<lambda>g.
     ebind (set_node_data nm dg self g ft start n_atoms) (\<lambda>g.
     ebind (set_distances nm dg g) (\<lambda>g.
       case eft of
         None \<Rightarrow> Inr (g, self)
       | Some t \<Rightarrow>
           ebind (complete_edge_features nm self t e_start e_end n_atoms) (\<lambda>(w, pw).
           ebind (set_edata dg g ''w'' w) (\<lambda>g.
             Inr (g, self \<lparr> pairwise := pw \<rparr>)))))))"

text \<open>The view \<open>'mol_complete_graph'\<close> (lines 266-272).\<close>

definition mol_complete_graph_view ::
  "'f numerics \<Rightarrow> ('f, 'g) dgl \<Rightarrow> ('f, 'g) geomqm9 \<Rightarrow> int
   \<Rightarrow> 'f pyval \<Rightarrow> 'f pyval \<Rightarrow> 'f pyval \<Rightarrow> 'f pyval \<Rightarrow> error + ('g \<times> ('f, 'g) geomqm9)" where
  "mol_complete_graph_view nm dg self idx e_start e_end start n_atoms =
     ebind (get_mol_complete_graph dg self idx e_start e_end n_atoms) (\<lambda>(g, self).
     ebind (graph_to dg g (device self)) (\<lambda>g.
     ebind (set_node_data nm dg self g (features_tensor self) start n_atoms) (\<lambda>g.
       case e_features_tensor self of
         None \<Rightarrow> Inr (g, self)
       | Some t \<Rightarrow>
           ebind (edge_rows (Some t) e_start e_end) (\<lambda>w.
           ebind (tensor_to nm (device self) w) (\<lambda>w.
           ebind (set_etype_edata dg g ''bond'' ''w'' w) (\<lambda>g.
             Inr (g, self)))))))"

text \<open>
  \<open>a * b\<close> for two rows with broadcasting, and \<open>torch.stack([a, b], dim=-1)\<close> for two
  matrices of the same shape.
\<close>

definition mul_rows :: "'f numerics \<Rightarrow> 'f list \<Rightarrow> 'f list \<Rightarrow> error + 'f list" where
  "mul_rows nm a b =
     (if length a = length b then Inr (map2 (fmul nm) a b)
      else if length a = 1 then Inr (map (fmul nm (hd a)) b)
      else if length b = 1 then Inr (map (\<lambda>x. fmul nm x (hd b)) a)
      else Inl RuntimeError)"

definition stack_last :: "'a list list \<Rightarrow> 'a list list \<Rightarrow> error + 'a list list list" where
  "stack_last a b =
     (if map length a = map length b
      then Inr (map2 (map2 (\<lambda>x y. [x, y])) a b)
      else Inl RuntimeError)"

text \<open>
  The view \<open>'san_graph'\<close> (lines 273-294), for float eigenvalues and eigenvectors. The
  random signs are the draw that \<open>rng\<close> counts.
\<close>

definition san_edge_data ::
  "'f numerics \<Rightarrow> ('f, 'g) dgl \<Rightarrow> ('f, 'g) geomqm9 \<Rightarrow> 'g \<Rightarrow> 'f pyval \<Rightarrow> 'f pyval \<Rightarrow> error + 'g" where
  "san_edge_data nm dg self g e_start e_end =
     (case e_features_tensor self of
        None \<Rightarrow> Inr g
      | Some t \<Rightarrow>
          ebind (edge_rows (Some t) e_start e_end) (\<lambda>e_feats.
          ebind (tensor_to nm (device self) e_feats) (\<lambda>e_feats.
            case e_feats of
              Tensor2 ef \<Rightarrow>
                ebind (set_edata dg g ''w''
                         (Tensor2 (replicate (number_of_edges dg g)
                            (replicate (case ef of [] \<Rightarrow> 0 | r # _ \<Rightarrow> length r)
                               (of_long nm 0))))) (\<lambda>g.
                ebind (set_edata dg g ''real'' (Long1 (replicate (number_of_edges dg g) 0))) (\<lambda>g.
                ebind (edge_cols (edge_indices self) e_start e_end) (\<lambda>ei.
                ebind (tensor_to nm (device self) ei) (\<lambda>ei.
                ebind (index_row ei 0) (\<lambda>r0.
                ebind (index_row ei 1) (\<lambda>r1.
                ebind (set_edges_data dg g (r0, r1) ''w'' (Tensor2 ef)) (\<lambda>g.
                ebind (index_row ei 0) (\<lambda>r0.
                ebind (index_row ei 1) (\<lambda>r1.
                  set_edges_data dg g (r0, r1) ''real'' (Long1 (replicate (length ef) 1)))))))))))
            | _ \<Rightarrow> Inl IndexError)))"

definition san_graph_view ::
  "'f numerics \<Rightarrow> ('f, 'g) dgl \<Rightarrow> ('f, 'g) geomqm9 \<Rightarrow> int
   \<Rightarrow> 'f pyval \<Rightarrow> 'f pyval \<Rightarrow> 'f pyval \<Rightarrow> 'f pyval \<Rightarrow> error + ('g \<times> ('f, 'g) geomqm9)" where
  "san_graph_view nm dg self idx e_start e_end start n_atoms =
     ebind (get_complete_graph dg self idx n_atoms) (\<lambda>(g, self).
     ebind (graph_to dg g (device self)) (\<lambda>g.
     ebind (set_node_data nm dg self g (features_tensor self) start n_atoms) (\<lambda>g.
     ebind (case eig_vals self of
              None \<Rightarrow> Inl (AttributeError ''eig_vals'')
            | Some v \<Rightarrow> index_row v idx) (\<lambda>vals.
     ebind (tensor_to nm (device self) vals) (\<lambda>vals.
       case vals of
         Tensor1 vals \<Rightarrow>
           let sign_flip = map (\<lambda>r. if ge_half nm r then of_long nm 1 else of_long nm (- 1))
                             (rand_draw nm (rng self) (length vals));
               self = self \<lparr> rng := rng self + 1 \<rparr>
           in
           ebind (case eig_vecs self of
                    None \<Rightarrow> Inl (AttributeError ''eig_vecs'')
                  | Some v \<Rightarrow> atom_rows (Some v) start n_atoms) (\<lambda>vecs.
           ebind (tensor_to nm (device self) vecs) (\<lambda>vecs.
             case vecs of
               Tensor2 vecs \<Rightarrow>
                 ebind (emap (\<lambda>row. mul_rows nm row sign_flip) vecs) (\<lambda>vecs.
                 ebind (as_index n_atoms) (\<lambda>n.
                 ebind (stack_last (replicate (nat n) vals) vecs) (\<lambda>pos_enc.
                 ebind (set_ndata3 dg g ''pos_enc'' pos_enc) (\<lambda>g.
                 ebind (san_edge_data nm dg self g e_start e_end) (\<lambda>g.
                   Inr (g, self))))))
             | _ \<Rightarrow> Inl TypeError))
       | Scalar x \<Rightarrow> Inl IndexError
       | LongScalar x \<Rightarrow> Inl IndexError
       | _ \<Rightarrow> Inl TypeError)))))"

text \<open>
  The views \<open>'se3Transformer_graph'\<close> and \<open>'se3Transformer_graph3d'\<close> (lines 295-310);
  \<open>is3d\<close> says which.
\<close>

definition se3_graph_view ::
  "'f numerics \<Rightarrow> ('f, 'g) dgl \<Rightarrow> ('f, 'g) geomqm9 \<Rightarrow> bool \<Rightarrow> int
   \<Rightarrow> 'f pyval \<Rightarrow> 'f pyval \<Rightarrow> 'f pyval \<Rightarrow> 'f pyval \<Rightarrow> error + 'g" where
  "se3_graph_view nm dg self is3d idx e_start e_end start n_atoms =
     ebind (get_graph dg self idx e_start e_end n_atoms) (\<lambda>g.
     ebind (graph_to dg g (device self)) (\<lambda>g.
     ebind (atom_rows (Some (coordinates self)) start n_atoms) (\<lambda>x.
     ebind (tensor_to nm (device self) x) (\<lambda>x.
     ebind (case transform self of None \<Rightarrow> Inr x | Some f \<Rightarrow> f x) (\<lambda>x.
     ebind (set_ndata dg g ''x'' x) (\<lambda>g.
     ebind (atom_rows (if is3d then features3d_tensor self else features_tensor self)
              start n_atoms) (\<lambda>f.
     ebind (tensor_to nm (device self) f) (\<lambda>f.
     ebind (set_ndata_col dg g ''f'' f) (\<lambda>g.
     ebind (set_distances nm dg g) (\<lambda>g.
       set_bond_data nm dg self g
         (if is3d then e_features3d_tensor self else e_features_tensor self)
         e_start e_end))))))))))"

text \<open>
  \<open>data_by_type\<close> (lines 219-326). Every branch of the source returns, so its chain
  of \<open>if\<close> and \<open>elif\<close> statements is one chain of alternatives, kept in its order. The
  object is returned with the view, since a branch may write the memo or draw random
  numbers.
\<close>

definition data_by_type ::
  "'f numerics \<Rightarrow> ('f, 'g) dgl \<Rightarrow> ('f, 'g) geomqm9 \<Rightarrow> int \<Rightarrow> string
   \<Rightarrow> 'f pyval \<Rightarrow> 'f pyval \<Rightarrow> 'f pyval \<Rightarrow> 'f pyval
   \<Rightarrow> error + (('f, 'g) view \<times> ('f, 'g) geomqm9)" where
  "data_by_type nm dg self idx return_type e_start e_end start n_atoms =
     (if return_type = ''conformations'' then
        ebind (atom_rows (conformations self) start n_atoms) (\<lambda>c.
        ebind (tensor_to nm (device self) c) (\<lambda>c. Inr (Value c, self)))
      else if return_type = ''mol_graph'' then
        ebind (mol_graph_view nm dg self (features_tensor self) (e_features_tensor self)
                 idx e_start e_end start n_atoms) (\<lambda>g. Inr (Graph g, self))
      else if return_type = ''mol_graph3d'' then
        ebind (mol_graph_view nm dg self (features3d_tensor self) (e_features3d_tensor self)
                 idx e_start e_end start n_atoms) (\<lambda>g. Inr (Graph g, self))
      else if return_type = ''complete_graph'' then
        ebind (complete_graph_view nm dg self (features_tensor self) (e_features_tensor self)
                 idx e_start e_end start n_atoms) (\<lambda>(g, self). Inr (Graph g, self))
      else if return_type = ''complete_graph3d'' then
        ebind (complete_graph_view nm dg self (features3d_tensor self) (e_features3d_tensor self)
                 idx e_start e_end start n_atoms) (\<lambda>(g, self). Inr (Graph g, self))
      else if return_type = ''mol_complete_graph'' then
        ebind (mol_complete_graph_view nm dg self idx e_start e_end start n_atoms)
          (\<lambda>(g, self). Inr (Graph g, self))
      else if return_type = ''san_graph'' then
        ebind (san_graph_view nm dg self idx e_start e_end start n_atoms)
          (\<lambda>(g, self). Inr (Graph g, self))
      else if return_type = ''se3Transformer_graph'' \<or> return_type = ''se3Transformer_graph3d'' then
        ebind (se3_graph_view nm dg self (return_type = ''se3Transformer_graph3d'')
                 idx e_start e_end start n_atoms) (\<lambda>g. Inr (Graph g, self))
      else if return_type = ''raw_features'' then
        ebind (atom_rows (features_tensor self) start n_atoms) (\<lambda>t. Inr (Value t, self))
      else if return_type = ''coordinates'' then
        ebind (atom_rows (Some (coordinates self)) start n_atoms) (\<lambda>t. Inr (Value t, self))
      else if return_type = ''conformations'' then
        ebind (atom_rows (conformations self) start n_atoms) (\<lambda>t. Inr (Value t, self))
      else if return_type = ''uniqueconfs'' then
        ebind (meta_at (meta_dict self) ''uniqueconfs'' idx) (\<lambda>t. Inr (Value t, self))
      else if return_type = ''targets'' then
        (case targets self of
           None \<Rightarrow> Inl (AttributeError ''targets'')
         | Some t \<Rightarrow> ebind (index_row t idx) (\<lambda>t. Inr (Value t, self)))
      else if return_type = ''edge_indices'' then
        ebind (dict_get (meta_dict self) ''edge_indices'') (\<lambda>v.
        ebind (edge_cols v e_start e_end) (\<lambda>t. Inr (Value t, self)))
      else if return_type = ''smiles'' then
        ebind (meta_at (meta_dict self) ''smiles'' idx) (\<lambda>t. Inr (Value t, self))
      else Inl (PyException (''return type not supported: '' @ return_type)))"

text \<open>
  \<open>__getitem__\<close> (lines 172-191): the four reads of the offset tables, then the loop
  that appends one view per return type to \<open>data\<close>.
\<close>

fun getitem_loop ::
  "'f numerics \<Rightarrow> ('f, 'g) dgl \<Rightarrow> int \<Rightarrow> 'f pyval \<Rightarrow> 'f pyval \<Rightarrow> 'f pyval \<Rightarrow> 'f pyval
   \<Rightarrow> ('f, 'g) geomqm9 \<Rightarrow> string list \<Rightarrow> ('f, 'g) view list
   \<Rightarrow> error + (('f, 'g) view list \<times> ('f, 'g) geomqm9)" where
  "getitem_loop nm dg idx e_start e_end start n_atoms self [] data = Inr (data, self)"
| "getitem_loop nm dg idx e_start e_end start n_atoms self (return_type # rest) data =
     ebind (data_by_type nm dg self idx return_type e_start e_end start n_atoms) (\<lambda>(v, self).
       getitem_loop nm dg idx e_start e_end start n_atoms self rest (data @ [v]))"

definition getitem ::
  "'f numerics \<Rightarrow> ('f, 'g) dgl \<Rightarrow> ('f, 'g) geomqm9 \<Rightarrow> int
   \<Rightarrow> error + (('f, 'g) view list \<times> ('f, 'g) geomqm9)" where
  "getitem nm dg self idx =
     ebind (meta_at (meta_dict self) ''edge_slices'' idx) (\<lambda>e_start.
     ebind (meta_at (meta_dict self) ''edge_slices'' (idx + 1)) (\<lambda>e_end.
     ebind (meta_at (meta_dict self) ''atom_slices'' idx) (\<lambda>start.
     ebind (meta_at (meta_dict self) ''n_atoms'' idx) (\<lambda>n_atoms.
       getitem_loop nm dg idx e_start e_end start n_atoms self (return_types self) []))))"

subsection \<open>The retained molecules and the loop invariant of \<open>process\<close>\<close>

fun retained ::
  "(string \<times> 'f mol_dict) list \<Rightarrow> (string \<times> string option) list \<Rightarrow> 'f mol_dict list" where
  "retained files [] = []"
| "retained files ((smiles, sub_dic) # rest) =
     (case sub_dic of
        None \<Rightarrow> retained files rest
      | Some pickle_path \<Rightarrow>
          (case map_of files pickle_path of
             None \<Rightarrow> retained files rest
           | Some md \<Rightarrow>
               if map_of (props md) ''ensembleenergy'' \<noteq> None
               then md # retained files rest
               else retained files rest))"

definition n_atoms_of :: "'f mol_dict \<Rightarrow> int" where
  "n_atoms_of md = int (length (atoms (hd (conformers md))))"

definition n_bonds_of :: "'f mol_dict \<Rightarrow> int" where
  "n_bonds_of md = int (length (bonds (hd (conformers md))))"

definition slices_ok :: "int list \<Rightarrow> int list \<Rightarrow> int \<Rightarrow> bool" where
  "slices_ok sl ns t \<longleftrightarrow>
     length sl = length ns + 1 \<and> sl ! 0 = 0 \<and> last sl = t \<and> t = sum_list ns \<and>
     (\<forall>i<length ns. sl ! (i + 1) - sl ! i = ns ! i)"

definition two_rows :: "int list list \<Rightarrow> bool" where
  "two_rows ei \<longleftrightarrow> length ei = 2 \<and> length (ei ! 1) = length (ei ! 0)"

definition edge_count :: "int list list \<Rightarrow> int" where
  "edge_count ei = int (length (ei ! 0))"

definition locals_ok :: "'f locals \<Rightarrow> 'f mol_dict list \<Rightarrow> bool" where
  "locals_ok a mols \<longleftrightarrow>
     slices_ok (p_atom_slices a) (p_n_atoms_list a) (p_total_atoms a) \<and>
     p_n_atoms_list a = map n_atoms_of mols \<and>
     slices_ok (p_edge_slices a) (map edge_count (p_edge_indices a)) (p_total_edges a) \<and>
     map edge_count (p_edge_indices a) = map (\<lambda>md. 2 * n_bonds_of md) mols \<and>
     list_all two_rows (p_edge_indices a) \<and>
     length (p_smiles_list a) = length mols \<and>
     list_all2 (\<lambda>block md. conformer_block (conformers md) = Inr block) (p_coordinates a) mols \<and>
     list_all (\<lambda>md. 0 < n_atoms_of md) mols"


text \<open>
  How often \<open>process\<close> was entered between two states of the files, counted by the
  line that only \<open>process\<close> prints.
\<close>

definition process_runs :: "'f world \<Rightarrow> 'f world \<Rightarrow> nat" where
  "process_runs w w' =
     count_list (stdout w') processing_message - count_list (stdout w) processing_message"

text \<open>The lines that the constructor prints after it has loaded the cache file.\<close>

definition init_lines :: "string set" where
  "init_lines =
     {''Load molecular graphs into memory (set prefetch_graphs to False to load them on the fly => slower training)'',
      ''Load complete graphs into memory (set prefetch_graphs to False to load them on the fly => slower training)'',
      ''Load mol_complete_graph graphs into memory (set prefetch_graphs to False to load them on the fly => slower training)'',
      ''Finish loading data into memory''}"

subsection \<open>What a call of \<open>data_by_type\<close> may change\<close>

text \<open>
  \<open>data_by_type\<close> writes only two attributes of the object: the memo \<open>pairwise\<close> of
  \<open>get_pairwise\<close>, and the state of the random number generator that \<open>'san_graph'\<close>
  draws the signs from. \<open>frame self s\<close> says that \<open>s\<close> is \<open>self\<close> up to these two.
\<close>

definition frame :: "('f, 'g) geomqm9 \<Rightarrow> ('f, 'g) geomqm9 \<Rightarrow> bool" where
  "frame self s \<longleftrightarrow> s = self \<lparr> pairwise := pairwise s, rng := rng s \<rparr>"

subsection \<open>A small dataset for concrete runs\<close>

text \<open>
  Two molecules with pickle files and all target entries (water with two conformers,
  hydrogen fluoride with one), one summary entry without a pickle path, and one whose
  dictionary has no \<open>'ensembleenergy'\<close>. The numbers are integers here, and the
  external feature functions return one constant per atom and per bond.
\<close>

definition example_numerics :: "int numerics" where
  "example_numerics =
     \<lparr> to_float = (\<lambda>x. x), of_long = (\<lambda>x. x), device_ok = (\<lambda>d. d = ''cpu''),
       normal_draw = (\<lambda>n. replicate n 0), rand_draw = (\<lambda>k n. replicate n 1),
       ge_half = (\<lambda>x. 1 \<le> x), fsub = (\<lambda>x y. x - y), fmul = (\<lambda>x y. x * y),
       fdiv = (\<lambda>x y. x div y), norm2 = (\<lambda>xs. sum_list (map abs xs)),
       mean0 = (\<lambda>m. if m = [] then [] else hd m),
       std0 = (\<lambda>m. if m = [] then [] else map (\<lambda>_. 1) (hd m)) \<rparr>"

definition example_goli :: "int goli" where
  "example_goli =
     \<lparr> get_mol_atomic_features_float = (\<lambda>m ks. map (\<lambda>k. (k, map (\<lambda>_. 7) (atoms m))) ks),
       get_mol_edge_features = (\<lambda>m ks. map (\<lambda>k. (k, map (\<lambda>_. [8]) (bonds m))) ks) \<rparr>"

definition example_water :: "int rd_mol list" where
  "example_water =
     [\<lparr> atoms = [(''O'', 0, 0, 0), (''H'', 1, 0, 0), (''H'', 0, 1, 0)], bonds = [(1, 0), (0, 2)] \<rparr>,
      \<lparr> atoms = [(''O'', 0, 0, 5), (''H'', 1, 0, 5), (''H'', 0, 1, 5)], bonds = [(1, 0), (0, 2)] \<rparr>]"

definition example_hf :: "int rd_mol list" where
  "example_hf = [\<lparr> atoms = [(''H'', 0, 0, 0), (''F'', 2, 0, 0)], bonds = [(0, 1)] \<rparr>]"

definition example_world :: "int world" where
  "example_world =
     \<lparr> summary_json = Some [(''O'', Some ''a.pickle''), (''X'', None),
                             (''F'', Some ''b.pickle''), (''Y'', Some ''c.pickle'')],
       pickle_files =
         [(''a.pickle'', \<lparr> conformers = example_water, props = map (\<lambda>k. (k, 3)) target_types \<rparr>),
          (''b.pickle'', \<lparr> conformers = example_hf, props = map (\<lambda>k. (k, 4)) target_types \<rparr>),
          (''c.pickle'', \<lparr> conformers = example_hf, props = [] \<rparr>)],
       processed_pt = None,
       stdout = [] \<rparr>"

text \<open>
  A stand-in for the graph library: a graph is the association list of what was put
  into it, and only the device \<open>cpu\<close> exists.
\<close>

definition example_dgl :: "(int, (string \<times> int pyval) list) dgl" where
  "example_dgl =
     \<lparr> dgl_graph = (\<lambda>(src, dst) n.
         Inr ([(''src'', src), (''dst'', dst)] @
              (case n of None \<Rightarrow> [] | Some k \<Rightarrow> [(''num_nodes'', k)]))),
       dgl_heterograph = (\<lambda>rels.
         Inr (concat (map (\<lambda>(r, s, d). [(r @ ''.src'', s), (r @ ''.dst'', d)]) rels))),
       graph_to = (\<lambda>g dev. if dev = ''cpu'' then Inr g else Inl RuntimeError),
       set_ndata = (\<lambda>g k v. Inr (AList.update (''ndata.'' @ k) v g)),
       set_ndata3 = (\<lambda>g k v. Inr (AList.update (''ndata.'' @ k) (Tensor2 (concat v)) g)),
       set_ndata_col = (\<lambda>g k v. Inr (AList.update (''ndata.'' @ k) v g)),
       set_edata = (\<lambda>g k v. Inr (AList.update (''edata.'' @ k) v g)),
       set_etype_edata = (\<lambda>g e k v. Inr (AList.update (e @ ''.edata.'' @ k) v g)),
       set_edges_data = (\<lambda>g uv k v. Inr (AList.update (''edges.'' @ k) v g)),
       get_ndata = (\<lambda>g k. dict_get g (''ndata.'' @ k)),
       graph_edges = (\<lambda>g.
         case (map_of g ''src'', map_of g ''dst'') of
           (Some (Long1 s), Some (Long1 d)) \<Rightarrow> (s, d)
         | _ \<Rightarrow> ([], [])),
       number_of_edges = (\<lambda>g.
         case map_of g ''src'' of Some (Long1 s) \<Rightarrow> length s | _ \<Rightarrow> 0) \<rparr>"

section \<open>Properties of \<open>get_pairwise\<close>\<close>

lemma length_arange: "length (arange n) = nat n"
  by (simp add: arange_def)

lemma take_arange: "0 \<le> i \<Longrightarrow> i < n \<Longrightarrow> take (nat i) (arange n) = [0..i - 1]"
proof -
  assume a: "0 \<le> i" "i < n"
  then have "[0..n - 1] = [0..i - 1] @ i # [i + 1..n - 1]"
    by (intro upto_split3) auto
  moreover have "length [0..i - 1] = nat i" using a by simp
  ultimately show ?thesis by (simp add: arange_def)
qed

lemma drop_arange: "0 \<le> i \<Longrightarrow> i < n \<Longrightarrow> drop (nat (i + 1)) (arange n) = [i + 1..n - 1]"
proof -
  assume a: "0 \<le> i" "i < n"
  then have "[0..n - 1] = [0..i] @ [i + 1..n - 1]"
    by (intro upto_split2) auto
  moreover have "length [0..i] = nat (i + 1)" using a by simp
  ultimately show ?thesis by (simp add: arange_def)
qed

lemma filter_neq_upto:
  assumes "0 \<le> i" "i < n"
  shows "filter (\<lambda>j. j \<noteq> i) [0..n - 1] = [0..i - 1] @ [i + 1..n - 1]"
proof -
  have "[0..n - 1] = [0..i - 1] @ i # [i + 1..n - 1]"
    using assms by (intro upto_split3) auto
  moreover have "filter (\<lambda>j. j \<noteq> i) [0..i - 1] = [0..i - 1]"
    by (rule filter_True) auto
  moreover have "filter (\<lambda>j. j \<noteq> i) [i + 1..n - 1] = [i + 1..n - 1]"
    by (rule filter_True) auto
  ultimately show ?thesis by simp
qed

lemma pairwise_dst_filter:
  "pairwise_dst n = concat (map (\<lambda>i. filter (\<lambda>j. j \<noteq> i) [0..n - 1]) [0..n - 1])"
proof -
  have "map (\<lambda>idx. take (nat idx) (arange n) @ drop (nat (idx + 1)) (arange n)) [0..n - 1]
      = map (\<lambda>i. filter (\<lambda>j. j \<noteq> i) [0..n - 1]) [0..n - 1]"
    by (rule map_cong) (auto simp: take_arange drop_arange filter_neq_upto)
  then show ?thesis by (simp only: pairwise_dst_def)
qed

lemma pairwise_src_replicate:
  "pairwise_src n = concat (map (\<lambda>i. replicate (nat (n - 1)) i) [0..n - 1])"
  by (simp add: pairwise_src_def repeat_interleave_def arange_def)

lemma length_filter_neq_upto:
  "0 \<le> i \<Longrightarrow> i < n \<Longrightarrow> length (filter (\<lambda>j. j \<noteq> i) [0..n - 1]) = nat (n - 1)"
  by (simp add: filter_neq_upto)

lemma zip_concat_map:
  "(\<And>x. x \<in> set xs \<Longrightarrow> length (f x) = length (g x)) \<Longrightarrow>
   zip (concat (map f xs)) (concat (map g xs)) = concat (map (\<lambda>x. zip (f x) (g x)) xs)"
  by (induction xs) auto

lemma zip_pairwise:
  "zip (pairwise_src n) (pairwise_dst n)
   = concat (map (\<lambda>i. map (Pair i) (filter (\<lambda>j. j \<noteq> i) [0..n - 1])) [0..n - 1])"
proof -
  have "zip (pairwise_src n) (pairwise_dst n)
      = concat (map (\<lambda>i. zip (replicate (nat (n - 1)) i) (filter (\<lambda>j. j \<noteq> i) [0..n - 1]))
                    [0..n - 1])"
    unfolding pairwise_src_replicate pairwise_dst_filter
    by (rule zip_concat_map) (simp add: length_filter_neq_upto)
  also have "\<dots> = concat (map (\<lambda>i. map (Pair i) (filter (\<lambda>j. j \<noteq> i) [0..n - 1])) [0..n - 1])"
    by (rule arg_cong [where f = concat], rule map_cong)
       (auto simp: zip_replicate1 length_filter_neq_upto)
  finally show ?thesis .
qed

lemma set_zip_pairwise:
  "set (zip (pairwise_src n) (pairwise_dst n))
   = {(i, j). 0 \<le> i \<and> i < n \<and> 0 \<le> j \<and> j < n \<and> i \<noteq> j}"
  unfolding zip_pairwise by auto

lemma distinct_concat_Pair:
  "distinct xs \<Longrightarrow> (\<And>x. distinct (g x)) \<Longrightarrow>
   distinct (concat (map (\<lambda>x. map (Pair x) (g x)) xs))"
  by (induction xs) (auto simp: distinct_map inj_on_def)

lemma distinct_zip_pairwise: "distinct (zip (pairwise_src n) (pairwise_dst n))"
  unfolding zip_pairwise by (rule distinct_concat_Pair) auto

lemma length_concat_const:
  "(\<And>x. x \<in> set xs \<Longrightarrow> length (f x) = k) \<Longrightarrow> length (concat (map f xs)) = length xs * k"
  by (induction xs) auto

lemma length_pairwise_src: "1 \<le> n \<Longrightarrow> length (pairwise_src n) = nat (n * (n - 1))"
  unfolding pairwise_src_replicate
  by (subst length_concat_const [where k = "nat (n - 1)"]) (auto simp: nat_mult_distrib)

lemma length_pairwise_dst: "1 \<le> n \<Longrightarrow> length (pairwise_dst n) = nat (n * (n - 1))"
  unfolding pairwise_dst_filter
  by (subst length_concat_const [where k = "nat (n - 1)"])
     (auto simp: nat_mult_distrib length_filter_neq_upto)

lemma memo_okD:
  "memo_ok pw \<Longrightarrow> pw n = Some r \<Longrightarrow> 0 < n \<and> r = (pairwise_src n, pairwise_dst n)"
  unfolding memo_ok_def by blast

lemma memo_ok_empty: "memo_ok Map.empty"
  by (simp add: memo_ok_def)

lemma get_pairwise_memo_ok:
  "memo_ok pw \<Longrightarrow> get_pairwise pw n = Inr (r, pw') \<Longrightarrow> memo_ok pw'"
  by (auto simp: get_pairwise_def memo_ok_def Let_def split: option.splits if_splits)

lemma pairwise_calls_memo_ok: "memo_ok pw \<Longrightarrow> memo_ok (pairwise_calls pw ns)"
proof (induction ns arbitrary: pw)
  case Nil
  then show ?case by simp
next
  case (Cons n ns)
  show ?case
  proof (cases "get_pairwise pw n")
    case (Inl e)
    then show ?thesis using Cons by simp
  next
    case (Inr p)
    then obtain r pw' where "get_pairwise pw n = Inr (r, pw')" by (cases p) auto
    then show ?thesis using Cons get_pairwise_memo_ok [of pw n r pw'] by simp
  qed
qed

lemma pairwise_after_memo_ok: "memo_ok (pairwise_after ns)"
  by (simp add: pairwise_after_def pairwise_calls_memo_ok memo_ok_empty)

lemma get_pairwise_result:
  "memo_ok pw \<Longrightarrow> 1 \<le> n \<Longrightarrow>
   \<exists>pw'. get_pairwise pw n = Inr ((pairwise_src n, pairwise_dst n), pw')"
  by (auto simp: get_pairwise_def memo_ok_def Let_def split: option.splits)


lemma get_pairwise_fresh:
  "memo_ok pw \<Longrightarrow>
   map_sum id fst (get_pairwise pw n) = map_sum id fst (get_pairwise Map.empty n)"
proof (cases "pw n")
  case None
  then show ?thesis by (simp add: get_pairwise_def Let_def)
next
  case (Some r)
  assume "memo_ok pw"
  with Some have "0 < n" "r = (pairwise_src n, pairwise_dst n)"
    using memo_okD [of pw n r] by simp_all
  with Some show ?thesis by (simp add: get_pairwise_def Let_def)
qed

section \<open>Claims about \<open>get_pairwise\<close>\<close>

text \<open>
  C1. For every integer \<open>n_atoms \<ge> 1\<close>, and whatever calls of \<open>get_pairwise\<close> came
  before on the same object, \<open>get_pairwise(n_atoms)\<close> returns a pair \<open>(src, dst)\<close> of
  index sequences of length \<open>n_atoms * (n_atoms - 1)\<close> each, which together list every
  ordered pair \<open>(i, j)\<close> with \<open>0 \<le> i, j < n_atoms\<close> and \<open>i \<noteq> j\<close> exactly once: \<open>src\<close>
  repeats each \<open>i\<close> exactly \<open>n_atoms - 1\<close> times in increasing order of \<open>i\<close>, and \<open>dst\<close>
  lists, for each \<open>i\<close>, all \<open>j \<noteq> i\<close> in increasing order.
\<close>

theorem get_pairwise_complete_graph:
  assumes "1 \<le> n_atoms"
  shows "\<exists>src dst pw'.
           get_pairwise (pairwise_after ns) n_atoms = Inr ((src, dst), pw')
         \<and> length src = nat (n_atoms * (n_atoms - 1))
         \<and> length dst = nat (n_atoms * (n_atoms - 1))
         \<and> distinct (zip src dst)
         \<and> set (zip src dst) = {(i, j). 0 \<le> i \<and> i < n_atoms \<and> 0 \<le> j \<and> j < n_atoms \<and> i \<noteq> j}
         \<and> src = concat (map (\<lambda>i. replicate (nat (n_atoms - 1)) i) [0..n_atoms - 1])
         \<and> dst = concat (map (\<lambda>i. filter (\<lambda>j. j \<noteq> i) [0..n_atoms - 1]) [0..n_atoms - 1])"
proof -
  obtain pw' where g:
    "get_pairwise (pairwise_after ns) n_atoms
       = Inr ((pairwise_src n_atoms, pairwise_dst n_atoms), pw')"
    using get_pairwise_result [OF pairwise_after_memo_ok assms] by blast
  show ?thesis
    apply (rule exI [of _ "pairwise_src n_atoms"])
    apply (rule exI [of _ "pairwise_dst n_atoms"])
    apply (rule exI [of _ pw'])
    apply (intro conjI)
          apply (rule g)
         apply (rule length_pairwise_src [OF assms])
        apply (rule length_pairwise_dst [OF assms])
       apply (rule distinct_zip_pairwise)
      apply (rule set_zip_pairwise)
     apply (rule pairwise_src_replicate)
    apply (rule pairwise_dst_filter)
    done
qed


theorem get_pairwise_complete_graph_witness:
  "(1::int) \<le> 3 \<and>
   (\<exists>pw'. get_pairwise (pairwise_after [2, 0]) 3
            = Inr (([0, 0, 1, 1, 2, 2], [1, 2, 0, 2, 0, 1]), pw'))"
proof -
  have h: "(1::int) \<le> 3" by simp
  have e1: "concat (map (\<lambda>i. replicate (nat (3 - 1)) i) [0..(3::int) - 1]) = [0, 0, 1, 1, 2, 2]"
    by code_simp
  have e2: "concat (map (\<lambda>i. filter (\<lambda>j. j \<noteq> i) [0..(3::int) - 1]) [0..(3::int) - 1])
            = [1, 2, 0, 2, 0, 1]"
    by code_simp
  obtain src dst pw' where
    g: "get_pairwise (pairwise_after [2, 0]) 3 = Inr ((src, dst), pw')"
    and s: "src = concat (map (\<lambda>i. replicate (nat (3 - 1)) i) [0..(3::int) - 1])"
    and d: "dst = concat (map (\<lambda>i. filter (\<lambda>j. j \<noteq> i) [0..(3::int) - 1]) [0..(3::int) - 1])"
    using get_pairwise_complete_graph [OF h, of "[2, 0]"] by blast
  from g have "get_pairwise (pairwise_after [2, 0]) 3
            = Inr (([0, 0, 1, 1, 2, 2], [1, 2, 0, 2, 0, 1]), pw')"
    unfolding s d e1 e2 .
  with h show ?thesis by blast
qed


text \<open>
  C6. The result of \<open>get_pairwise\<close> for a given \<open>n_atoms\<close> does not depend on what the
  memo dictionary holds: after any sequence of earlier calls, a call returns (or
  raises) exactly what a computation on the empty dictionary does, a call that finds
  its key in the dictionary included, and any two calls with the same \<open>n_atoms\<close> have
  the same outcome.
\<close>

theorem get_pairwise_memo_independent:
  "map_sum id fst (get_pairwise (pairwise_after ns) n_atoms)
     = map_sum id fst (get_pairwise Map.empty n_atoms)
   \<and> map_sum id fst (get_pairwise (pairwise_after ns) n_atoms)
     = map_sum id fst (get_pairwise (pairwise_after ms) n_atoms)
   \<and> (case pairwise_after ns n_atoms of
        None \<Rightarrow> True
      | Some r \<Rightarrow> get_pairwise Map.empty n_atoms = Inr (r, [n_atoms \<mapsto> r]))"
proof -
  have a: "map_sum id fst (get_pairwise (pairwise_after ks) n_atoms)
             = map_sum id fst (get_pairwise Map.empty n_atoms)" for ks
    by (rule get_pairwise_fresh) (rule pairwise_after_memo_ok)
  have b: "get_pairwise Map.empty n_atoms = Inr (r, [n_atoms \<mapsto> r])"
    if "pairwise_after ns n_atoms = Some r" for r
    using memo_okD [OF pairwise_after_memo_ok that]
    by (simp add: get_pairwise_def Let_def)
  have c: "(case pairwise_after ns n_atoms of
        None \<Rightarrow> True
      | Some r \<Rightarrow> get_pairwise Map.empty n_atoms = Inr (r, [n_atoms \<mapsto> r]))"
    by (cases "pairwise_after ns n_atoms") (simp_all add: b)
  show ?thesis
    by (intro conjI) (simp_all only: a c)
qed


theorem get_pairwise_memo_independent_witness:
  "pairwise_after [3, 2] 3 = Some ([0, 0, 1, 1, 2, 2], [1, 2, 0, 2, 0, 1]) \<and>
   get_pairwise (pairwise_after [3, 2]) 3
     = Inr (([0, 0, 1, 1, 2, 2], [1, 2, 0, 2, 0, 1]), pairwise_after [3, 2]) \<and>
   map_sum id fst (get_pairwise Map.empty 3)
     = Inr ([0, 0, 1, 1, 2, 2], [1, 2, 0, 2, 0, 1])"
proof -
  have s: "pairwise_src 3 = [0, 0, 1, 1, 2, 2]" by code_simp
  have d: "pairwise_dst 3 = [1, 2, 0, 2, 0, 1]" by code_simp
  have s2: "pairwise_src 2 = [0, 1]" by code_simp
  have d2: "pairwise_dst 2 = [1, 0]" by code_simp
  have g3: "get_pairwise Map.empty 3
    = Inr (([0, 0, 1, 1, 2, 2], [1, 2, 0, 2, 0, 1]),
           [3 \<mapsto> ([0, 0, 1, 1, 2, 2], [1, 2, 0, 2, 0, 1])])"
    by (simp add: get_pairwise_def s d Let_def)
  have g2: "get_pairwise [3 \<mapsto> ([0, 0, 1, 1, 2, 2], [1, 2, 0, 2, 0, 1])] 2
    = Inr (([0, 1], [1, 0]),
           [3 \<mapsto> ([0, 0, 1, 1, 2, 2], [1, 2, 0, 2, 0, 1]), 2 \<mapsto> ([0, 1], [1, 0])])"
    by (simp add: get_pairwise_def s2 d2 Let_def)
  have m: "pairwise_after [3, 2] 3 = Some ([0, 0, 1, 1, 2, 2], [1, 2, 0, 2, 0, 1])"
    by (simp add: pairwise_after_def g3 g2)
  have g: "get_pairwise (pairwise_after [3, 2]) 3
     = Inr (([0, 0, 1, 1, 2, 2], [1, 2, 0, 2, 0, 1]), pairwise_after [3, 2])"
    by (simp add: get_pairwise_def m)
  from get_pairwise_memo_independent [of "[3, 2]" 3 "[]"] have
    "map_sum id fst (get_pairwise (pairwise_after [3, 2]) 3)
       = map_sum id fst (get_pairwise Map.empty 3)" by blast
  then have "map_sum id fst (get_pairwise Map.empty 3)
     = Inr ([0, 0, 1, 1, 2, 2], [1, 2, 0, 2, 0, 1])"
    by (simp add: g)
  with m g show ?thesis by blast
qed

section \<open>Properties of \<open>process\<close>\<close>

lemma ebind_Inr_iff: "ebind m f = Inr y \<longleftrightarrow> (\<exists>x. m = Inr x \<and> f x = Inr y)"
  by (cases m) (simp_all add: ebind_def)

lemma length_bond_rows:
  "length (concat (map (\<lambda>(start, end). [start, end]) bs)) = 2 * length bs"
  "length (concat (map (\<lambda>(start, end). [end, start]) bs)) = 2 * length bs"
  by (induction bs) auto

lemma length_argsort: "length (argsort ks) = length ks"
  by (simp add: argsort_def)

lemma process_mol_Inr:
  assumes "process_mol gl a smiles md = Inr a'"
  shows "\<exists>mol rest block ei.
      conformers md = mol # rest \<and> atoms mol \<noteq> []
    \<and> conformer_block (conformers md) = Inr block
    \<and> length ei = 2 \<and> length (ei ! 0) = 2 * length (bonds mol)
    \<and> length (ei ! 1) = 2 * length (bonds mol)
    \<and> p_atom_slices a' = p_atom_slices a @ [p_total_atoms a + int (length (atoms mol))]
    \<and> p_total_atoms a' = p_total_atoms a + int (length (atoms mol))
    \<and> p_n_atoms_list a' = p_n_atoms_list a @ [int (length (atoms mol))]
    \<and> p_edge_slices a' = p_edge_slices a @ [p_total_edges a + 2 * int (length (bonds mol))]
    \<and> p_total_edges a' = p_total_edges a + 2 * int (length (bonds mol))
    \<and> p_edge_indices a' = p_edge_indices a @ [ei]
    \<and> p_coordinates a' = p_coordinates a @ [block]
    \<and> p_smiles_list a' = p_smiles_list a @ [smiles]"
proof (cases "conformers md")
  case Nil
  with assms show ?thesis by (simp add: process_mol_def)
next
  case (Cons mol rest)
  with assms show ?thesis
    by (auto simp: process_mol_def Let_def ebind_Inr_iff length_bond_rows length_argsort
             split: if_splits)
qed


lemma slices_ok_snoc:
  assumes "slices_ok sl ns t"
  shows "slices_ok (sl @ [t + n]) (ns @ [n]) (t + n)"
proof -
  from assms have len: "length sl = length ns + 1" and z: "sl ! 0 = 0"
    and l: "last sl = t" and s: "t = sum_list ns"
    and d: "\<And>i. i < length ns \<Longrightarrow> sl ! (i + 1) - sl ! i = ns ! i"
    by (auto simp: slices_ok_def)
  from len have ne: "sl \<noteq> []" by auto
  have lst: "sl ! length ns = t"
    using l len ne by (simp add: last_conv_nth)
  have "(sl @ [t + n]) ! (i + 1) - (sl @ [t + n]) ! i = (ns @ [n]) ! i"
    if "i < length (ns @ [n])" for i
  proof (cases "i < length ns")
    case True
    then show ?thesis using d [OF True] len by (simp add: nth_append)
  next
    case False
    with that have "i = length ns" by simp
    then show ?thesis using len lst by (simp add: nth_append)
  qed
  then show ?thesis
    using len z s ne unfolding slices_ok_def by (simp add: nth_append)
qed

lemma slices_ok_init: "slices_ok [0] [] 0"
  by (simp add: slices_ok_def)

lemma locals_ok_init: "locals_ok init_locals []"
  by (simp add: locals_ok_def init_locals_def slices_ok_init)

lemma locals_ok_step:
  assumes ok: "locals_ok a mols" and p: "process_mol gl a smiles md = Inr a'"
  shows "locals_ok a' (mols @ [md])"
proof -
  from process_mol_Inr [OF p] obtain mol rest block ei where
    c: "conformers md = mol # rest" and ne: "atoms mol \<noteq> []"
    and b: "conformer_block (conformers md) = Inr block"
    and e: "length ei = 2" "length (ei ! 0) = 2 * length (bonds mol)"
           "length (ei ! 1) = 2 * length (bonds mol)"
    and f: "p_atom_slices a' = p_atom_slices a @ [p_total_atoms a + int (length (atoms mol))]"
           "p_total_atoms a' = p_total_atoms a + int (length (atoms mol))"
           "p_n_atoms_list a' = p_n_atoms_list a @ [int (length (atoms mol))]"
           "p_edge_slices a' = p_edge_slices a @ [p_total_edges a + 2 * int (length (bonds mol))]"
           "p_total_edges a' = p_total_edges a + 2 * int (length (bonds mol))"
           "p_edge_indices a' = p_edge_indices a @ [ei]"
           "p_coordinates a' = p_coordinates a @ [block]"
           "p_smiles_list a' = p_smiles_list a @ [smiles]"
    by blast
  have na: "n_atoms_of md = int (length (atoms mol))" and nb: "n_bonds_of md = int (length (bonds mol))"
    using c by (simp_all add: n_atoms_of_def n_bonds_of_def)
  have ec: "edge_count ei = 2 * int (length (bonds mol))" and tr: "two_rows ei"
    using e by (simp_all add: edge_count_def two_rows_def)
  from ok [unfolded locals_ok_def] have
    i1: "slices_ok (p_atom_slices a) (p_n_atoms_list a) (p_total_atoms a)" and
    i2: "p_n_atoms_list a = map n_atoms_of mols" and
    i3: "slices_ok (p_edge_slices a) (map edge_count (p_edge_indices a)) (p_total_edges a)" and
    i4: "map edge_count (p_edge_indices a) = map (\<lambda>md. 2 * n_bonds_of md) mols" and
    i5: "list_all two_rows (p_edge_indices a)" and
    i6: "length (p_smiles_list a) = length mols" and
    i7: "list_all2 (\<lambda>block md. conformer_block (conformers md) = Inr block) (p_coordinates a) mols" and
    i8: "list_all (\<lambda>md. 0 < n_atoms_of md) mols"
    by blast+
  have j1: "slices_ok (p_atom_slices a') (p_n_atoms_list a') (p_total_atoms a')"
    unfolding f by (rule slices_ok_snoc [OF i1])
  have j3: "slices_ok (p_edge_slices a') (map edge_count (p_edge_indices a')) (p_total_edges a')"
    unfolding f using slices_ok_snoc [OF i3, of "2 * int (length (bonds mol))"] by (simp add: ec)
  have j7: "list_all2 (\<lambda>block md. conformer_block (conformers md) = Inr block)
              (p_coordinates a') (mols @ [md])"
    unfolding f using i7 b by (simp add: list_all2_appendI)
  show ?thesis
    unfolding locals_ok_def
    using j1 j3 j7 i2 i4 i5 i6 i8 ne by (simp add: f na nb ec tr)
qed

lemma process_loop_ok:
  "locals_ok a mols \<Longrightarrow> process_loop gl files a items = Inr a' \<Longrightarrow>
   locals_ok a' (mols @ retained files items)"
proof (induction items arbitrary: a mols)
  case Nil
  then show ?case by simp
next
  case (Cons item items)
  obtain smiles sub_dic where item: "item = (smiles, sub_dic)" by (cases item)
  show ?case
  proof (cases "\<exists>p md. sub_dic = Some p \<and> map_of files p = Some md
                       \<and> map_of (props md) ''ensembleenergy'' \<noteq> None")
    case True
    then obtain p md where h: "sub_dic = Some p" "map_of files p = Some md"
      "map_of (props md) ''ensembleenergy'' \<noteq> None" by blast
    with Cons.prems(2) item obtain a1 where
      s: "process_mol gl a smiles md = Inr a1" and r: "process_loop gl files a1 items = Inr a'"
      by (auto simp: ebind_Inr_iff)
    from Cons.IH [OF locals_ok_step [OF Cons.prems(1) s] r] h item
    show ?thesis by simp
  next
    case False
    then have "process_loop gl files a (item # items) = process_loop gl files a items"
      and "retained files (item # items) = retained files items"
      by (auto simp: item split: option.splits)
    with Cons show ?thesis by simp
  qed
qed

lemma map_of_dict_update: "map_of (dict_update d e) = map_of d ++ map_of (rev e)"
  unfolding dict_update_def
proof (induction e arbitrary: d)
  case Nil
  then show ?case by simp
next
  case (Cons kv e)
  obtain k v where kv: "kv = (k, v)" by (cases kv)
  show ?case
    by (simp add: kv Cons.IH update_conv' map_add_upd_left map_add_def fun_eq_iff
             split: option.splits)
qed

lemma data_dict_of_Inr:
  assumes "data_dict_of nm a = Inr dd"
  shows "\<exists>e. cat_dim1 (p_edge_indices a) = Inr e
     \<and> p_n_atoms_list a \<noteq> []
     \<and> map_of dd ''smiles'' = Some (StrList (p_smiles_list a))
     \<and> map_of dd ''n_atoms'' = Some (Long1 (p_n_atoms_list a))
     \<and> map_of dd ''atom_slices'' = Some (Long1 (p_atom_slices a))
     \<and> map_of dd ''edge_slices'' = Some (Long1 (p_edge_slices a))
     \<and> map_of dd ''edge_indices'' = Some (Long2 e)
     \<and> map_of dd ''coordinates'' = Some (Tensor2 (concat (p_coordinates a)))"
  using assms
  by (auto simp: data_dict_of_def Let_def ebind_Inr_iff map_of_dict_update cat_dim0_def
           split: if_splits)

lemma slices_ok_sorted:
  assumes "slices_ok sl ns t" and "list_all (\<lambda>n. 0 \<le> n) ns"
  shows "sorted sl"
proof -
  from assms(1) have len: "length sl = length ns + 1"
    and d: "\<And>i. i < length ns \<Longrightarrow> sl ! (i + 1) - sl ! i = ns ! i"
    by (auto simp: slices_ok_def)
  have "sl ! i \<le> sl ! Suc i" if "Suc i < length sl" for i
  proof -
    from that len have i: "i < length ns" by simp
    with assms(2) have "0 \<le> ns ! i" by (simp add: list_all_length)
    with d [OF i] show ?thesis by simp
  qed
  then show ?thesis by (simp add: sorted_iff_nth_Suc)
qed

lemma cat_dim1_two_rows:
  assumes "cat_dim1 ts = Inr e" and "list_all two_rows ts"
  shows "length e = 2 \<and> list_all (\<lambda>row. int (length row) = sum_list (map edge_count ts)) e"
proof -
  from assms(1) obtain t ts' where ts: "ts = t # ts'"
    by (cases ts) (simp_all add: cat_dim1_def)
  from assms(2) ts have t2: "length t = 2" by (simp add: two_rows_def)
  have e: "e = [concat (map (\<lambda>t'. t' ! 0) ts), concat (map (\<lambda>t'. t' ! 1) ts)]"
  proof -
    have "[0..<2] = [0, Suc 0]" by (simp add: upt_rec)
    with assms(1) ts t2 show ?thesis
      by (auto simp: cat_dim1_def split: if_splits)
  qed
  have l0: "int (length (concat (map (\<lambda>t'. t' ! 0) us))) = sum_list (map edge_count us)" for us
    by (induction us) (simp_all add: edge_count_def)
  have l1: "list_all two_rows us \<Longrightarrow>
    int (length (concat (map (\<lambda>t'. t' ! 1) us))) = sum_list (map edge_count us)" for us
    by (induction us) (simp_all add: edge_count_def two_rows_def)
  show ?thesis using l0 [of ts] l1 [OF assms(2)] by (simp add: e)
qed


lemma process_Inr:
  assumes "snd (process nm gl w) = Inr ()"
  shows "\<exists>summary a dd.
      summary_json w = Some summary
    \<and> process_loop gl (pickle_files w) init_locals summary = Inr a
    \<and> data_dict_of nm a = Inr dd
    \<and> processed_pt (fst (process nm gl w)) = Some dd"
proof (cases "summary_json w")
  case None
  with assms show ?thesis by (simp add: process_def Let_def)
next
  case (Some summary)
  show ?thesis
  proof (cases "ebind (process_loop gl (pickle_files w) init_locals summary) (data_dict_of nm)")
    case (Inl e)
    with assms Some show ?thesis by (simp add: process_def Let_def)
  next
    case (Inr dd)
    then obtain a where "process_loop gl (pickle_files w) init_locals summary = Inr a"
      "data_dict_of nm a = Inr dd"
      by (auto simp: ebind_Inr_iff)
    moreover have "processed_pt (fst (process nm gl w)) = Some dd"
      using Some Inr by (simp add: process_def Let_def)
    ultimately show ?thesis using Some by blast
  qed
qed

section \<open>Claims about \<open>process\<close>\<close>

text \<open>
  C2. After \<open>process()\<close> completes, the cached offset tables \<open>atom_slices\<close> and
  \<open>edge_slices\<close> both start at 0, each has one more entry than there are retained
  molecules, both are non-decreasing, and for every molecule index \<open>i\<close> the difference
  \<open>atom_slices[i+1] - atom_slices[i]\<close> is \<open>n_atoms[i]\<close> (the number of atoms of the
  \<open>i\<close>-th retained molecule) and \<open>edge_slices[i+1] - edge_slices[i]\<close> is twice the number
  of its bonds; the concatenated \<open>edge_indices\<close> tensor has two rows of exactly
  \<open>edge_slices[-1]\<close> columns.
\<close>

theorem process_offset_tables:
  assumes "snd (process nm gl w) = Inr ()"
  shows "\<exists>summary data_dict atom_slices edge_slices n_atoms edge_indices.
      summary_json w = Some summary
    \<and> processed_pt (fst (process nm gl w)) = Some data_dict
    \<and> map_of data_dict ''atom_slices'' = Some (Long1 atom_slices)
    \<and> map_of data_dict ''edge_slices'' = Some (Long1 edge_slices)
    \<and> map_of data_dict ''n_atoms'' = Some (Long1 n_atoms)
    \<and> map_of data_dict ''edge_indices'' = Some (Long2 edge_indices)
    \<and> atom_slices ! 0 = 0 \<and> edge_slices ! 0 = 0
    \<and> length n_atoms = length (retained (pickle_files w) summary)
    \<and> length atom_slices = length n_atoms + 1
    \<and> length edge_slices = length n_atoms + 1
    \<and> sorted atom_slices \<and> sorted edge_slices
    \<and> (\<forall>i < length n_atoms.
          atom_slices ! (i + 1) - atom_slices ! i = n_atoms ! i
        \<and> n_atoms ! i = n_atoms_of (retained (pickle_files w) summary ! i)
        \<and> edge_slices ! (i + 1) - edge_slices ! i
            = 2 * n_bonds_of (retained (pickle_files w) summary ! i))
    \<and> length edge_indices = 2
    \<and> (\<forall>row \<in> set edge_indices. int (length row) = last edge_slices)"
proof -
  from process_Inr [OF assms] obtain summary a dd where
    s: "summary_json w = Some summary"
    and l: "process_loop gl (pickle_files w) init_locals summary = Inr a"
    and d: "data_dict_of nm a = Inr dd"
    and p: "processed_pt (fst (process nm gl w)) = Some dd"
    by blast
  define mols where "mols = retained (pickle_files w) summary"
  from process_loop_ok [OF locals_ok_init l] have "locals_ok a mols"
    by (simp add: mols_def)
  then have
    i1: "slices_ok (p_atom_slices a) (p_n_atoms_list a) (p_total_atoms a)" and
    i2: "p_n_atoms_list a = map n_atoms_of mols" and
    i3: "slices_ok (p_edge_slices a) (map edge_count (p_edge_indices a)) (p_total_edges a)" and
    i4: "map edge_count (p_edge_indices a) = map (\<lambda>md. 2 * n_bonds_of md) mols" and
    i5: "list_all two_rows (p_edge_indices a)"
    unfolding locals_ok_def by blast+
  from data_dict_of_Inr [OF d] obtain e where
    c: "cat_dim1 (p_edge_indices a) = Inr e"
    and m: "map_of dd ''n_atoms'' = Some (Long1 (p_n_atoms_list a))"
           "map_of dd ''atom_slices'' = Some (Long1 (p_atom_slices a))"
           "map_of dd ''edge_slices'' = Some (Long1 (p_edge_slices a))"
           "map_of dd ''edge_indices'' = Some (Long2 e)"
    by blast
  have ln: "length (p_n_atoms_list a) = length mols" by (simp add: i2)
  have le: "length (p_edge_indices a) = length mols"
    using arg_cong [OF i4, of length] by simp
  have a0: "p_atom_slices a ! 0 = 0" and al: "length (p_atom_slices a) = length (p_n_atoms_list a) + 1"
    and ad: "\<And>i. i < length mols \<Longrightarrow>
               p_atom_slices a ! (i + 1) - p_atom_slices a ! i = p_n_atoms_list a ! i"
    using i1 ln by (auto simp: slices_ok_def)
  have e0: "p_edge_slices a ! 0 = 0" and el: "length (p_edge_slices a) = length (p_n_atoms_list a) + 1"
    and ed: "\<And>i. i < length mols \<Longrightarrow>
               p_edge_slices a ! (i + 1) - p_edge_slices a ! i
                 = map edge_count (p_edge_indices a) ! i"
    and et: "last (p_edge_slices a) = sum_list (map edge_count (p_edge_indices a))"
    using i3 ln le by (auto simp: slices_ok_def)
  have sa: "sorted (p_atom_slices a)"
    by (rule slices_ok_sorted [OF i1]) (simp add: i2 list_all_iff n_atoms_of_def)
  have se: "sorted (p_edge_slices a)"
    by (rule slices_ok_sorted [OF i3]) (simp add: i4 list_all_iff n_bonds_of_def)
  from cat_dim1_two_rows [OF c i5] have e2: "length e = 2"
    and er: "\<forall>row \<in> set e. int (length row) = last (p_edge_slices a)"
    by (simp_all add: et list_all_iff)
  have diffs: "\<forall>i < length (p_n_atoms_list a).
          p_atom_slices a ! (i + 1) - p_atom_slices a ! i = p_n_atoms_list a ! i
        \<and> p_n_atoms_list a ! i = n_atoms_of (retained (pickle_files w) summary ! i)
        \<and> p_edge_slices a ! (i + 1) - p_edge_slices a ! i
            = 2 * n_bonds_of (retained (pickle_files w) summary ! i)"
  proof (intro allI impI)
    fix i assume "i < length (p_n_atoms_list a)"
    then have i: "i < length mols" by (simp add: ln)
    have "map edge_count (p_edge_indices a) ! i = 2 * n_bonds_of (mols ! i)"
      using i by (simp add: i4)
    with ad [OF i] ed [OF i] i show
      "p_atom_slices a ! (i + 1) - p_atom_slices a ! i = p_n_atoms_list a ! i
        \<and> p_n_atoms_list a ! i = n_atoms_of (retained (pickle_files w) summary ! i)
        \<and> p_edge_slices a ! (i + 1) - p_edge_slices a ! i
            = 2 * n_bonds_of (retained (pickle_files w) summary ! i)"
      by (simp add: i2 mols_def [symmetric])
  qed
  show ?thesis
    apply (rule exI [of _ summary])
    apply (rule exI [of _ dd])
    apply (rule exI [of _ "p_atom_slices a"])
    apply (rule exI [of _ "p_edge_slices a"])
    apply (rule exI [of _ "p_n_atoms_list a"])
    apply (rule exI [of _ e])
    using s p m a0 e0 ln al el sa se diffs e2 er
    apply (simp only: mols_def [symmetric])
    done
qed

theorem process_offset_tables_witness:
  "snd (process example_numerics example_goli example_world) = Inr () \<and>
   (\<exists>data_dict.
      processed_pt (fst (process example_numerics example_goli example_world)) = Some data_dict
    \<and> map_of data_dict ''atom_slices'' = Some (Long1 [0, 3, 5])
    \<and> map_of data_dict ''edge_slices'' = Some (Long1 [0, 4, 6])
    \<and> map_of data_dict ''n_atoms'' = Some (Long1 [3, 2])
    \<and> map_of data_dict ''edge_indices'' = Some (Long2 [[0, 0, 1, 2, 0, 1], [1, 2, 0, 0, 1, 0]]))"
proof -
  have h: "snd (process example_numerics example_goli example_world) = Inr ()"
    by code_simp
  have ev: "map_option (\<lambda>dd. (map_of dd ''atom_slices'', map_of dd ''edge_slices'',
                             map_of dd ''n_atoms'', map_of dd ''edge_indices''))
              (processed_pt (fst (process example_numerics example_goli example_world)))
         = Some (Some (Long1 [0, 3, 5]), Some (Long1 [0, 4, 6]), Some (Long1 [3, 2]),
                 Some (Long2 [[0, 0, 1, 2, 0, 1], [1, 2, 0, 0, 1, 0]]))"
    by code_simp
  from process_offset_tables [OF h] obtain data_dict where
    p: "processed_pt (fst (process example_numerics example_goli example_world)) = Some data_dict"
    by blast
  from ev have "map_of data_dict ''atom_slices'' = Some (Long1 [0, 3, 5])"
    "map_of data_dict ''edge_slices'' = Some (Long1 [0, 4, 6])"
    "map_of data_dict ''n_atoms'' = Some (Long1 [3, 2])"
    "map_of data_dict ''edge_indices'' = Some (Long2 [[0, 0, 1, 2, 0, 1], [1, 2, 0, 0, 1, 0]])"
    unfolding p by simp_all
  with h p show ?thesis by blast
qed

section \<open>Properties of the constructor\<close>

lemma snd_pbind_Inr_iff:
  "snd (pbind m f) = Inr y \<longleftrightarrow> (\<exists>x. snd m = Inr x \<and> snd (f x) = Inr y)"
proof (cases m)
  case (Pair out r)
  then show ?thesis
    by (cases r; cases "f (projr r)") (simp_all add: pbind_def)
qed

lemma snd_plift [simp]: "snd (plift m) = m"
  by (simp add: plift_def)

lemma snd_pprint [simp]: "snd (pprint s) = Inr ()"
  by (simp add: pprint_def)

lemma init_fields_Inr:
  assumes "snd (init_fields nm dg data_dict args rts) = Inr self"
  shows "\<exists>dd c tg.
      augment nm data_dict (a_features args) (a_features3d args) = Inr dd
    \<and> feature_tensor nm dd (a_features args) = Inr (features_tensor self)
    \<and> feature_tensor nm dd (a_features3d args) = Inr (features3d_tensor self)
    \<and> e_feature_tensor nm dd (a_e_features args) = Inr (e_features_tensor self)
    \<and> e_feature_tensor nm dd (a_e_features3d args) = Inr (e_features3d_tensor self)
    \<and> dict_get dd ''coordinates'' = Inr c
    \<and> slice_cols c 0 3 = Inr (coordinates self)
    \<and> emap (\<lambda>k. ebind (dict_get dd k) (\<lambda>v. Inr (k, v)))
         [''smiles'', ''edge_slices'', ''atom_slices'', ''n_atoms'', ''uniqueconfs'']
        = Inr (meta_dict self)
    \<and> init_targets nm dd args rts = Inr tg
    \<and> return_types self = rts"
  using assms unfolding init_fields_def
  apply (simp only: snd_pbind_Inr_iff snd_plift snd_pprint split_paired_Ex case_prod_conv)
  apply (elim exE conjE)
  apply (simp only: ebind_Inr_iff)
  apply (elim exE conjE)
  apply clarsimp
  done

lemma process_stdout: "stdout (fst (process nm gl w)) = stdout w @ [processing_message]"
  by (simp add: process_def Let_def split: option.splits sum.splits)

lemma process_raw:
  "summary_json (fst (process nm gl w)) = summary_json w"
  "pickle_files (fst (process nm gl w)) = pickle_files w"
  by (simp_all add: process_def Let_def split: option.splits sum.splits)

lemma process_Inl_cache:
  "snd (process nm gl w) = Inl e \<Longrightarrow> processed_pt (fst (process nm gl w)) = processed_pt w"
  by (auto simp: process_def Let_def split: option.splits sum.splits)

lemma init_invalid:
  assumes "find (\<lambda>rt. rt \<notin> set return_type_options) (init_return_types args) = Some rt"
  shows "init nm gl dg w args = (w, Inl (PyException (''return_type not supported: '' @ rt)))"
  using assms by (simp add: init_def Let_def)

lemma find_None_list_all:
  "find (\<lambda>x. \<not> P x) xs = None \<longleftrightarrow> list_all P xs"
  by (induction xs) auto

lemma init_cached:
  assumes "list_all (\<lambda>rt. rt \<in> set return_type_options) (init_return_types args)"
    and "processed_pt w = Some dd"
  shows "init nm gl dg w args
     = (w \<lparr> stdout := stdout w @ [''load pickle'', ''finish loading'']
                       @ fst (init_fields nm dg dd args (init_return_types args)) \<rparr>,
        snd (init_fields nm dg dd args (init_return_types args)))"
proof -
  have f: "find (\<lambda>rt. rt \<notin> set return_type_options) (init_return_types args) = None"
    using assms(1) by (simp add: find_None_list_all)
  show ?thesis
    by (simp add: init_def Let_def f assms(2) split: prod.splits)
qed

lemma init_process_fails:
  assumes "list_all (\<lambda>rt. rt \<in> set return_type_options) (init_return_types args)"
    and "processed_pt w = None" and "snd (process nm gl w) = Inl e"
  shows "init nm gl dg w args = (fst (process nm gl w), Inl e)"
proof -
  have f: "find (\<lambda>rt. rt \<notin> set return_type_options) (init_return_types args) = None"
    using assms(1) by (simp add: find_None_list_all)
  obtain w1 where p: "process nm gl w = (w1, Inl e)"
    using assms(3) by (cases "process nm gl w") auto
  show ?thesis
    by (simp add: init_def Let_def f assms(2) p)
qed

lemma init_process_ok:
  assumes "list_all (\<lambda>rt. rt \<in> set return_type_options) (init_return_types args)"
    and "processed_pt w = None" and "snd (process nm gl w) = Inr ()"
  shows "\<exists>dd. processed_pt (fst (process nm gl w)) = Some dd \<and>
     init nm gl dg w args
     = (fst (process nm gl w)
          \<lparr> stdout := stdout w @ [processing_message, ''load pickle'', ''finish loading'']
                       @ fst (init_fields nm dg dd args (init_return_types args)) \<rparr>,
        snd (init_fields nm dg dd args (init_return_types args)))"
proof -
  have f: "find (\<lambda>rt. rt \<notin> set return_type_options) (init_return_types args) = None"
    using assms(1) by (simp add: find_None_list_all)
  obtain w1 where p: "process nm gl w = (w1, Inr ())"
    using assms(3) by (cases "process nm gl w") auto
  from process_Inr [OF assms(3)] obtain dd where d: "processed_pt w1 = Some dd"
    by (auto simp: p)
  have s: "stdout w1 = stdout w @ [processing_message]"
    using process_stdout [of nm gl w] by (simp add: p)
  show ?thesis
    by (simp add: init_def Let_def f assms(2) p d s split: prod.splits)
qed

lemma init_targets_None:
  "''targets'' \<in> set rts \<Longrightarrow> a_target_tasks args = None \<Longrightarrow>
   init_targets nm dd args rts = Inl TypeError"
  by (simp add: init_targets_def)

lemma init_fields_no_target_tasks:
  assumes "''targets'' \<in> set rts" and "a_target_tasks args = None"
  shows "\<exists>e. snd (init_fields nm dg dd args rts) = Inl e"
proof (cases "snd (init_fields nm dg dd args rts)")
  case (Inl e)
  then show ?thesis by blast
next
  case (Inr self)
  from init_fields_Inr [OF Inr] obtain dd' tg where "init_targets nm dd' args rts = Inr tg"
    by blast
  with init_targets_None [OF assms, of nm dd'] show ?thesis by simp
qed

lemma init_no_target_tasks:
  assumes "''targets'' \<in> set (init_return_types args)" and "a_target_tasks args = None"
  shows "\<exists>e. snd (init nm gl dg w args) = Inl e"
proof (cases "list_all (\<lambda>rt. rt \<in> set return_type_options) (init_return_types args)")
  case False
  then obtain rt where
    "find (\<lambda>rt. rt \<notin> set return_type_options) (init_return_types args) = Some rt"
    by (cases "find (\<lambda>rt. rt \<notin> set return_type_options) (init_return_types args)")
       (auto simp: find_None_list_all)
  from init_invalid [OF this, of nm gl dg w] show ?thesis by simp
next
  case True
  show ?thesis
  proof (cases "processed_pt w")
    case (Some dd)
    from init_cached [OF True Some, of nm gl dg]
      init_fields_no_target_tasks [OF assms, of nm dg dd]
    show ?thesis by simp
  next
    case None
    show ?thesis
    proof (cases "snd (process nm gl w)")
      case (Inl e)
      from init_process_fails [OF True None Inl, of dg] show ?thesis by simp
    next
      case (Inr u)
      then have "snd (process nm gl w) = Inr ()" by simp
      from init_process_ok [OF True None this, of dg] obtain dd' where
        "snd (init nm gl dg w args)
           = snd (init_fields nm dg dd' args (init_return_types args))"
        by auto
      with init_fields_no_target_tasks [OF assms, of nm dg dd'] show ?thesis by simp
    qed
  qed
qed

lemma lines_pbind:
  "set (fst m) \<subseteq> P \<Longrightarrow> (\<And>x. set (fst (f x)) \<subseteq> P) \<Longrightarrow> set (fst (pbind m f)) \<subseteq> P"
proof -
  assume a: "set (fst m) \<subseteq> P" and b: "\<And>x. set (fst (f x)) \<subseteq> P"
  obtain out r where m: "m = (out, r)" by (cases m)
  show ?thesis
  proof (cases r)
    case (Inl e)
    with a m show ?thesis by (simp add: pbind_def)
  next
    case (Inr x)
    obtain out' r' where f: "f x = (out', r')" by (cases "f x")
    with b [of x] have "set out' \<subseteq> P" by simp
    with a m Inr f show ?thesis by (simp add: pbind_def)
  qed
qed

lemma lines_plift: "set (fst (plift m)) \<subseteq> P"
  by (simp add: plift_def)

lemma lines_pprint: "s \<in> P \<Longrightarrow> set (fst (pprint s)) \<subseteq> P"
  by (simp add: pprint_def)

lemma lines_if:
  "(c \<Longrightarrow> set (fst a) \<subseteq> P) \<Longrightarrow> (\<not> c \<Longrightarrow> set (fst b) \<subseteq> P)
   \<Longrightarrow> set (fst (if c then a else b)) \<subseteq> P"
  by simp

lemma lines_case_prod:
  "(\<And>a b. set (fst (f a b)) \<subseteq> P) \<Longrightarrow> set (fst (case_prod f x)) \<subseteq> P"
  by (cases x) simp

lemma init_fields_lines: "set (fst (init_fields nm dg data_dict args rts)) \<subseteq> init_lines"
  unfolding init_fields_def
  by (intro lines_pbind lines_plift lines_if lines_case_prod lines_pprint)
     (simp_all add: init_lines_def)

lemma processing_message_not_init_line: "processing_message \<notin> init_lines"
  by (simp add: init_lines_def processing_message_def)

lemma count_init_fields:
  "count_list (fst (init_fields nm dg dd args rts)) processing_message = 0"
  using init_fields_lines [of nm dg dd args rts] processing_message_not_init_line
  by (auto simp: count_list_0_iff)

lemma other_lines_not_processing:
  "''load pickle'' \<noteq> processing_message" "''finish loading'' \<noteq> processing_message"
  by (simp_all add: processing_message_def)

lemma process_runs_cached:
  assumes "list_all (\<lambda>rt. rt \<in> set return_type_options) (init_return_types args)"
    and "processed_pt w = Some dd"
  shows "process_runs w (fst (init nm gl dg w args)) = 0"
  by (simp add: init_cached [OF assms] process_runs_def count_init_fields
                other_lines_not_processing)

lemma process_runs_uncached:
  assumes "list_all (\<lambda>rt. rt \<in> set return_type_options) (init_return_types args)"
    and "processed_pt w = None"
  shows "process_runs w (fst (init nm gl dg w args)) = 1"
proof (cases "snd (process nm gl w)")
  case (Inl e)
  show ?thesis
    by (simp add: init_process_fails [OF assms Inl] process_runs_def process_stdout)
next
  case (Inr u)
  then have "snd (process nm gl w) = Inr ()" by simp
  from init_process_ok [OF assms this, of dg] obtain dd where
    "init nm gl dg w args
     = (fst (process nm gl w)
          \<lparr> stdout := stdout w @ [processing_message, ''load pickle'', ''finish loading'']
                       @ fst (init_fields nm dg dd args (init_return_types args)) \<rparr>,
        snd (init_fields nm dg dd args (init_return_types args)))"
    by blast
  then show ?thesis
    by (simp add: process_runs_def count_init_fields other_lines_not_processing)
qed

lemma init_cached_raw_independent:
  assumes "list_all (\<lambda>rt. rt \<in> set return_type_options) (init_return_types args)"
    and "processed_pt w = Some dd"
  shows "snd (init nm gl dg (w \<lparr> summary_json := s, pickle_files := p \<rparr>) args)
         = snd (init nm gl dg w args)"
proof -
  have "processed_pt (w \<lparr> summary_json := s, pickle_files := p \<rparr>) = Some dd"
    using assms(2) by simp
  from init_cached [OF assms(1) this, of nm gl dg] init_cached [OF assms, of nm gl dg]
  show ?thesis by simp
qed

lemma emap_dict_get:
  "emap (dict_get dd) ks = Inr ts \<Longrightarrow>
   list_all (\<lambda>k. map_of dd k \<noteq> None) ks \<and> ts = map (\<lambda>k. the (map_of dd k)) ks"
proof (induction ks arbitrary: ts)
  case Nil
  then show ?case by simp
next
  case (Cons k ks)
  from Cons.prems obtain v vs where
    v: "dict_get dd k = Inr v" and vs: "emap (dict_get dd) ks = Inr vs" and ts: "ts = v # vs"
    by (auto simp: ebind_Inr_iff)
  from v have "map_of dd k = Some v"
    by (simp add: dict_get_def split: option.splits)
  with Cons.IH [OF vs] ts show ?case by simp
qed

lemma feature_tensor_Inr:
  assumes "feature_tensor nm dd ks = Inr r"
  shows "(r = None \<longleftrightarrow> ks = []) \<and>
         (ks \<noteq> [] \<longrightarrow> list_all (\<lambda>k. map_of dd k \<noteq> None) ks \<and>
            (\<exists>t. cat_last nm (map (\<lambda>k. the (map_of dd k)) ks) = Inr t \<and> r = Some t))"
proof (cases "ks = []")
  case True
  with assms show ?thesis by (simp add: feature_tensor_def)
next
  case False
  with assms obtain ts t where "emap (dict_get dd) ks = Inr ts" "cat_last nm ts = Inr t"
    "r = Some t"
    by (auto simp: feature_tensor_def ebind_Inr_iff)
  with emap_dict_get [of dd ks ts] False show ?thesis by simp
qed

lemma e_feature_tensor_Inr:
  assumes "e_feature_tensor nm dd ks = Inr r"
  shows "(r = None \<longleftrightarrow> ks = []) \<and>
         (ks \<noteq> [] \<longrightarrow> list_all (\<lambda>k. map_of dd k \<noteq> None) ks \<and>
            (\<exists>t t'. cat_last nm (map (\<lambda>k. the (map_of dd k)) ks) = Inr t
                  \<and> float_cast nm t = Inr t' \<and> r = Some t'))"
proof (cases "ks = []")
  case True
  with assms show ?thesis by (simp add: e_feature_tensor_def)
next
  case False
  with assms obtain ts t t' where "emap (dict_get dd) ks = Inr ts" "cat_last nm ts = Inr t"
    "float_cast nm t = Inr t'" "r = Some t'"
    by (auto simp: e_feature_tensor_def ebind_Inr_iff)
  with emap_dict_get [of dd ks ts] False show ?thesis by simp
qed

lemma cat_last_Tensor2:
  assumes "ms \<noteq> []" and "list_all (\<lambda>m. length m = n) ms"
  shows "cat_last nm (map Tensor2 ms)
         = Inr (Tensor2 (map (\<lambda>i. concat (map (\<lambda>m. m ! i) ms)) [0..<n]))"
proof -
  obtain m ms' where ms: "ms = m # ms'" using assms(1) by (cases ms) auto
  have a: "list_all is_tensor (map Tensor2 ms)"
    by (simp add: list_all_iff)
  have b: "filter (\<lambda>t. \<not> is_empty_1d t) (map Tensor2 ms) = map Tensor2 ms"
    by (rule filter_True) auto
  have c: "\<not> list_all (\<lambda>t. long_rows2 t \<noteq> None) (map Tensor2 ms)"
    by (simp add: ms)
  have d: "list_all (\<lambda>t. rows2 nm t \<noteq> None) (map Tensor2 ms)"
    by (simp add: list_all_iff)
  have e: "map (\<lambda>t. the (rows2 nm t)) (map Tensor2 ms) = ms"
    by (induction ms) simp_all
  have f: "cat_dim1 ms = Inr (map (\<lambda>i. concat (map (\<lambda>m. m ! i) ms)) [0..<n])"
    using assms(2) by (simp add: cat_dim1_def ms list_all_iff)
  show ?thesis
    unfolding cat_last_def
    by (simp only: a b c d e f Let_def) (simp add: ms ebind_def)
qed

lemma augment_unchanged:
  assumes "augment nm dd fs fs3 = Inr dd'"
    and "''constant_ones'' \<notin> set fs \<union> set fs3"
    and "''standard_normal_noise'' \<notin> set fs \<union> set fs3"
  shows "dd' = dd"
  using assms by (simp add: augment_def ebind_def)

lemma augment_other_keys:
  assumes "augment nm dd fs fs3 = Inr dd'"
    and "k \<noteq> ''constant_ones''" and "k \<noteq> ''standard_normal_noise''"
  shows "map_of dd' k = map_of dd k"
  using assms
  by (auto simp: augment_def ebind_Inr_iff update_conv' split: if_splits)

lemma init_Inr:
  assumes "snd (init nm gl dg w args) = Inr self"
  shows "\<exists>dd. processed_pt (fst (init nm gl dg w args)) = Some dd
    \<and> snd (init_fields nm dg dd args (init_return_types args)) = Inr self
    \<and> (case processed_pt w of
          Some d \<Rightarrow> dd = d
        | None \<Rightarrow> snd (process nm gl w) = Inr () \<and> processed_pt (fst (process nm gl w)) = Some dd)"
proof (cases "find (\<lambda>rt. rt \<notin> set return_type_options) (init_return_types args)")
  case (Some rt)
  from init_invalid [OF Some, of nm gl dg w] assms show ?thesis by simp
next
  case None
  then have v: "list_all (\<lambda>rt. rt \<in> set return_type_options) (init_return_types args)"
    by (simp add: find_None_list_all)
  show ?thesis
  proof (cases "processed_pt w")
    case (Some d)
    from init_cached [OF v Some, of nm gl dg] assms Some show ?thesis by simp
  next
    case n: None
    show ?thesis
    proof (cases "snd (process nm gl w)")
      case (Inl e)
      from init_process_fails [OF v n Inl, of dg] assms show ?thesis by simp
    next
      case (Inr u)
      then have p: "snd (process nm gl w) = Inr ()" by simp
      from init_process_ok [OF v n p, of dg] assms n p show ?thesis by auto
    qed
  qed
qed

lemma py_slice_0_3: "py_slice r 0 3 = take 3 r"
  by (simp add: py_slice_def Let_def min_def)

lemma sum_list_const:
  "(\<And>x. x \<in> set xs \<Longrightarrow> f x = (c::nat)) \<Longrightarrow> sum_list (map f xs) = c * length xs"
  by (induction xs) simp_all

lemma length_positions_row: "i < length (positions m) \<Longrightarrow> length (positions m ! i) = 3"
  by (auto simp: positions_def split: prod.splits)

lemma process_loop_conformers:
  "process_loop gl files a items = Inr a' \<Longrightarrow>
   list_all (\<lambda>md. conformers md \<noteq> []) (retained files items)"
proof (induction items arbitrary: a)
  case Nil
  then show ?case by simp
next
  case (Cons item items)
  obtain smiles sub_dic where item: "item = (smiles, sub_dic)" by (cases item)
  show ?case
  proof (cases "\<exists>p md. sub_dic = Some p \<and> map_of files p = Some md
                       \<and> map_of (props md) ''ensembleenergy'' \<noteq> None")
    case True
    then obtain p md where h: "sub_dic = Some p" "map_of files p = Some md"
      "map_of (props md) ''ensembleenergy'' \<noteq> None" by blast
    with Cons.prems item obtain a1 where
      s: "process_mol gl a smiles md = Inr a1" and r: "process_loop gl files a1 items = Inr a'"
      by (auto simp: ebind_Inr_iff)
    from process_mol_Inr [OF s] have "conformers md \<noteq> []" by auto
    with Cons.IH [OF r] h item show ?thesis by simp
  next
    case False
    then have "process_loop gl files a (item # items) = process_loop gl files a items"
      and "retained files (item # items) = retained files items"
      by (auto simp: item split: option.splits)
    with Cons show ?thesis by simp
  qed
qed

lemma conformer_block_Inr:
  assumes b: "conformer_block cs = Inr block" and ne: "cs \<noteq> []"
    and ps: "ps = map positions (take 10 cs)
                  @ replicate (10 - length (take 10 cs)) (positions (hd cs))"
  shows "length ps = 10"
    and "list_all (\<lambda>p. length p = length (atoms (hd cs))) ps"
    and "block = map (\<lambda>i. concat (map (\<lambda>p. p ! i) ps)) [0..<length (atoms (hd cs))]"
    and "list_all (\<lambda>row. length row = 30) block"
    and "map (take 3) block = positions (hd cs)"
proof -
  obtain c cs' where cs: "cs = c # cs'" using ne by (cases cs) auto
  have hd: "hd (map positions (take 10 cs)) = positions (hd cs)"
    by (simp add: cs)
  have gen: "(let conformers = map positions xs;
                  conformers = (if length conformers < 10
                                then conformers @ replicate (10 - length conformers) (hd conformers)
                                else conformers)
              in cat_dim1 conformers)
             = cat_dim1 (map positions xs @ replicate (10 - length xs) (positions (hd xs)))"
    if "xs \<noteq> []" for xs :: "'a rd_mol list"
    using that by (auto simp: Let_def hd_map)
  have t: "take 10 cs \<noteq> []" and h: "hd (take 10 cs) = hd cs"
    by (simp_all add: cs)
  from gen [OF t] have "conformer_block cs
      = cat_dim1 (map positions (take 10 cs)
                  @ replicate (10 - length (take 10 cs)) (positions (hd (take 10 cs))))"
    unfolding conformer_block_def .
  then have cb: "conformer_block cs = cat_dim1 ps"
    by (simp only: ps h)
  show len: "length ps = 10" by (simp add: ps)
  obtain ts where pt: "ps = positions c # ts"
    by (simp add: ps cs)
  from b cb pt have all: "list_all (\<lambda>t'. length t' = length (positions c)) ts"
    and bl: "block = map (\<lambda>i. concat (map (\<lambda>t'. t' ! i) ps)) [0..<length (positions c)]"
    by (auto simp: cat_dim1_def split: if_splits)
  have n: "length (positions c) = length (atoms (hd cs))"
    by (simp add: positions_def cs)
  show "list_all (\<lambda>p. length p = length (atoms (hd cs))) ps"
    using all n by (simp add: pt)
  show "block = map (\<lambda>i. concat (map (\<lambda>p. p ! i) ps)) [0..<length (atoms (hd cs))]"
    using bl n by simp
  have pos: "\<exists>m. p = positions m" if "p \<in> set ps" for p
    using that by (auto simp: ps)
  have row: "length (p ! i) = 3" if "p \<in> set ps" "i < length (positions c)" for p i
  proof -
    from pos [OF that(1)] obtain m where m: "p = positions m" by blast
    from that(1) all have "length p = length (positions c)"
      by (auto simp: pt list_all_iff)
    with that(2) m show ?thesis by (simp add: length_positions_row)
  qed
  have "length (concat (map (\<lambda>p. p ! i) ps)) = 30" if "i < length (positions c)" for i
  proof -
    have "sum_list (map (\<lambda>p. length (p ! i)) ps) = 3 * length ps"
      by (rule sum_list_const) (simp add: row that)
    then show ?thesis by (simp add: length_concat comp_def len)
  qed
  then show "list_all (\<lambda>row. length row = 30) block"
    by (simp add: bl list_all_iff)
  have "take 3 (concat (map (\<lambda>p. p ! i) ps)) = positions c ! i"
    if "i < length (positions c)" for i
    using row [of "positions c" i] that by (simp add: pt)
  then have "map (take 3) block = map (\<lambda>i. positions c ! i) [0..<length (positions c)]"
    by (simp add: bl)
  also have "\<dots> = positions c" by (rule map_nth)
  finally show "map (take 3) block = positions (hd cs)" by (simp add: cs)
qed

lemma init_coordinates:
  assumes "snd (init nm gl dg w args) = Inr self"
    and "processed_pt w = Some cache"
    and "map_of cache ''coordinates'' = Some (Tensor2 rows)"
  shows "coordinates self = Tensor2 (map (take 3) rows)"
proof -
  from init_Inr [OF assms(1)] assms(2)
  have f: "snd (init_fields nm dg cache args (init_return_types args)) = Inr self"
    by auto
  from init_fields_Inr [OF f] obtain dd c where
    a: "augment nm cache (a_features args) (a_features3d args) = Inr dd"
    and g: "dict_get dd ''coordinates'' = Inr c"
    and s: "slice_cols c 0 3 = Inr (coordinates self)"
    by blast
  from augment_other_keys [OF a, of "''coordinates''"] assms(3)
  have "map_of dd ''coordinates'' = Some (Tensor2 rows)" by simp
  with g have "c = Tensor2 rows" by (simp add: dict_get_def)
  with s show ?thesis by (simp add: py_slice_0_3)
qed

lemma concat_take3_blocks:
  assumes "list_all2 (\<lambda>block md. map (take 3) block = positions (hd (conformers md))) blocks mols"
  shows "map (take 3) (concat blocks)
         = concat (map (\<lambda>md. positions (hd (conformers md))) mols)"
  using assms by (induction rule: list_all2_induct) (simp_all add: map_concat)

lemma cat_last_Long2:
  assumes "ms \<noteq> []" and "list_all (\<lambda>m. length m = n) ms"
  shows "cat_last nm (map Long2 ms)
         = Inr (Long2 (map (\<lambda>i. concat (map (\<lambda>m. m ! i) ms)) [0..<n]))"
proof -
  obtain m ms' where ms: "ms = m # ms'" using assms(1) by (cases ms) auto
  have a: "list_all is_tensor (map Long2 ms)"
    by (simp add: list_all_iff)
  have b: "filter (\<lambda>t. \<not> is_empty_1d t) (map Long2 ms) = map Long2 ms"
    by (rule filter_True) auto
  have c: "list_all (\<lambda>t. long_rows2 t \<noteq> None) (map Long2 ms)"
    by (simp add: list_all_iff)
  have e: "map (\<lambda>t. the (long_rows2 t)) (map Long2 ms) = ms"
    by (induction ms) simp_all
  have f: "cat_dim1 ms = Inr (map (\<lambda>i. concat (map (\<lambda>m. m ! i) ms)) [0..<n])"
    using assms(2) by (simp add: cat_dim1_def ms list_all_iff)
  show ?thesis
    unfolding cat_last_def
    by (simp only: a b c e f Let_def) (simp add: ms ebind_def)
qed

lemma cat_last_kinds:
  assumes "cat_last nm ts = Inr t"
  shows "(\<exists>m. t = Tensor2 m) \<or> (\<exists>m. t = Long2 m) \<or> (\<exists>v. t = Tensor1 v) \<or> (\<exists>v. t = Long1 v)"
  using assms unfolding cat_last_def
  by (auto simp: Let_def ebind_Inr_iff split: if_split_asm)

lemma float_cast_cases:
  assumes "float_cast nm t = Inr t'"
    and "(\<exists>m. t = Tensor2 m) \<or> (\<exists>m. t = Long2 m) \<or> (\<exists>v. t = Tensor1 v) \<or> (\<exists>v. t = Long1 v)"
  shows "(\<exists>m. t = Tensor2 m \<and> t' = Tensor2 (map (map (to_float nm)) m))
       \<or> (\<exists>m. t = Long2 m \<and> t' = Tensor2 (map (map (of_long nm)) m))
       \<or> (\<exists>v. t = Tensor1 v \<and> t' = Tensor1 (map (to_float nm) v))
       \<or> (\<exists>v. t = Long1 v \<and> t' = Tensor1 (map (of_long nm) v))"
  using assms by auto

lemma e_feature_tensor_cast:
  assumes "e_feature_tensor nm dd ks = Inr r"
  shows "(r = None \<longleftrightarrow> ks = []) \<and>
         (ks \<noteq> [] \<longrightarrow> list_all (\<lambda>k. map_of dd k \<noteq> None) ks \<and>
            (\<exists>t. cat_last nm (map (\<lambda>k. the (map_of dd k)) ks) = Inr t
               \<and> ((\<exists>m. t = Tensor2 m \<and> r = Some (Tensor2 (map (map (to_float nm)) m)))
                \<or> (\<exists>m. t = Long2 m \<and> r = Some (Tensor2 (map (map (of_long nm)) m)))
                \<or> (\<exists>v. t = Tensor1 v \<and> r = Some (Tensor1 (map (to_float nm) v)))
                \<or> (\<exists>v. t = Long1 v \<and> r = Some (Tensor1 (map (of_long nm) v))))))"
proof (cases "ks = []")
  case True
  with e_feature_tensor_Inr [OF assms] show ?thesis by simp
next
  case False
  with e_feature_tensor_Inr [OF assms] obtain t t' where
    l: "list_all (\<lambda>k. map_of dd k \<noteq> None) ks"
    and c: "cat_last nm (map (\<lambda>k. the (map_of dd k)) ks) = Inr t"
    and f: "float_cast nm t = Inr t'" and r: "r = Some t'"
    by blast
  from float_cast_cases [OF f cat_last_kinds [OF c]] r
  have "(\<exists>m. t = Tensor2 m \<and> r = Some (Tensor2 (map (map (to_float nm)) m)))
                \<or> (\<exists>m. t = Long2 m \<and> r = Some (Tensor2 (map (map (of_long nm)) m)))
                \<or> (\<exists>v. t = Tensor1 v \<and> r = Some (Tensor1 (map (to_float nm) v)))
                \<or> (\<exists>v. t = Long1 v \<and> r = Some (Tensor1 (map (of_long nm) v)))"
    by blast
  with False l c r show ?thesis by blast
qed

lemma ones_column_Inr:
  assumes "ones_column nm v = Inr ones"
  shows "\<exists>n. ((\<exists>xs. v = Long1 xs \<and> n = length xs) \<or> (\<exists>xs. v = Tensor1 xs \<and> n = length xs))
           \<and> ones = Tensor2 (replicate n [of_long nm 1])"
  using assms by (cases v) (auto simp: map_replicate_const)

lemma normal_like_Inr:
  assumes "normal_like nm v = Inr noise"
  shows "\<exists>n. ((\<exists>xs. v = Long1 xs \<and> n = length xs) \<or> (\<exists>xs. v = Tensor1 xs \<and> n = length xs))
           \<and> noise = Tensor1 (normal_draw nm n)"
  using assms by (cases v) auto

lemma augment_ones:
  assumes "augment nm dd fs fs3 = Inr dd'"
  shows "if ''constant_ones'' \<in> set fs \<union> set fs3
         then \<exists>v n. map_of dd ''atomic_numbers_long'' = Some v
                \<and> ((\<exists>xs. v = Long1 xs \<and> n = length xs) \<or> (\<exists>xs. v = Tensor1 xs \<and> n = length xs))
                \<and> map_of dd' ''constant_ones'' = Some (Tensor2 (replicate n [of_long nm 1]))
         else map_of dd' ''constant_ones'' = map_of dd ''constant_ones''"
proof -
  from assms obtain d1 where
    a: "(if ''constant_ones'' \<in> set fs \<or> ''constant_ones'' \<in> set fs3
            then ebind (dict_get dd ''atomic_numbers_long'') (\<lambda>v.
                 ebind (ones_column nm v) (\<lambda>ones.
                   Inr (AList.update ''constant_ones'' ones dd)))
            else Inr dd) = Inr d1"
    and b: "map_of dd' ''constant_ones'' = map_of d1 ''constant_ones''"
    unfolding augment_def
    by (auto simp: ebind_Inr_iff update_conv' split: if_split_asm)
  show ?thesis
  proof (cases "''constant_ones'' \<in> set fs \<union> set fs3")
    case True
    with a obtain v ones where
      g: "dict_get dd ''atomic_numbers_long'' = Inr v" and o: "ones_column nm v = Inr ones"
      and d: "d1 = AList.update ''constant_ones'' ones dd"
      by (auto simp: ebind_Inr_iff)
    from g have m: "map_of dd ''atomic_numbers_long'' = Some v"
      by (simp add: dict_get_def split: option.splits)
    from ones_column_Inr [OF o] obtain n where
      "(\<exists>xs. v = Long1 xs \<and> n = length xs) \<or> (\<exists>xs. v = Tensor1 xs \<and> n = length xs)"
      "ones = Tensor2 (replicate n [of_long nm 1])" by blast
    with m b d True show ?thesis by (auto simp: update_conv')
  next
    case False
    with a b show ?thesis by simp
  qed
qed

lemma augment_noise:
  assumes "augment nm dd fs fs3 = Inr dd'"
  shows "if ''standard_normal_noise'' \<in> set fs \<union> set fs3
         then \<exists>v n. map_of dd ''atomic_number_long'' = Some v
                \<and> ((\<exists>xs. v = Long1 xs \<and> n = length xs) \<or> (\<exists>xs. v = Tensor1 xs \<and> n = length xs))
                \<and> map_of dd' ''standard_normal_noise'' = Some (Tensor1 (normal_draw nm n))
         else map_of dd' ''standard_normal_noise'' = map_of dd ''standard_normal_noise''"
proof -
  from assms obtain d1 where
    a: "(if ''constant_ones'' \<in> set fs \<or> ''constant_ones'' \<in> set fs3
            then ebind (dict_get dd ''atomic_numbers_long'') (\<lambda>v.
                 ebind (ones_column nm v) (\<lambda>ones.
                   Inr (AList.update ''constant_ones'' ones dd)))
            else Inr dd) = Inr d1"
    and b: "(if ''standard_normal_noise'' \<in> set fs \<or> ''standard_normal_noise'' \<in> set fs3
             then ebind (dict_get d1 ''atomic_number_long'') (\<lambda>v.
                  ebind (normal_like nm v) (\<lambda>noise.
                    Inr (AList.update ''standard_normal_noise'' noise d1)))
             else Inr d1) = Inr dd'"
    unfolding augment_def by (auto simp: ebind_Inr_iff)
  from a have k: "map_of d1 k = map_of dd k" if "k \<noteq> ''constant_ones''" for k
    using that by (auto simp: ebind_Inr_iff update_conv' split: if_split_asm)
  show ?thesis
  proof (cases "''standard_normal_noise'' \<in> set fs \<union> set fs3")
    case True
    with b obtain v noise where
      g: "dict_get d1 ''atomic_number_long'' = Inr v" and o: "normal_like nm v = Inr noise"
      and d: "dd' = AList.update ''standard_normal_noise'' noise d1"
      by (auto simp: ebind_Inr_iff)
    from g have "map_of d1 ''atomic_number_long'' = Some v"
      by (simp add: dict_get_def split: option.splits)
    with k [of "''atomic_number_long''"] have m: "map_of dd ''atomic_number_long'' = Some v"
      by simp
    from normal_like_Inr [OF o] obtain n where
      "(\<exists>xs. v = Long1 xs \<and> n = length xs) \<or> (\<exists>xs. v = Tensor1 xs \<and> n = length xs)"
      "noise = Tensor1 (normal_draw nm n)" by blast
    with m d True show ?thesis by (auto simp: update_conv')
  next
    case False
    with b have "dd' = d1" by simp
    with k [of "''standard_normal_noise''"] False show ?thesis by simp
  qed
qed

section \<open>Claims about the constructor\<close>

text \<open>
  C8. Constructing \<open>GEOMqm9\<close> with all-default arguments raises an exception and
  produces no object, whatever the files hold: the default return types are
  \<open>['mol_graph', 'targets']\<close>, the default \<open>target_tasks\<close> is \<open>None\<close>, and whenever
  \<open>'targets'\<close> is among the return types and \<open>target_tasks\<close> is \<open>None\<close>, the read of
  \<open>target_tasks[0]\<close> is a \<open>TypeError\<close> and the constructor raises.
\<close>

theorem init_default_raises:
  "init_return_types (default_args :: 'f args) = [''mol_graph'', ''targets'']
   \<and> a_target_tasks (default_args :: 'f args) = None
   \<and> (\<forall>args :: 'f args.
         ''targets'' \<in> set (init_return_types args) \<and> a_target_tasks args = None
         \<longrightarrow> (\<forall>dd. init_targets nm dd args (init_return_types args) = Inl TypeError)
           \<and> (\<exists>e. snd (init nm gl (dg :: ('f, 'g) dgl) w args) = Inl e))
   \<and> (\<exists>e. snd (init nm gl (dg :: ('f, 'g) dgl) w default_args) = Inl e)"
proof -
  have r: "init_return_types (default_args :: 'f args) = [''mol_graph'', ''targets'']"
    and t: "a_target_tasks (default_args :: 'f args) = None"
    by (simp_all add: init_return_types_def default_args_def)
  have g: "(\<forall>dd. init_targets nm dd args (init_return_types args) = Inl TypeError)
           \<and> (\<exists>e. snd (init nm gl dg w args) = Inl e)"
    if "''targets'' \<in> set (init_return_types args) \<and> a_target_tasks args = None"
    for args :: "'f args"
    using that init_targets_None [of "init_return_types args" args nm]
      init_no_target_tasks [of args nm gl dg w] by blast
  have d: "\<exists>e. snd (init nm gl dg w (default_args :: 'f args)) = Inl e"
    by (rule init_no_target_tasks) (simp_all add: r t)
  from r t g d show ?thesis by blast
qed

theorem init_default_raises_witness:
  "''targets'' \<in> set (init_return_types (default_args :: int args))
   \<and> a_target_tasks (default_args :: int args) = None
   \<and> (\<exists>e. snd (init example_numerics example_goli example_dgl example_world default_args)
            = Inl e)
   \<and> snd (init example_numerics example_goli example_dgl example_world default_args)
       = Inl TypeError"
proof -
  have "case snd (init example_numerics example_goli example_dgl example_world default_args)
          of Inl e \<Rightarrow> e = TypeError | Inr s \<Rightarrow> False"
    by code_simp
  then have ev:
    "snd (init example_numerics example_goli example_dgl example_world default_args)
       = Inl TypeError"
    by (simp split: sum.splits)
  from init_default_raises [of example_numerics example_goli example_dgl example_world]
  have "init_return_types (default_args :: int args) = [''mol_graph'', ''targets'']"
    and "a_target_tasks (default_args :: int args) = None"
    and "\<exists>e. snd (init example_numerics example_goli example_dgl example_world default_args)
            = Inl e"
    by blast+
  with ev show ?thesis by simp
qed

text \<open>
  C3 (amended). For a constructor call whose return types all pass the check against
  \<open>return_type_options\<close>: \<open>process()\<close> is entered once if the cache file does not
  exist and not at all if it exists; if the cache file exists, or \<open>process()\<close> returns,
  the object is built from the data dictionary of the cache file, and if \<open>process()\<close>
  raises, the constructor raises the same exception; with the cache present the result
  of a construction does not depend on the raw records at all. As stated, for every
  call, the claim fails: with a return type that is not supported the constructor
  raises before it looks for the cache file, so \<open>process()\<close> is not entered although the
  cache file does not exist.
\<close>

theorem init_process_iff_no_cache:
  assumes "list_all (\<lambda>rt. rt \<in> set return_type_options) (init_return_types args)"
  shows "process_runs w (fst (init nm gl dg w args)) = (if processed_pt w = None then 1 else 0)
   \<and> (case processed_pt w of
         Some dd \<Rightarrow>
           processed_pt (fst (init nm gl dg w args)) = Some dd
         \<and> snd (init nm gl dg w args) = snd (init_fields nm dg dd args (init_return_types args))
       | None \<Rightarrow>
           (case snd (process nm gl w) of
              Inl e \<Rightarrow> snd (init nm gl dg w args) = Inl e
            | Inr u \<Rightarrow>
                (\<exists>dd. processed_pt (fst (process nm gl w)) = Some dd
                    \<and> processed_pt (fst (init nm gl dg w args)) = Some dd
                    \<and> snd (init nm gl dg w args)
                        = snd (init_fields nm dg dd args (init_return_types args)))))
   \<and> (processed_pt w \<noteq> None \<longrightarrow>
        (\<forall>s p. snd (init nm gl dg (w \<lparr> summary_json := s, pickle_files := p \<rparr>) args)
               = snd (init nm gl dg w args)))"
proof (cases "processed_pt w")
  case (Some dd)
  have "process_runs w (fst (init nm gl dg w args)) = 0"
    by (rule process_runs_cached [OF assms Some])
  moreover have "processed_pt (fst (init nm gl dg w args)) = Some dd"
    "snd (init nm gl dg w args) = snd (init_fields nm dg dd args (init_return_types args))"
    by (simp_all add: init_cached [OF assms Some] Some)
  moreover have "snd (init nm gl dg (w \<lparr> summary_json := s, pickle_files := p \<rparr>) args)
               = snd (init nm gl dg w args)" for s p
    by (rule init_cached_raw_independent [OF assms Some])
  ultimately show ?thesis using Some by simp
next
  case None
  have r: "process_runs w (fst (init nm gl dg w args)) = 1"
    by (rule process_runs_uncached [OF assms None])
  show ?thesis
  proof (cases "snd (process nm gl w)")
    case (Inl e)
    from init_process_fails [OF assms None Inl, of dg] r None Inl
    show ?thesis by simp
  next
    case (Inr u)
    then have "snd (process nm gl w) = Inr ()" by simp
    from init_process_ok [OF assms None this, of dg] obtain dd where
      "processed_pt (fst (process nm gl w)) = Some dd"
      "init nm gl dg w args
       = (fst (process nm gl w)
            \<lparr> stdout := stdout w @ [processing_message, ''load pickle'', ''finish loading'']
                         @ fst (init_fields nm dg dd args (init_return_types args)) \<rparr>,
          snd (init_fields nm dg dd args (init_return_types args)))"
      by blast
    with r None Inr show ?thesis by simp
  qed
qed

theorem init_process_iff_no_cache_witness:
  "list_all (\<lambda>rt. rt \<in> set return_type_options)
     (init_return_types (default_args \<lparr> a_return_types := Some [''coordinates''] \<rparr> :: int args))
   \<and> processed_pt example_world = None
   \<and> process_runs example_world
        (fst (init example_numerics example_goli example_dgl example_world
                (default_args \<lparr> a_return_types := Some [''coordinates''] \<rparr>))) = 1"
proof -
  have v: "list_all (\<lambda>rt. rt \<in> set return_type_options)
     (init_return_types (default_args \<lparr> a_return_types := Some [''coordinates''] \<rparr> :: int args))"
    by (simp add: init_return_types_def return_type_options_def)
  have n: "processed_pt example_world = None"
    by (simp add: example_world_def)
  from init_process_iff_no_cache [OF v, of example_world example_numerics example_goli example_dgl]
  have "process_runs example_world
        (fst (init example_numerics example_goli example_dgl example_world
                (default_args \<lparr> a_return_types := Some [''coordinates''] \<rparr>))) = 1"
    by (simp add: n)
  with v n show ?thesis by simp
qed

theorem init_process_iff_no_cache_counterexample:
  "processed_pt example_world = None
   \<and> init example_numerics example_goli example_dgl example_world
        (default_args \<lparr> a_return_types := Some [''bogus''] \<rparr>)
     = (example_world, Inl (PyException ''return_type not supported: bogus''))
   \<and> process_runs example_world
        (fst (init example_numerics example_goli example_dgl example_world
                (default_args \<lparr> a_return_types := Some [''bogus''] \<rparr>))) = 0"
proof -
  have n: "processed_pt example_world = None"
    by (simp add: example_world_def)
  have "find (\<lambda>rt. rt \<notin> set return_type_options)
          (init_return_types (default_args \<lparr> a_return_types := Some [''bogus''] \<rparr> :: int args))
        = Some ''bogus''"
    by (simp add: init_return_types_def return_type_options_def)
  from init_invalid [OF this, of example_numerics example_goli example_dgl example_world]
  have i: "init example_numerics example_goli example_dgl example_world
        (default_args \<lparr> a_return_types := Some [''bogus''] \<rparr>)
     = (example_world, Inl (PyException ''return_type not supported: bogus''))"
    by simp
  show ?thesis by (simp add: n i process_runs_def)
qed

text \<open>
  C7. When the constructor returns an object, \<open>features_tensor\<close> is \<open>None\<close> exactly
  when the \<open>features\<close> list is empty; otherwise every key of the list is in the data
  dictionary and \<open>features_tensor\<close> is \<open>torch.cat\<close> along the last dimension of the
  tensors \<open>data_dict[k]\<close>, taken in the order of the list. The same holds for
  \<open>features3d\<close>. For \<open>e_features\<close> and \<open>e_features3d\<close> the concatenation is cast to
  float: a float tensor is mapped element by element with \<open>to_float\<close>, an integer tensor
  element by element with \<open>of_long\<close>, and the result is a float tensor of the same
  shape in both cases. The data dictionary is the one of the cache file except for two
  keys: if \<open>'constant_ones'\<close> is requested, it holds a column of ones, one row per
  element of the cached \<open>'atomic_numbers_long'\<close>, and is as in the cache otherwise; if
  \<open>'standard_normal_noise'\<close> is requested, it holds one normal draw per element of the
  cached \<open>'atomic_number_long'\<close> (the key as the source spells it), and is as in the
  cache otherwise. For 2-D tensors with \<open>n\<close> rows each, float or integer, the
  concatenation has \<open>n\<close> rows, row \<open>i\<close> being the rows \<open>i\<close> of the tensors one after
  another.
\<close>

theorem init_feature_tensors:
  assumes "snd (init nm gl dg w args) = Inr self"
  shows "\<exists>cache data_dict.
      processed_pt (fst (init nm gl dg w args)) = Some cache
    \<and> (\<forall>k. k \<noteq> ''constant_ones'' \<and> k \<noteq> ''standard_normal_noise''
            \<longrightarrow> map_of data_dict k = map_of cache k)
    \<and> (if ''constant_ones'' \<in> set (a_features args) \<union> set (a_features3d args)
        then \<exists>v n. map_of cache ''atomic_numbers_long'' = Some v
               \<and> ((\<exists>xs. v = Long1 xs \<and> n = length xs) \<or> (\<exists>xs. v = Tensor1 xs \<and> n = length xs))
               \<and> map_of data_dict ''constant_ones'' = Some (Tensor2 (replicate n [of_long nm 1]))
        else map_of data_dict ''constant_ones'' = map_of cache ''constant_ones'')
    \<and> (if ''standard_normal_noise'' \<in> set (a_features args) \<union> set (a_features3d args)
        then \<exists>v n. map_of cache ''atomic_number_long'' = Some v
               \<and> ((\<exists>xs. v = Long1 xs \<and> n = length xs) \<or> (\<exists>xs. v = Tensor1 xs \<and> n = length xs))
               \<and> map_of data_dict ''standard_normal_noise'' = Some (Tensor1 (normal_draw nm n))
        else map_of data_dict ''standard_normal_noise'' = map_of cache ''standard_normal_noise'')
    \<and> (features_tensor self = None \<longleftrightarrow> a_features args = [])
    \<and> (a_features args \<noteq> [] \<longrightarrow>
          list_all (\<lambda>k. map_of data_dict k \<noteq> None) (a_features args)
        \<and> (\<exists>t. cat_last nm (map (\<lambda>k. the (map_of data_dict k)) (a_features args)) = Inr t
               \<and> features_tensor self = Some t))
    \<and> (features3d_tensor self = None \<longleftrightarrow> a_features3d args = [])
    \<and> (a_features3d args \<noteq> [] \<longrightarrow>
          list_all (\<lambda>k. map_of data_dict k \<noteq> None) (a_features3d args)
        \<and> (\<exists>t. cat_last nm (map (\<lambda>k. the (map_of data_dict k)) (a_features3d args)) = Inr t
               \<and> features3d_tensor self = Some t))
    \<and> (e_features_tensor self = None \<longleftrightarrow> a_e_features args = [])
    \<and> (a_e_features args \<noteq> [] \<longrightarrow>
          list_all (\<lambda>k. map_of data_dict k \<noteq> None) (a_e_features args)
        \<and> (\<exists>t. cat_last nm (map (\<lambda>k. the (map_of data_dict k)) (a_e_features args)) = Inr t
             \<and> ((\<exists>m. t = Tensor2 m
                     \<and> e_features_tensor self = Some (Tensor2 (map (map (to_float nm)) m)))
              \<or> (\<exists>m. t = Long2 m
                     \<and> e_features_tensor self = Some (Tensor2 (map (map (of_long nm)) m)))
              \<or> (\<exists>v. t = Tensor1 v
                     \<and> e_features_tensor self = Some (Tensor1 (map (to_float nm) v)))
              \<or> (\<exists>v. t = Long1 v
                     \<and> e_features_tensor self = Some (Tensor1 (map (of_long nm) v))))))
    \<and> (e_features3d_tensor self = None \<longleftrightarrow> a_e_features3d args = [])
    \<and> (a_e_features3d args \<noteq> [] \<longrightarrow>
          list_all (\<lambda>k. map_of data_dict k \<noteq> None) (a_e_features3d args)
        \<and> (\<exists>t. cat_last nm (map (\<lambda>k. the (map_of data_dict k)) (a_e_features3d args)) = Inr t
             \<and> ((\<exists>m. t = Tensor2 m
                     \<and> e_features3d_tensor self = Some (Tensor2 (map (map (to_float nm)) m)))
              \<or> (\<exists>m. t = Long2 m
                     \<and> e_features3d_tensor self = Some (Tensor2 (map (map (of_long nm)) m)))
              \<or> (\<exists>v. t = Tensor1 v
                     \<and> e_features3d_tensor self = Some (Tensor1 (map (to_float nm) v)))
              \<or> (\<exists>v. t = Long1 v
                     \<and> e_features3d_tensor self = Some (Tensor1 (map (of_long nm) v))))))
    \<and> (\<forall>ms n. ms \<noteq> [] \<and> list_all (\<lambda>m. length m = n) ms \<longrightarrow>
          cat_last nm (map Tensor2 ms)
          = Inr (Tensor2 (map (\<lambda>i. concat (map (\<lambda>m. m ! i) ms)) [0..<n]))
        \<and> cat_last nm (map Long2 ms)
          = Inr (Long2 (map (\<lambda>i. concat (map (\<lambda>m. m ! i) ms)) [0..<n])))"
proof -
  from init_Inr [OF assms] obtain cache where
    c: "processed_pt (fst (init nm gl dg w args)) = Some cache"
    and f: "snd (init_fields nm dg cache args (init_return_types args)) = Inr self"
    by blast
  from init_fields_Inr [OF f] obtain dd where
    a: "augment nm cache (a_features args) (a_features3d args) = Inr dd"
    and f1: "feature_tensor nm dd (a_features args) = Inr (features_tensor self)"
    and f2: "feature_tensor nm dd (a_features3d args) = Inr (features3d_tensor self)"
    and f3: "e_feature_tensor nm dd (a_e_features args) = Inr (e_features_tensor self)"
    and f4: "e_feature_tensor nm dd (a_e_features3d args) = Inr (e_features3d_tensor self)"
    by blast
  have k: "\<forall>k. k \<noteq> ''constant_ones'' \<and> k \<noteq> ''standard_normal_noise''
            \<longrightarrow> map_of dd k = map_of cache k"
    using augment_other_keys [OF a] by blast
  have m: "\<forall>ms n. ms \<noteq> [] \<and> list_all (\<lambda>m. length m = n) ms \<longrightarrow>
          cat_last nm (map Tensor2 ms)
          = Inr (Tensor2 (map (\<lambda>i. concat (map (\<lambda>m. m ! i) ms)) [0..<n]))
        \<and> cat_last nm (map Long2 ms)
          = Inr (Long2 (map (\<lambda>i. concat (map (\<lambda>m. m ! i) ms)) [0..<n]))"
    using cat_last_Tensor2 [of _ _ nm] cat_last_Long2 [of _ _ nm] by blast
  note g1 = feature_tensor_Inr [OF f1] and g2 = feature_tensor_Inr [OF f2]
    and g3 = e_feature_tensor_cast [OF f3] and g4 = e_feature_tensor_cast [OF f4]
  note o = augment_ones [OF a] and z = augment_noise [OF a]
  show ?thesis
    apply (rule exI [of _ cache])
    apply (rule exI [of _ dd])
    apply (intro conjI)
    using c apply assumption
    using k apply assumption
    using o apply assumption
    using z apply assumption
    using g1 apply blast
    using g1 apply blast
    using g2 apply blast
    using g2 apply blast
    using g3 [THEN conjunct1] apply assumption
    using g3 [THEN conjunct2] apply assumption
    using g4 [THEN conjunct1] apply assumption
    using g4 [THEN conjunct2] apply assumption
    using m apply assumption
    done
qed

theorem init_feature_tensors_witness:
  "\<exists>self cache.
       snd (init example_numerics example_goli example_dgl example_world
             (default_args \<lparr> a_return_types := Some [''coordinates''],
                a_features := [''degree'', ''constant_ones''], a_e_features := [''stereo''],
                a_e_features3d := [''edge_indices''] \<rparr>)) = Inr self
     \<and> processed_pt (fst (init example_numerics example_goli example_dgl example_world
             (default_args \<lparr> a_return_types := Some [''coordinates''],
                a_features := [''degree'', ''constant_ones''], a_e_features := [''stereo''],
                a_e_features3d := [''edge_indices''] \<rparr>))) = Some cache
     \<and> map_of cache ''degree'' = Some (Tensor2 [[7], [7], [7], [7], [7]])
     \<and> map_of cache ''constant_ones'' = None
     \<and> map_of cache ''atomic_numbers_long'' = Some (Long1 [8, 1, 1, 1, 9])
     \<and> map_of cache ''edge_indices'' = Some (Long2 [[0, 0, 1, 2, 0, 1], [1, 2, 0, 0, 1, 0]])
     \<and> features_tensor self = Some (Tensor2 [[7, 1], [7, 1], [7, 1], [7, 1], [7, 1]])
     \<and> features3d_tensor self = None
     \<and> e_features_tensor self = Some (Tensor2 [[8], [8], [8], [8], [8], [8]])
     \<and> e_features3d_tensor self = Some (Tensor2 [[0, 0, 1, 2, 0, 1], [1, 2, 0, 0, 1, 0]])"
proof -
  let ?args = "default_args \<lparr> a_return_types := Some [''coordinates''],
                a_features := [''degree'', ''constant_ones''], a_e_features := [''stereo''],
                a_e_features3d := [''edge_indices''] \<rparr> :: int args"
  let ?i = "init example_numerics example_goli example_dgl example_world ?args"
  have "case snd ?i of
          Inl e \<Rightarrow> False
        | Inr s \<Rightarrow> features_tensor s = Some (Tensor2 [[7, 1], [7, 1], [7, 1], [7, 1], [7, 1]])
             \<and> e_features_tensor s = Some (Tensor2 [[8], [8], [8], [8], [8], [8]])
             \<and> e_features3d_tensor s
                 = Some (Tensor2 [[0, 0, 1, 2, 0, 1], [1, 2, 0, 0, 1, 0]])"
    by code_simp
  then obtain self where
    s: "snd ?i = Inr self"
    and t: "features_tensor self = Some (Tensor2 [[7, 1], [7, 1], [7, 1], [7, 1], [7, 1]])"
      "e_features_tensor self = Some (Tensor2 [[8], [8], [8], [8], [8], [8]])"
      "e_features3d_tensor self = Some (Tensor2 [[0, 0, 1, 2, 0, 1], [1, 2, 0, 0, 1, 0]])"
    by (cases "snd ?i") simp_all
  have ev: "map_option (\<lambda>dd. (map_of dd ''degree'', map_of dd ''constant_ones'',
                              map_of dd ''atomic_numbers_long'', map_of dd ''edge_indices''))
              (processed_pt (fst ?i))
            = Some (Some (Tensor2 [[7], [7], [7], [7], [7]]), None,
                    Some (Long1 [8, 1, 1, 1, 9]),
                    Some (Long2 [[0, 0, 1, 2, 0, 1], [1, 2, 0, 0, 1, 0]]))"
    by code_simp
  obtain cache where
    c: "processed_pt (fst ?i) = Some cache"
    and f3: "features3d_tensor self = None \<longleftrightarrow> a_features3d ?args = []"
    using init_feature_tensors [OF s]
    apply (elim exE conjE)
    apply (rule that; assumption)
    done
  from f3 have n: "features3d_tensor self = None" by (simp add: default_args_def)
  from ev have m: "map_of cache ''degree'' = Some (Tensor2 [[7], [7], [7], [7], [7]])"
    "map_of cache ''constant_ones'' = None"
    "map_of cache ''atomic_numbers_long'' = Some (Long1 [8, 1, 1, 1, 9])"
    "map_of cache ''edge_indices'' = Some (Long2 [[0, 0, 1, 2, 0, 1], [1, 2, 0, 0, 1, 0]])"
    unfolding c by simp_all
  show ?thesis
    by (intro exI [of _ self] exI [of _ cache] conjI) (rule s c m t n)+
qed

text \<open>
  C10. When \<open>process()\<close> returns, every retained molecule has at least one conformer
  and its coordinate block is built from exactly ten position matrices: those of its
  first at most ten conformers, followed by copies of the first conformer's matrix when
  there are fewer than ten. The matrices have one row of three columns per atom, and
  row \<open>i\<close> of the block is the rows \<open>i\<close> of the ten matrices side by side, so every row
  of the cached \<open>'coordinates'\<close> tensor, the blocks stacked in order, has 30 columns.
  A constructor that then returns an object keeps in \<open>self.coordinates\<close> the first three
  columns of every row, which are the positions of each molecule's first conformer.
\<close>

theorem process_pads_conformers:
  assumes "snd (process nm gl w) = Inr ()"
  shows "\<exists>summary cache blocks.
      summary_json w = Some summary
    \<and> processed_pt (fst (process nm gl w)) = Some cache
    \<and> map_of cache ''coordinates'' = Some (Tensor2 (concat blocks))
    \<and> list_all2
         (\<lambda>block md.
            conformers md \<noteq> []
          \<and> (\<exists>ps. ps = map positions (take 10 (conformers md))
                       @ replicate (10 - length (take 10 (conformers md)))
                           (positions (hd (conformers md)))
                \<and> length ps = 10
                \<and> list_all (\<lambda>p. length p = length (atoms (hd (conformers md)))) ps
                \<and> block = map (\<lambda>i. concat (map (\<lambda>p. p ! i) ps))
                              [0..<length (atoms (hd (conformers md)))])
          \<and> map (take 3) block = positions (hd (conformers md)))
         blocks (retained (pickle_files w) summary)
    \<and> list_all (\<lambda>row. length row = 30) (concat blocks)
    \<and> (\<forall>nm' gl' (dg :: ('f, 'g) dgl) args self.
          snd (init nm' gl' dg (fst (process nm gl w)) args) = Inr self \<longrightarrow>
            coordinates self = Tensor2 (map (take 3) (concat blocks))
          \<and> coordinates self
              = Tensor2 (concat (map (\<lambda>md. positions (hd (conformers md)))
                                   (retained (pickle_files w) summary))))"
proof -
  from process_Inr [OF assms] obtain summary a dd where
    s: "summary_json w = Some summary"
    and l: "process_loop gl (pickle_files w) init_locals summary = Inr a"
    and d: "data_dict_of nm a = Inr dd"
    and c: "processed_pt (fst (process nm gl w)) = Some dd"
    by blast
  let ?mols = "retained (pickle_files w) summary"
  from process_loop_ok [OF locals_ok_init l]
  have "locals_ok a ?mols" by simp
  then have b: "list_all2 (\<lambda>block md. conformer_block (conformers md) = Inr block)
                  (p_coordinates a) ?mols"
    unfolding locals_ok_def by blast
  from process_loop_conformers [OF l]
  have ne: "list_all (\<lambda>md. conformers md \<noteq> []) ?mols" .
  from data_dict_of_Inr [OF d]
  have m: "map_of dd ''coordinates'' = Some (Tensor2 (concat (p_coordinates a)))" by blast
  have len: "length (p_coordinates a) = length ?mols"
    using b by (rule list_all2_lengthD)
  have each: "conformers md \<noteq> []
      \<and> (\<exists>ps. ps = map positions (take 10 (conformers md))
                   @ replicate (10 - length (take 10 (conformers md)))
                       (positions (hd (conformers md)))
            \<and> length ps = 10
            \<and> list_all (\<lambda>p. length p = length (atoms (hd (conformers md)))) ps
            \<and> block = map (\<lambda>i. concat (map (\<lambda>p. p ! i) ps))
                          [0..<length (atoms (hd (conformers md)))])
      \<and> map (take 3) block = positions (hd (conformers md))
      \<and> list_all (\<lambda>row. length row = 30) block"
    if "conformer_block (conformers md) = Inr block" "conformers md \<noteq> []" for block md
    using conformer_block_Inr [OF that refl] that(2) by blast
  have pair: "conformer_block (conformers (?mols ! i)) = Inr (p_coordinates a ! i)
              \<and> conformers (?mols ! i) \<noteq> []" if "i < length ?mols" for i
    using that b ne len by (simp add: list_all2_conv_all_nth list_all_length)
  have l2: "list_all2
         (\<lambda>block md.
            conformers md \<noteq> []
          \<and> (\<exists>ps. ps = map positions (take 10 (conformers md))
                       @ replicate (10 - length (take 10 (conformers md)))
                           (positions (hd (conformers md)))
                \<and> length ps = 10
                \<and> list_all (\<lambda>p. length p = length (atoms (hd (conformers md)))) ps
                \<and> block = map (\<lambda>i. concat (map (\<lambda>p. p ! i) ps))
                              [0..<length (atoms (hd (conformers md)))])
          \<and> map (take 3) block = positions (hd (conformers md)))
         (p_coordinates a) ?mols"
    unfolding list_all2_conv_all_nth
  proof (intro conjI allI impI)
    show "length (p_coordinates a) = length ?mols" by (rule len)
  next
    fix i assume "i < length (p_coordinates a)"
    then have "i < length ?mols" by (simp add: len)
    from pair [OF this] show "conformers (?mols ! i) \<noteq> []" by blast
  next
    fix i assume "i < length (p_coordinates a)"
    then have "i < length ?mols" by (simp add: len)
    from pair [OF this] each [of "?mols ! i" "p_coordinates a ! i"]
    show "\<exists>ps. ps = map positions (take 10 (conformers (?mols ! i)))
                       @ replicate (10 - length (take 10 (conformers (?mols ! i))))
                           (positions (hd (conformers (?mols ! i))))
                \<and> length ps = 10
                \<and> list_all (\<lambda>p. length p = length (atoms (hd (conformers (?mols ! i))))) ps
                \<and> p_coordinates a ! i = map (\<lambda>i. concat (map (\<lambda>p. p ! i) ps))
                              [0..<length (atoms (hd (conformers (?mols ! i))))]"
      by blast
  next
    fix i assume "i < length (p_coordinates a)"
    then have "i < length ?mols" by (simp add: len)
    from pair [OF this] each [of "?mols ! i" "p_coordinates a ! i"]
    show "map (take 3) (p_coordinates a ! i) = positions (hd (conformers (?mols ! i)))"
      by blast
  qed
  have r30: "list_all (\<lambda>row. length row = 30) (concat (p_coordinates a))"
  proof -
    have "list_all (\<lambda>row. length row = 30) (p_coordinates a ! i)"
      if "i < length (p_coordinates a)" for i
    proof -
      from that have "i < length ?mols" by (simp add: len)
      from pair [OF this] each [of "?mols ! i" "p_coordinates a ! i"] show ?thesis by blast
    qed
    then have "\<forall>block \<in> set (p_coordinates a). list_all (\<lambda>row. length row = 30) block"
      by (auto simp: in_set_conv_nth)
    then show ?thesis by (auto simp: list_all_iff)
  qed
  have t3: "map (take 3) (concat (p_coordinates a))
            = concat (map (\<lambda>md. positions (hd (conformers md))) ?mols)"
    by (rule concat_take3_blocks) (rule list_all2_mono [OF l2], blast)
  have i: "coordinates self = Tensor2 (map (take 3) (concat (p_coordinates a)))
      \<and> coordinates self = Tensor2 (concat (map (\<lambda>md. positions (hd (conformers md))) ?mols))"
    if "snd (init nm' gl' dg (fst (process nm gl w)) args) = Inr self"
    for nm' gl' and dg :: "('f, 'g) dgl" and args self
    using init_coordinates [OF that c m] t3 by simp
  show ?thesis
    apply (rule exI [of _ summary])
    apply (rule exI [of _ dd])
    apply (rule exI [of _ "p_coordinates a"])
    apply (intro conjI)
    using s apply assumption
    using c apply assumption
    using m apply assumption
    using l2 apply assumption
    using r30 apply assumption
    using i apply blast
    done
qed

theorem process_pads_conformers_witness:
  "snd (process example_numerics example_goli example_world) = Inr ()
   \<and> (\<exists>cache rows.
        processed_pt (fst (process example_numerics example_goli example_world)) = Some cache
      \<and> map_of cache ''coordinates'' = Some (Tensor2 rows)
      \<and> list_all (\<lambda>row. length row = 30) rows
      \<and> rows = [[0, 0, 0, 0, 0, 5, 0, 0, 0, 0, 0, 0, 0, 0, 0, 0, 0, 0, 0, 0, 0, 0, 0, 0, 0, 0, 0, 0, 0, 0],
                [1, 0, 0, 1, 0, 5, 1, 0, 0, 1, 0, 0, 1, 0, 0, 1, 0, 0, 1, 0, 0, 1, 0, 0, 1, 0, 0, 1, 0, 0],
                [0, 1, 0, 0, 1, 5, 0, 1, 0, 0, 1, 0, 0, 1, 0, 0, 1, 0, 0, 1, 0, 0, 1, 0, 0, 1, 0, 0, 1, 0],
                [0, 0, 0, 0, 0, 0, 0, 0, 0, 0, 0, 0, 0, 0, 0, 0, 0, 0, 0, 0, 0, 0, 0, 0, 0, 0, 0, 0, 0, 0],
                [2, 0, 0, 2, 0, 0, 2, 0, 0, 2, 0, 0, 2, 0, 0, 2, 0, 0, 2, 0, 0, 2, 0, 0, 2, 0, 0, 2, 0, 0]])
   \<and> (\<exists>self. snd (init example_numerics example_goli example_dgl
                    (fst (process example_numerics example_goli example_world))
                    (default_args \<lparr> a_return_types := Some [''coordinates''] \<rparr>)) = Inr self
        \<and> coordinates self = Tensor2 [[0, 0, 0], [1, 0, 0], [0, 1, 0], [0, 0, 0], [2, 0, 0]])"
proof -
  let ?w = "fst (process example_numerics example_goli example_world)"
  let ?args = "default_args \<lparr> a_return_types := Some [''coordinates''] \<rparr> :: int args"
  have h: "snd (process example_numerics example_goli example_world) = Inr ()"
    by code_simp
  have ev: "map_option (\<lambda>dd. map_of dd ''coordinates'') (processed_pt ?w)
       = Some (Some (Tensor2
               [[0, 0, 0, 0, 0, 5, 0, 0, 0, 0, 0, 0, 0, 0, 0, 0, 0, 0, 0, 0, 0, 0, 0, 0, 0, 0, 0, 0, 0, 0],
                [1, 0, 0, 1, 0, 5, 1, 0, 0, 1, 0, 0, 1, 0, 0, 1, 0, 0, 1, 0, 0, 1, 0, 0, 1, 0, 0, 1, 0, 0],
                [0, 1, 0, 0, 1, 5, 0, 1, 0, 0, 1, 0, 0, 1, 0, 0, 1, 0, 0, 1, 0, 0, 1, 0, 0, 1, 0, 0, 1, 0],
                [0, 0, 0, 0, 0, 0, 0, 0, 0, 0, 0, 0, 0, 0, 0, 0, 0, 0, 0, 0, 0, 0, 0, 0, 0, 0, 0, 0, 0, 0],
                [2, 0, 0, 2, 0, 0, 2, 0, 0, 2, 0, 0, 2, 0, 0, 2, 0, 0, 2, 0, 0, 2, 0, 0, 2, 0, 0, 2, 0, 0]]))"
    by code_simp
  have "case snd (init example_numerics example_goli example_dgl ?w ?args) of
          Inl e \<Rightarrow> False | Inr s \<Rightarrow> True"
    by code_simp
  then obtain self where
    s: "snd (init example_numerics example_goli example_dgl ?w ?args) = Inr self"
    by (auto split: sum.splits)
  from process_pads_conformers [OF h, where ?'g = "(string \<times> int pyval) list"]
  obtain summary cache blocks where
    c: "processed_pt ?w = Some cache"
    and m: "map_of cache ''coordinates'' = Some (Tensor2 (concat blocks))"
    and r: "list_all (\<lambda>row. length row = 30) (concat blocks)"
    and i: "\<forall>nm' gl' (dg :: (int, (string \<times> int pyval) list) dgl) args self.
          snd (init nm' gl' dg ?w args) = Inr self \<longrightarrow>
            coordinates self = Tensor2 (map (take 3) (concat blocks))"
    by blast
  from ev c m have rows: "concat blocks =
               [[0, 0, 0, 0, 0, 5, 0, 0, 0, 0, 0, 0, 0, 0, 0, 0, 0, 0, 0, 0, 0, 0, 0, 0, 0, 0, 0, 0, 0, 0],
                [1, 0, 0, 1, 0, 5, 1, 0, 0, 1, 0, 0, 1, 0, 0, 1, 0, 0, 1, 0, 0, 1, 0, 0, 1, 0, 0, 1, 0, 0],
                [0, 1, 0, 0, 1, 5, 0, 1, 0, 0, 1, 0, 0, 1, 0, 0, 1, 0, 0, 1, 0, 0, 1, 0, 0, 1, 0, 0, 1, 0],
                [0, 0, 0, 0, 0, 0, 0, 0, 0, 0, 0, 0, 0, 0, 0, 0, 0, 0, 0, 0, 0, 0, 0, 0, 0, 0, 0, 0, 0, 0],
                [2, 0, 0, 2, 0, 0, 2, 0, 0, 2, 0, 0, 2, 0, 0, 2, 0, 0, 2, 0, 0, 2, 0, 0, 2, 0, 0, 2, 0, 0]]"
    by simp
  from i s have "coordinates self = Tensor2 (map (take 3) (concat blocks))" by blast
  then have cs: "coordinates self = Tensor2 [[0, 0, 0], [1, 0, 0], [0, 1, 0], [0, 0, 0], [2, 0, 0]]"
    by (simp add: rows)
  from h c m r rows s cs show ?thesis by blast
qed

section \<open>Lemmas about \<open>__getitem__\<close>\<close>

lemma frame_refl: "frame self self"
  by (simp add: frame_def)

lemma frame_pairwise: "frame self (self \<lparr> pairwise := pw \<rparr>)"
  by (simp add: frame_def)

lemma frame_rng: "frame self (self \<lparr> rng := r \<rparr>)"
  by (simp add: frame_def)

lemma frame_trans: "frame a b \<Longrightarrow> frame b c \<Longrightarrow> frame a c"
proof -
  assume ab: "frame a b" and bc: "frame b c"
  from ab have b: "b = a \<lparr> pairwise := pairwise b, rng := rng b \<rparr>" by (simp add: frame_def)
  from bc have "c = b \<lparr> pairwise := pairwise c, rng := rng c \<rparr>" by (simp add: frame_def)
  then have "c = (a \<lparr> pairwise := pairwise b, rng := rng b \<rparr>)
                   \<lparr> pairwise := pairwise c, rng := rng c \<rparr>"
    by (subst (asm) b) assumption
  then have "c = a \<lparr> pairwise := pairwise c, rng := rng c \<rparr>" by simp
  then show ?thesis by (simp add: frame_def)
qed

lemma get_complete_graph_frame:
  "get_complete_graph dg self idx n_atoms = Inr (g, s) \<Longrightarrow> frame self s"
  by (auto simp: get_complete_graph_def ebind_Inr_iff frame_refl frame_pairwise
           split: if_splits option.splits prod.splits)

lemma get_mol_complete_graph_frame:
  "get_mol_complete_graph dg self idx e_start e_end n_atoms = Inr (g, s) \<Longrightarrow> frame self s"
  by (auto simp: get_mol_complete_graph_def ebind_Inr_iff frame_refl frame_pairwise
           split: if_splits option.splits prod.splits)

lemma complete_graph_view_frame:
  assumes "complete_graph_view nm dg self ft eft idx e_start e_end start n_atoms = Inr (g, s)"
  shows "frame self s"
proof -
  from assms obtain g1 s1 where
    a: "get_complete_graph dg self idx n_atoms = Inr (g1, s1)"
    and b: "s = s1 \<or> (\<exists>pw. s = s1 \<lparr> pairwise := pw \<rparr>)"
    unfolding complete_graph_view_def
    by (auto simp: ebind_Inr_iff split: option.splits prod.splits)
  from b have "frame s1 s" by (auto simp: frame_refl frame_pairwise)
  with get_complete_graph_frame [OF a] show ?thesis by (rule frame_trans)
qed

lemma mol_complete_graph_view_frame:
  assumes "mol_complete_graph_view nm dg self idx e_start e_end start n_atoms = Inr (g, s)"
  shows "frame self s"
proof -
  from assms obtain g1 where
    a: "get_mol_complete_graph dg self idx e_start e_end n_atoms = Inr (g1, s)"
    unfolding mol_complete_graph_view_def
    by (auto simp: ebind_Inr_iff split: option.splits prod.splits)
  from get_mol_complete_graph_frame [OF a] show ?thesis .
qed

lemma san_graph_view_state:
  assumes "san_graph_view nm dg self idx e_start e_end start n_atoms = Inr (g, s)"
  shows "\<exists>g1 s1. get_complete_graph dg self idx n_atoms = Inr (g1, s1)
                \<and> s = s1 \<lparr> rng := rng s1 + 1 \<rparr>"
  using assms unfolding san_graph_view_def
  apply (auto simp: ebind_Inr_iff Let_def split: option.split_asm pyval.split_asm prod.split_asm)
  subgoal for a b y x xa xb xc by (cases xc) simp_all
  subgoal for a b x2 y x xa xb xc
    apply (cases xc; clarsimp)
    subgoal for v x' xb' by (cases xb') auto
    done
  done


lemma san_graph_view_frame:
  assumes "san_graph_view nm dg self idx e_start e_end start n_atoms = Inr (g, s)"
  shows "frame self s"
proof -
  from san_graph_view_state [OF assms] obtain g1 s1 where
    a: "get_complete_graph dg self idx n_atoms = Inr (g1, s1)"
    and b: "s = s1 \<lparr> rng := rng s1 + 1 \<rparr>"
    by blast
  from b have "frame s1 s" by (simp add: frame_rng)
  with get_complete_graph_frame [OF a] show ?thesis by (rule frame_trans)
qed

lemma frame_fields:
  assumes "frame self s"
  shows "meta_dict s = meta_dict self" and "return_types s = return_types self"
    and "coordinates s = coordinates self" and "features_tensor s = features_tensor self"
proof -
  from assms have f: "s = self \<lparr> pairwise := pairwise s, rng := rng s \<rparr>"
    by (simp add: frame_def)
  show "meta_dict s = meta_dict self" by (subst f) simp
  show "return_types s = return_types self" by (subst f) simp
  show "coordinates s = coordinates self" by (subst f) simp
  show "features_tensor s = features_tensor self" by (subst f) simp
qed

lemma data_by_type_unsupported:
  assumes "return_type \<notin> {''conformations'', ''mol_graph'', ''mol_graph3d'', ''complete_graph'',
      ''complete_graph3d'', ''mol_complete_graph'', ''san_graph'', ''se3Transformer_graph'',
      ''se3Transformer_graph3d'', ''raw_features'', ''coordinates'', ''uniqueconfs'', ''targets'',
      ''edge_indices'', ''smiles''}"
  shows "data_by_type nm dg self idx return_type e_start e_end start n_atoms
         = Inl (PyException (''return type not supported: '' @ return_type))"
  using assms unfolding data_by_type_def by simp


lemma data_by_type_branches:
  "data_by_type nm dg self idx ''conformations'' e_start e_end start n_atoms =
     ebind (atom_rows (conformations self) start n_atoms) (\<lambda>c.
     ebind (tensor_to nm (device self) c) (\<lambda>c. Inr (Value c, self)))"
  "data_by_type nm dg self idx ''mol_graph'' e_start e_end start n_atoms =
     ebind (mol_graph_view nm dg self (features_tensor self) (e_features_tensor self)
              idx e_start e_end start n_atoms) (\<lambda>g. Inr (Graph g, self))"
  "data_by_type nm dg self idx ''mol_graph3d'' e_start e_end start n_atoms =
     ebind (mol_graph_view nm dg self (features3d_tensor self) (e_features3d_tensor self)
              idx e_start e_end start n_atoms) (\<lambda>g. Inr (Graph g, self))"
  "data_by_type nm dg self idx ''complete_graph'' e_start e_end start n_atoms =
     ebind (complete_graph_view nm dg self (features_tensor self) (e_features_tensor self)
              idx e_start e_end start n_atoms) (\<lambda>(g, self). Inr (Graph g, self))"
  "data_by_type nm dg self idx ''complete_graph3d'' e_start e_end start n_atoms =
     ebind (complete_graph_view nm dg self (features3d_tensor self) (e_features3d_tensor self)
              idx e_start e_end start n_atoms) (\<lambda>(g, self). Inr (Graph g, self))"
  "data_by_type nm dg self idx ''mol_complete_graph'' e_start e_end start n_atoms =
     ebind (mol_complete_graph_view nm dg self idx e_start e_end start n_atoms)
       (\<lambda>(g, self). Inr (Graph g, self))"
  "data_by_type nm dg self idx ''san_graph'' e_start e_end start n_atoms =
     ebind (san_graph_view nm dg self idx e_start e_end start n_atoms)
       (\<lambda>(g, self). Inr (Graph g, self))"
  "data_by_type nm dg self idx ''se3Transformer_graph'' e_start e_end start n_atoms =
     ebind (se3_graph_view nm dg self False idx e_start e_end start n_atoms)
       (\<lambda>g. Inr (Graph g, self))"
  "data_by_type nm dg self idx ''se3Transformer_graph3d'' e_start e_end start n_atoms =
     ebind (se3_graph_view nm dg self True idx e_start e_end start n_atoms)
       (\<lambda>g. Inr (Graph g, self))"
  "data_by_type nm dg self idx ''raw_features'' e_start e_end start n_atoms =
     ebind (atom_rows (features_tensor self) start n_atoms) (\<lambda>t. Inr (Value t, self))"
  "data_by_type nm dg self idx ''coordinates'' e_start e_end start n_atoms =
     ebind (atom_rows (Some (coordinates self)) start n_atoms) (\<lambda>t. Inr (Value t, self))"
  "data_by_type nm dg self idx ''uniqueconfs'' e_start e_end start n_atoms =
     ebind (meta_at (meta_dict self) ''uniqueconfs'' idx) (\<lambda>t. Inr (Value t, self))"
  "data_by_type nm dg self idx ''targets'' e_start e_end start n_atoms =
     (case targets self of
        None \<Rightarrow> Inl (AttributeError ''targets'')
      | Some t \<Rightarrow> ebind (index_row t idx) (\<lambda>t. Inr (Value t, self)))"
  "data_by_type nm dg self idx ''edge_indices'' e_start e_end start n_atoms =
     ebind (dict_get (meta_dict self) ''edge_indices'') (\<lambda>v.
     ebind (edge_cols v e_start e_end) (\<lambda>t. Inr (Value t, self)))"
  "data_by_type nm dg self idx ''smiles'' e_start e_end start n_atoms =
     ebind (meta_at (meta_dict self) ''smiles'' idx) (\<lambda>t. Inr (Value t, self))"
  by (simp_all add: data_by_type_def)

lemma data_by_type_frame:
  assumes a: "data_by_type nm dg self idx return_type e_start e_end start n_atoms = Inr (v, s)"
  shows "frame self s"
proof (cases "return_type \<in> {''conformations'', ''mol_graph'', ''mol_graph3d'', ''complete_graph'',
      ''complete_graph3d'', ''mol_complete_graph'', ''san_graph'', ''se3Transformer_graph'',
      ''se3Transformer_graph3d'', ''raw_features'', ''coordinates'', ''uniqueconfs'', ''targets'',
      ''edge_indices'', ''smiles''}")
  case False
  from data_by_type_unsupported [OF False, of nm dg self idx e_start e_end start n_atoms] a
  show ?thesis by simp
next
  case True
  then have "return_type = ''conformations'' \<or> return_type = ''mol_graph''
    \<or> return_type = ''mol_graph3d'' \<or> return_type = ''complete_graph''
    \<or> return_type = ''complete_graph3d'' \<or> return_type = ''mol_complete_graph''
    \<or> return_type = ''san_graph'' \<or> return_type = ''se3Transformer_graph''
    \<or> return_type = ''se3Transformer_graph3d'' \<or> return_type = ''raw_features''
    \<or> return_type = ''coordinates'' \<or> return_type = ''uniqueconfs''
    \<or> return_type = ''targets'' \<or> return_type = ''edge_indices''
    \<or> return_type = ''smiles''"
    by (simp only: insert_iff empty_iff simp_thms)
  then show ?thesis
  proof (elim disjE, goal_cases)
    case 1
    with a show ?thesis
      by (auto simp only: data_by_type_branches ebind_Inr_iff frame_refl sum.inject prod.inject)
  next
    case 2
    with a show ?thesis
      by (auto simp only: data_by_type_branches ebind_Inr_iff frame_refl sum.inject prod.inject)
  next
    case 3
    with a show ?thesis
      by (auto simp only: data_by_type_branches ebind_Inr_iff frame_refl sum.inject prod.inject)
  next
    case 4
    with a obtain g where
      "complete_graph_view nm dg self (features_tensor self) (e_features_tensor self)
         idx e_start e_end start n_atoms = Inr (g, s)"
      by (auto simp only: data_by_type_branches ebind_Inr_iff sum.inject prod.inject
               split: prod.split_asm)
    then show ?thesis by (rule complete_graph_view_frame)
  next
    case 5
    with a obtain g where
      "complete_graph_view nm dg self (features3d_tensor self) (e_features3d_tensor self)
         idx e_start e_end start n_atoms = Inr (g, s)"
      by (auto simp only: data_by_type_branches ebind_Inr_iff sum.inject prod.inject
               split: prod.split_asm)
    then show ?thesis by (rule complete_graph_view_frame)
  next
    case 6
    with a obtain g where
      "mol_complete_graph_view nm dg self idx e_start e_end start n_atoms = Inr (g, s)"
      by (auto simp only: data_by_type_branches ebind_Inr_iff sum.inject prod.inject
               split: prod.split_asm)
    then show ?thesis by (rule mol_complete_graph_view_frame)
  next
    case 7
    with a obtain g where
      "san_graph_view nm dg self idx e_start e_end start n_atoms = Inr (g, s)"
      by (auto simp only: data_by_type_branches ebind_Inr_iff sum.inject prod.inject
               split: prod.split_asm)
    then show ?thesis by (rule san_graph_view_frame)
  next
    case 8
    with a show ?thesis
      by (auto simp only: data_by_type_branches ebind_Inr_iff frame_refl sum.inject prod.inject)
  next
    case 9
    with a show ?thesis
      by (auto simp only: data_by_type_branches ebind_Inr_iff frame_refl sum.inject prod.inject)
  next
    case 10
    with a show ?thesis
      by (auto simp only: data_by_type_branches ebind_Inr_iff frame_refl sum.inject prod.inject)
  next
    case 11
    with a show ?thesis
      by (auto simp only: data_by_type_branches ebind_Inr_iff frame_refl sum.inject prod.inject)
  next
    case 12
    with a show ?thesis
      by (auto simp only: data_by_type_branches ebind_Inr_iff frame_refl sum.inject prod.inject)
  next
    case 13
    with a show ?thesis
      by (auto simp only: data_by_type_branches ebind_Inr_iff frame_refl sum.inject prod.inject
               split: option.split_asm)
  next
    case 14
    with a show ?thesis
      by (auto simp only: data_by_type_branches ebind_Inr_iff frame_refl sum.inject prod.inject)
  next
    case 15
    with a show ?thesis
      by (auto simp only: data_by_type_branches ebind_Inr_iff frame_refl sum.inject prod.inject)
  qed
qed


lemma getitem_loop_raises:
  assumes "rt \<in> set rts"
    and "\<And>s. frame self s \<Longrightarrow>
           \<exists>e. data_by_type nm dg s idx rt e_start e_end start n_atoms = Inl e"
  shows "\<exists>e. getitem_loop nm dg idx e_start e_end start n_atoms self rts data = Inl e"
  using assms
proof (induction rts arbitrary: self data)
  case Nil
  then show ?case by simp
next
  case (Cons r rest)
  show ?case
  proof (cases "data_by_type nm dg self idx r e_start e_end start n_atoms")
    case (Inl e)
    then show ?thesis by (simp add: ebind_def)
  next
    case (Inr p)
    obtain v s1 where p: "p = (v, s1)" by (cases p)
    from Inr p have d: "data_by_type nm dg self idx r e_start e_end start n_atoms = Inr (v, s1)"
      by simp
    from Cons.prems(2) [OF frame_refl] d have "r \<noteq> rt" by auto
    with Cons.prems(1) have "rt \<in> set rest" by simp
    moreover have "\<exists>e. data_by_type nm dg s idx rt e_start e_end start n_atoms = Inl e"
      if "frame s1 s" for s
      using Cons.prems(2) [OF frame_trans [OF data_by_type_frame [OF d] that]] .
    ultimately have "\<exists>e. getitem_loop nm dg idx e_start e_end start n_atoms s1 rest (data @ [v])
                         = Inl e"
      by (rule Cons.IH)
    with d show ?thesis by (simp add: ebind_def)
  qed
qed



lemma getitem_raises:
  assumes "rt \<in> set (return_types self)"
    and "\<And>s e_start e_end start n_atoms. frame self s \<Longrightarrow>
           \<exists>e. data_by_type nm dg s idx rt e_start e_end start n_atoms = Inl e"
  shows "\<exists>e. getitem nm dg self idx = Inl e"
proof (cases "getitem nm dg self idx")
  case (Inl e)
  then show ?thesis by blast
next
  case (Inr p)
  then obtain e_start e_end start n_atoms where
    "getitem_loop nm dg idx e_start e_end start n_atoms self (return_types self) [] = Inr p"
    unfolding getitem_def by (auto simp: ebind_Inr_iff)
  moreover from getitem_loop_raises [OF assms(1), of self nm dg idx e_start e_end start n_atoms "[]"]
    assms(2)
  have "\<exists>e. getitem_loop nm dg idx e_start e_end start n_atoms self (return_types self) [] = Inl e"
    by blast
  ultimately show ?thesis by simp
qed

lemma emap_keys:
  "emap (\<lambda>k. ebind (dict_get dd k) (\<lambda>v. Inr (k, v))) ks = Inr m \<Longrightarrow>
   list_all (\<lambda>k. map_of dd k \<noteq> None) ks \<and> m = map (\<lambda>k. (k, the (map_of dd k))) ks"
proof (induction ks arbitrary: m)
  case Nil
  then show ?case by simp
next
  case (Cons k ks)
  from Cons.prems obtain v vs where
    v: "dict_get dd k = Inr v" and vs: "emap (\<lambda>k. ebind (dict_get dd k) (\<lambda>v. Inr (k, v))) ks = Inr vs"
    and m: "m = (k, v) # vs"
    by (auto simp: ebind_Inr_iff)
  from v have "map_of dd k = Some v"
    by (simp add: dict_get_def split: option.splits)
  with Cons.IH [OF vs] m show ?case by simp
qed

lemma init_meta_dict:
  assumes "snd (init nm gl dg w args) = Inr self"
  shows "\<exists>cache. processed_pt (fst (init nm gl dg w args)) = Some cache
     \<and> list_all (\<lambda>k. map_of cache k \<noteq> None)
          [''smiles'', ''edge_slices'', ''atom_slices'', ''n_atoms'', ''uniqueconfs'']
     \<and> meta_dict self = map (\<lambda>k. (k, the (map_of cache k)))
          [''smiles'', ''edge_slices'', ''atom_slices'', ''n_atoms'', ''uniqueconfs'']"
proof -
  from init_Inr [OF assms] obtain cache where
    c: "processed_pt (fst (init nm gl dg w args)) = Some cache"
    and f: "snd (init_fields nm dg cache args (init_return_types args)) = Inr self"
    by blast
  from init_fields_Inr [OF f] obtain dd where
    a: "augment nm cache (a_features args) (a_features3d args) = Inr dd"
    and m: "emap (\<lambda>k. ebind (dict_get dd k) (\<lambda>v. Inr (k, v)))
         [''smiles'', ''edge_slices'', ''atom_slices'', ''n_atoms'', ''uniqueconfs'']
        = Inr (meta_dict self)"
    by blast
  have k: "map_of dd k = map_of cache k"
    if "k \<in> set [''smiles'', ''edge_slices'', ''atom_slices'', ''n_atoms'', ''uniqueconfs'']" for k
    using augment_other_keys [OF a, of k] that by auto
  from emap_keys [OF m] have l: "list_all (\<lambda>k. map_of dd k \<noteq> None)
          [''smiles'', ''edge_slices'', ''atom_slices'', ''n_atoms'', ''uniqueconfs'']"
    and e: "meta_dict self = map (\<lambda>k. (k, the (map_of dd k)))
          [''smiles'', ''edge_slices'', ''atom_slices'', ''n_atoms'', ''uniqueconfs'']"
    by blast+
  have "list_all (\<lambda>k. map_of cache k \<noteq> None)
          [''smiles'', ''edge_slices'', ''atom_slices'', ''n_atoms'', ''uniqueconfs'']"
    using l k by simp
  moreover have "meta_dict self = map (\<lambda>k. (k, the (map_of cache k)))
          [''smiles'', ''edge_slices'', ''atom_slices'', ''n_atoms'', ''uniqueconfs'']"
    using e k by simp
  ultimately show ?thesis using c by blast
qed

lemma init_return_types_field:
  assumes "snd (init nm gl dg w args) = Inr self"
  shows "return_types self = init_return_types args"
proof -
  from init_Inr [OF assms] obtain cache where
    f: "snd (init_fields nm dg cache args (init_return_types args)) = Inr self"
    by blast
  from init_fields_Inr [OF f] show ?thesis by blast
qed

lemma init_no_edge_indices:
  assumes "snd (init nm gl dg w args) = Inr self"
  shows "map_of (meta_dict self) ''edge_indices'' = None"
proof -
  from init_meta_dict [OF assms] obtain cache where
    "meta_dict self = map (\<lambda>k. (k, the (map_of cache k)))
          [''smiles'', ''edge_slices'', ''atom_slices'', ''n_atoms'', ''uniqueconfs'']"
    by blast
  then show ?thesis by simp
qed

lemma frame_update: "frame obj (obj \<lparr> pairwise := pw, rng := r \<rparr>)"
  by (simp add: frame_def)

lemma unsupported_seven:
  assumes "rt \<in> set [''mol_id'', ''pairwise_distances'', ''pairwise_distances_squared'',
                    ''pairwise_indices'', ''dist_embedding'', ''one_hot_bond_types'',
                    ''atomic_number_long'']"
  shows "rt \<in> set return_type_options"
    and "data_by_type nm dg self idx rt e_start e_end start n_atoms
         = Inl (PyException (''return type not supported: '' @ rt))"
proof -
  from assms show "rt \<in> set return_type_options"
    by (auto simp: return_type_options_def)
  from assms have "rt \<notin> {''conformations'', ''mol_graph'', ''mol_graph3d'', ''complete_graph'',
      ''complete_graph3d'', ''mol_complete_graph'', ''san_graph'', ''se3Transformer_graph'',
      ''se3Transformer_graph3d'', ''raw_features'', ''coordinates'', ''uniqueconfs'', ''targets'',
      ''edge_indices'', ''smiles''}"
    by auto
  from data_by_type_unsupported [OF this, of nm dg self idx e_start e_end start n_atoms]
  show "data_by_type nm dg self idx rt e_start e_end start n_atoms
         = Inl (PyException (''return type not supported: '' @ rt))" .
qed

lemma edge_indices_KeyError:
  assumes "map_of (meta_dict self) ''edge_indices'' = None"
  shows "data_by_type nm dg self idx ''edge_indices'' e_start e_end start n_atoms
         = Inl (KeyError ''edge_indices'')"
  using assms by (simp add: data_by_type_branches dict_get_def ebind_def)























section \<open>Claims about \<open>__getitem__\<close>\<close>

text \<open>
  C9. The return types \<open>'mol_id'\<close>, \<open>'pairwise_distances'\<close>,
  \<open>'pairwise_distances_squared'\<close>, \<open>'pairwise_indices'\<close>, \<open>'dist_embedding'\<close>,
  \<open>'one_hot_bond_types'\<close> and \<open>'atomic_number_long'\<close> pass the constructor's check
  against \<open>return_type_options\<close>, but \<open>data_by_type\<close> has no branch for them: for every
  object, index and offsets it raises \<open>Exception('return type not supported: ', ...)\<close>,
  so \<open>__getitem__\<close> raises for every index when one of them is among the return
  types. \<open>'edge_indices'\<close> passes the check too; an object built by the constructor
  has no key \<open>'edge_indices'\<close> in \<open>meta_dict\<close>, so its branch raises a \<open>KeyError\<close> and
  \<open>__getitem__\<close> raises for every index when \<open>'edge_indices'\<close> is among the return
  types, also after earlier calls have written the memo of pairs or drawn random
  signs.
\<close>

theorem unhandled_return_types_raise:
  "(\<forall>rt \<in> set [''mol_id'', ''pairwise_distances'', ''pairwise_distances_squared'',
                 ''pairwise_indices'', ''dist_embedding'', ''one_hot_bond_types'',
                 ''atomic_number_long''].
       rt \<in> set return_type_options
     \<and> data_by_type nm dg self idx rt e_start e_end start n_atoms
         = Inl (PyException (''return type not supported: '' @ rt))
     \<and> (rt \<in> set (return_types self) \<longrightarrow> (\<exists>e. getitem nm dg self idx = Inl e)))
   \<and> ''edge_indices'' \<in> set return_type_options
   \<and> (snd (init nm gl dg w args) = Inr obj \<longrightarrow>
         map_of (meta_dict obj) ''edge_indices'' = None
       \<and> return_types obj = init_return_types args
       \<and> data_by_type nm dg (obj \<lparr> pairwise := pw, rng := r \<rparr>) idx ''edge_indices''
            e_start e_end start n_atoms
          = Inl (KeyError ''edge_indices'')
       \<and> (''edge_indices'' \<in> set (return_types obj) \<longrightarrow>
            (\<exists>e. getitem nm dg (obj \<lparr> pairwise := pw, rng := r \<rparr>) idx = Inl e)))"
proof (intro conjI ballI impI)
  fix rt
  assume rt: "rt \<in> set [''mol_id'', ''pairwise_distances'', ''pairwise_distances_squared'',
                 ''pairwise_indices'', ''dist_embedding'', ''one_hot_bond_types'',
                 ''atomic_number_long'']"
  from unsupported_seven(1) [OF rt] show "rt \<in> set return_type_options" .
  from unsupported_seven(2) [OF rt]
  show "data_by_type nm dg self idx rt e_start e_end start n_atoms
         = Inl (PyException (''return type not supported: '' @ rt))" .
  assume "rt \<in> set (return_types self)"
  then show "\<exists>e. getitem nm dg self idx = Inl e"
  proof (rule getitem_raises)
    fix s :: "('a, 'b) geomqm9" and e_start e_end start n_atoms
    from unsupported_seven(2) [OF rt, of nm dg s idx e_start e_end start n_atoms]
    show "\<exists>e. data_by_type nm dg s idx rt e_start e_end start n_atoms = Inl e" by blast
  qed
next
  show "''edge_indices'' \<in> set return_type_options"
    by (simp add: return_type_options_def)
next
  assume i: "snd (init nm gl dg w args) = Inr obj"
  from init_no_edge_indices [OF i]
  show n: "map_of (meta_dict obj) ''edge_indices'' = None" .
  from init_return_types_field [OF i]
  show "return_types obj = init_return_types args" .
  have m: "map_of (meta_dict s) ''edge_indices'' = None" if "frame obj s" for s
    using frame_fields(1) [OF that] n by simp
  from edge_indices_KeyError [OF m [OF frame_update]]
  show "data_by_type nm dg (obj \<lparr> pairwise := pw, rng := r \<rparr>) idx ''edge_indices''
            e_start e_end start n_atoms = Inl (KeyError ''edge_indices'')" .
  assume "''edge_indices'' \<in> set (return_types obj)"
  then have "''edge_indices'' \<in> set (return_types (obj \<lparr> pairwise := pw, rng := r \<rparr>))"
    by simp
  then show "\<exists>e. getitem nm dg (obj \<lparr> pairwise := pw, rng := r \<rparr>) idx = Inl e"
  proof (rule getitem_raises)
    fix s :: "('a, 'b) geomqm9" and e_start e_end start n_atoms
    assume "frame (obj \<lparr> pairwise := pw, rng := r \<rparr>) s"
    with frame_update have "frame obj s" by (rule frame_trans)
    from edge_indices_KeyError [OF m [OF this]]
    show "\<exists>e. data_by_type nm dg s idx ''edge_indices'' e_start e_end start n_atoms = Inl e"
      by blast
  qed
qed

theorem unhandled_return_types_raise_witness:
  "\<exists>obj.
      snd (init example_numerics example_goli example_dgl example_world
             (default_args \<lparr> a_return_types := Some [''edge_indices'', ''mol_id''] \<rparr>)) = Inr obj
    \<and> return_types obj = [''edge_indices'', ''mol_id'']
    \<and> map_of (meta_dict obj) ''edge_indices'' = None
    \<and> data_by_type example_numerics example_dgl obj 0 ''mol_id''
          (LongScalar 0) (LongScalar 4) (LongScalar 0) (LongScalar 3)
        = Inl (PyException ''return type not supported: mol_id'')
    \<and> data_by_type example_numerics example_dgl obj 0 ''edge_indices''
          (LongScalar 0) (LongScalar 4) (LongScalar 0) (LongScalar 3)
        = Inl (KeyError ''edge_indices'')
    \<and> getitem example_numerics example_dgl obj 0 = Inl (KeyError ''edge_indices'')"
proof -
  let ?args = "default_args \<lparr> a_return_types := Some [''edge_indices'', ''mol_id''] \<rparr> :: int args"
  have "case snd (init example_numerics example_goli example_dgl example_world ?args) of
          Inl e \<Rightarrow> False
        | Inr s \<Rightarrow> (case getitem example_numerics example_dgl s 0 of
                      Inl e \<Rightarrow> e = KeyError ''edge_indices'' | Inr p \<Rightarrow> False)"
    by code_simp
  then obtain obj where
    s: "snd (init example_numerics example_goli example_dgl example_world ?args) = Inr obj"
    and g0: "case getitem example_numerics example_dgl obj 0 of
               Inl e \<Rightarrow> e = KeyError ''edge_indices'' | Inr p \<Rightarrow> False"
    by (cases "snd (init example_numerics example_goli example_dgl example_world ?args)")
       simp_all
  from g0 have g: "getitem example_numerics example_dgl obj 0 = Inl (KeyError ''edge_indices'')"
    by (cases "getitem example_numerics example_dgl obj 0") simp_all
  have m: "''mol_id'' \<in> set [''mol_id'', ''pairwise_distances'', ''pairwise_distances_squared'',
                 ''pairwise_indices'', ''dist_embedding'', ''one_hot_bond_types'',
                 ''atomic_number_long'']"
    by simp
  note t = unhandled_return_types_raise [where nm = example_numerics and dg = example_dgl
      and gl = example_goli and w = example_world and args = ?args and obj = obj
      and self = obj and idx = 0 and e_start = "LongScalar 0" and e_end = "LongScalar 4"
      and start = "LongScalar 0" and n_atoms = "LongScalar 3"
      and pw = "pairwise obj" and r = "rng obj"]
  from t m have a: "data_by_type example_numerics example_dgl obj 0 ''mol_id''
          (LongScalar 0) (LongScalar 4) (LongScalar 0) (LongScalar 3)
        = Inl (PyException (''return type not supported: '' @ ''mol_id''))"
    by blast
  from t s have n: "map_of (meta_dict obj) ''edge_indices'' = None"
    and r: "return_types obj = init_return_types ?args"
    and b: "data_by_type example_numerics example_dgl
              (obj \<lparr> pairwise := pairwise obj, rng := rng obj \<rparr>) 0 ''edge_indices''
              (LongScalar 0) (LongScalar 4) (LongScalar 0) (LongScalar 3)
            = Inl (KeyError ''edge_indices'')"
    by blast+
  from r have r': "return_types obj = [''edge_indices'', ''mol_id'']"
    by (simp add: init_return_types_def)
  from a have a': "data_by_type example_numerics example_dgl obj 0 ''mol_id''
          (LongScalar 0) (LongScalar 4) (LongScalar 0) (LongScalar 3)
        = Inl (PyException ''return type not supported: mol_id'')"
    by simp
  from b have b': "data_by_type example_numerics example_dgl obj 0 ''edge_indices''
          (LongScalar 0) (LongScalar 4) (LongScalar 0) (LongScalar 3)
        = Inl (KeyError ''edge_indices'')"
    by simp
  show ?thesis
    by (intro exI [of _ obj] conjI) (rule s r' n a' b' g)+
qed









end
